theory Spec2Isabelle
  imports Main "HOL-Library.Sublist"
begin

section \<open>Python strings\<close>

text \<open>
  A Python \<^verbatim>\<open>str\<close> is a sequence of Unicode code points and \<^verbatim>\<open>len\<close> counts code
  points, so a string is a list of code points here (a \<^typ>\<open>nat\<close> each; every valid
  code point is one, and the theorems below hold for all lists). \<open>pstr\<close> turns an ASCII
  literal into such a string.
\<close>

type_synonym pystr = "nat list"

definition pstr :: "string \<Rightarrow> pystr" where
  "pstr s = map of_char s"

text \<open>\<^verbatim>\<open>s.strip(chars)\<close>: characters of \<open>chars\<close> are removed from both ends.\<close>

definition strip_chars :: "nat list \<Rightarrow> pystr \<Rightarrow> pystr" where
  "strip_chars chars s =
     rev (dropWhile (\<lambda>c. c \<in> set chars) (rev (dropWhile (\<lambda>c. c \<in> set chars) s)))"

section \<open>Filename sanitizer\<close>

text \<open>The character class \<^verbatim>\<open>[<>:"/\\|?*]\<close> of both sanitizers, as code points.\<close>

definition invalid_chars :: "nat list" where
  "invalid_chars = [60, 62, 58, 34, 47, 92, 124, 63, 42]"

text \<open>\<^verbatim>\<open>re.sub(r'[<>:"/\\|?*]', '_', filename)\<close>\<close>

definition sub_invalid :: "pystr \<Rightarrow> pystr" where
  "sub_invalid s = map (\<lambda>c. if c \<in> set invalid_chars then 95 else c) s"

text \<open>\<^verbatim>\<open>''.join(char if ord(char) < 128 else '_' for char in filename)\<close> (app/utils/helpers.py)\<close>

definition sub_non_ascii :: "pystr \<Rightarrow> pystr" where
  "sub_non_ascii s = map (\<lambda>c. if c < 128 then c else 95) s"

text \<open>
  \<^verbatim>\<open>re.sub(r'[^\x00-\x7F]+', '_', filename)\<close> (src/youtube_manager.py): every maximal run
  of non-ASCII characters becomes one underscore.
\<close>

fun sub_non_ascii_runs :: "pystr \<Rightarrow> pystr" where
  "sub_non_ascii_runs (c # d # cs) =
     (if 128 \<le> c \<and> 128 \<le> d then sub_non_ascii_runs (d # cs)
      else (if c < 128 then c else 95) # sub_non_ascii_runs (d # cs))"
| "sub_non_ascii_runs [c] = [if c < 128 then c else 95]"
| "sub_non_ascii_runs [] = []"

text \<open>\<^verbatim>\<open>re.sub(r'_+', '_', filename)\<close>: every maximal run of underscores becomes one.\<close>

fun sub_underscores :: "pystr \<Rightarrow> pystr" where
  "sub_underscores (c # d # cs) =
     (if c = 95 \<and> d = 95 then sub_underscores (d # cs) else c # sub_underscores (d # cs))"
| "sub_underscores [c] = [c]"
| "sub_underscores [] = []"

text \<open>
  \<^verbatim>\<open>os.path.splitext\<close> (the standard library's \<^verbatim>\<open>genericpath._splitext\<close> with separator
  \<^verbatim>\<open>/\<close> and extension separator \<^verbatim>\<open>.\<close>): the extension starts at the last dot, unless
  that dot is not after the last separator or only dots precede it in the last component.
  \<open>rfind\<close> is \<^verbatim>\<open>str.rfind\<close> for one character, \<open>-1\<close> when it does not occur.
\<close>

definition rfind :: "nat \<Rightarrow> pystr \<Rightarrow> int" where
  "rfind c s =
     (if c \<in> set s
      then int (length s) - 1 - int (length (takeWhile (\<lambda>x. x \<noteq> c) (rev s)))
      else - 1)"

definition splitext :: "pystr \<Rightarrow> pystr \<times> pystr" where
  "splitext p =
     (let sepIndex = rfind 47 p; dotIndex = rfind 46 p
      in if dotIndex > sepIndex \<and>
            list_ex (\<lambda>i. p ! i \<noteq> 46) [nat (sepIndex + 1)..<nat dotIndex]
         then (take (nat dotIndex) p, drop (nat dotIndex) p)
         else (p, []))"

text \<open>
  The statements of \<^verbatim>\<open>sanitize_filename\<close> before its length limit: replace the invalid
  characters, replace non-ASCII characters, collapse underscores, strip dots and spaces.
  app/utils/helpers.py, lines 65 to 74.
\<close>

definition clean_filename :: "pystr \<Rightarrow> pystr" where
  "clean_filename filename =
     strip_chars (pstr ''. '') (sub_underscores (sub_non_ascii (sub_invalid filename)))"

text \<open>app/utils/helpers.py, \<^verbatim>\<open>sanitize_filename\<close>.\<close>

definition sanitize_filename :: "pystr \<Rightarrow> pystr" where
  "sanitize_filename filename =
     (let filename = clean_filename filename
      in if length filename > 200
         then (case splitext filename of (name, ext) \<Rightarrow> take 196 name @ pstr ''...'' @ ext)
         else filename)"

text \<open>src/youtube_manager.py, \<^verbatim>\<open>sanitize_filename\<close>, lines 57 to 64 and the whole function.\<close>

definition clean_filename_legacy :: "pystr \<Rightarrow> pystr" where
  "clean_filename_legacy filename =
     strip_chars (pstr ''. '') (sub_underscores (sub_non_ascii_runs (sub_invalid filename)))"

definition sanitize_filename_legacy :: "pystr \<Rightarrow> pystr" where
  "sanitize_filename_legacy filename =
     (let filename = clean_filename_legacy filename
      in if length filename > 200 then take 196 filename @ pstr ''...'' else filename)"

text \<open>
  Predicates for stating what the sanitizer's steps establish: a character that is neither
  in the invalid class nor beyond ASCII, and a string without two adjacent underscores.
\<close>

definition clean_char :: "nat \<Rightarrow> bool" where
  "clean_char c = (c \<notin> set invalid_chars \<and> c < 128)"

fun no_double_underscore :: "pystr \<Rightarrow> bool" where
  "no_double_underscore (c # d # cs) = ((c \<noteq> 95 \<or> d \<noteq> 95) \<and> no_double_underscore (d # cs))"
| "no_double_underscore [c] = True"
| "no_double_underscore [] = True"


section \<open>Exceptions\<close>

text \<open>
  The exception classes of app/utils/exceptions.py and utils/exceptions.py (the classes of
  the same name in the two modules are one constructor here; \<open>YouTubeDataError\<close> exists in
  utils/exceptions.py only), followed by the exceptions of the libraries that the code
  catches by name, and \<open>OtherException\<close> for any other subclass of \<^verbatim>\<open>Exception\<close>. Every
  constructor carries \<^verbatim>\<open>str(e)\<close>.
\<close>

datatype exn =
    ValidationError pystr
  | ConfigurationError pystr
  | DownloadError pystr
  | ProcessingError pystr
  | UploadError pystr
  | GoogleSheetsError pystr
  | GoogleDriveError pystr
  | CleanupError pystr
  | YouTubeDataError pystr
  | YTDLError pystr
  | URLError pystr
  | SocketTimeout pystr
  | OSError pystr
  | HttpError pystr
  | SpreadsheetNotFound pystr
  | OtherException pystr

fun str_of :: "exn \<Rightarrow> pystr" where
  "str_of (ValidationError m) = m"
| "str_of (ConfigurationError m) = m"
| "str_of (DownloadError m) = m"
| "str_of (ProcessingError m) = m"
| "str_of (UploadError m) = m"
| "str_of (GoogleSheetsError m) = m"
| "str_of (GoogleDriveError m) = m"
| "str_of (CleanupError m) = m"
| "str_of (YouTubeDataError m) = m"
| "str_of (YTDLError m) = m"
| "str_of (URLError m) = m"
| "str_of (SocketTimeout m) = m"
| "str_of (OSError m) = m"
| "str_of (HttpError m) = m"
| "str_of (SpreadsheetNotFound m) = m"
| "str_of (OtherException m) = m"

text \<open>The classes derived from \<^verbatim>\<open>YouTubeManagerError\<close> in either module.\<close>

fun is_manager_error :: "exn \<Rightarrow> bool" where
  "is_manager_error (YTDLError m) = False"
| "is_manager_error (URLError m) = False"
| "is_manager_error (SocketTimeout m) = False"
| "is_manager_error (OSError m) = False"
| "is_manager_error (HttpError m) = False"
| "is_manager_error (SpreadsheetNotFound m) = False"
| "is_manager_error (OtherException m) = False"
| "is_manager_error e = True"

section \<open>Identifier extraction\<close>

text \<open>
  \<^verbatim>\<open>str.strip()\<close> removes the characters for which \<^verbatim>\<open>str.isspace\<close> holds, from both ends.
\<close>

definition is_space :: "nat \<Rightarrow> bool" where
  "is_space c =
     (c \<in> set [9, 10, 11, 12, 13, 28, 29, 30, 31, 32, 133, 160, 5760, 8232, 8233, 8239, 8287, 12288]
      \<or> (8192 \<le> c \<and> c \<le> 8202))"

definition strip :: "pystr \<Rightarrow> pystr" where
  "strip s = rev (dropWhile is_space (rev (dropWhile is_space s)))"

text \<open>
  \<^verbatim>\<open>re.match(r'^[a-zA-Z0-9_-]{11}$', s)\<close>: eleven characters of the class, and then the end
  of the string. In Python \<^verbatim>\<open>$\<close> matches at the end of the string and also just before a
  newline that ends the string.
\<close>

definition id_char :: "nat \<Rightarrow> bool" where
  "id_char c =
     ((97 \<le> c \<and> c \<le> 122) \<or> (65 \<le> c \<and> c \<le> 90) \<or> (48 \<le> c \<and> c \<le> 57) \<or> c = 95 \<or> c = 45)"

definition match_video_id :: "pystr \<Rightarrow> bool" where
  "match_video_id s =
     (11 \<le> length s \<and> list_all id_char (take 11 s) \<and> (drop 11 s = [] \<or> drop 11 s = [10]))"

text \<open>
  String operations of the validators: \<^verbatim>\<open>sub in s\<close>, \<^verbatim>\<open>s.startswith(p)\<close>,
  \<^verbatim>\<open>s.partition(sep)\<close> (\<open>None\<close> when \<open>sep\<close> does not occur), \<^verbatim>\<open>s.split(sep)[0]\<close>,
  \<^verbatim>\<open>s.split(sep)[1]\<close> (\<open>None\<close> stands for the \<^verbatim>\<open>IndexError\<close>), \<^verbatim>\<open>s.split('/')[-1]\<close> and
  \<^verbatim>\<open>s.lstrip('/')\<close>.
\<close>

fun contains :: "pystr \<Rightarrow> pystr \<Rightarrow> bool" where
  "contains sub [] = (sub = [])"
| "contains sub (c # cs) = (take (length sub) (c # cs) = sub \<or> contains sub cs)"

definition startswith :: "pystr \<Rightarrow> pystr \<Rightarrow> bool" where
  "startswith s p = (take (length p) s = p)"

fun partition_at :: "pystr \<Rightarrow> pystr \<Rightarrow> (pystr \<times> pystr) option" where
  "partition_at sep [] = (if sep = [] then Some ([], []) else None)"
| "partition_at sep (c # cs) =
     (if take (length sep) (c # cs) = sep then Some ([], drop (length sep) (c # cs))
      else map_option (\<lambda>(a, b). (c # a, b)) (partition_at sep cs))"

definition split_0 :: "pystr \<Rightarrow> pystr \<Rightarrow> pystr" where
  "split_0 sep s = (case partition_at sep s of None \<Rightarrow> s | Some (a, b) \<Rightarrow> a)"

definition split_1 :: "pystr \<Rightarrow> pystr \<Rightarrow> pystr option" where
  "split_1 sep s = (case partition_at sep s of None \<Rightarrow> None | Some (a, b) \<Rightarrow> Some (split_0 sep b))"

definition split_slash_last :: "pystr \<Rightarrow> pystr" where
  "split_slash_last s = rev (takeWhile (\<lambda>c. c \<noteq> 47) (rev s))"

definition lstrip_slash :: "pystr \<Rightarrow> pystr" where
  "lstrip_slash s = dropWhile (\<lambda>c. c = 47) s"

text \<open>
  \<^verbatim>\<open>urllib.parse\<close> is the standard library's: \<^verbatim>\<open>urlparse\<close> and \<^verbatim>\<open>parse_qs\<close> are parameters
  of the validators. \<open>urlparse\<close> raises (\<open>Inl\<close>, with the message) or returns the fields
  that the validators read; \<open>parse_qs\<close> returns the dictionary as an association list.
\<close>

record parse_result =
  netloc :: pystr
  hostname :: "pystr option"
  path :: pystr
  query :: pystr

record urllib =
  urlparse :: "pystr \<Rightarrow> pystr + parse_result"
  parse_qs :: "pystr \<Rightarrow> (pystr \<times> pystr list) list"

text \<open>
  app/utils/validators.py, \<^verbatim>\<open>validate_youtube_url\<close>. \<open>url_video_id\<close> is the chain of
  \<^verbatim>\<open>if\<close>/\<^verbatim>\<open>elif\<close> on the parsed URL, lines 37 to 58: it gives the value of \<^verbatim>\<open>video_id\<close>
  (\<open>None\<close> for Python's \<^verbatim>\<open>None\<close>), or \<open>Inl\<close> when an index is out of range. Any exception
  other than \<^verbatim>\<open>ValidationError\<close> becomes the \<^verbatim>\<open>ValidationError\<close> of the last handler.
\<close>

definition youtube_hosts :: "pystr list" where
  "youtube_hosts = [pstr ''www.youtube.com'', pstr ''youtube.com'', pstr ''m.youtube.com'']"

definition url_video_id :: "urllib \<Rightarrow> parse_result \<Rightarrow> unit + pystr option" where
  "url_video_id lib parsed_url =
     (if hostname parsed_url \<in> set (map Some youtube_hosts) then
        (if path parsed_url \<in> set [pstr ''/watch'', pstr ''/shorts''] then
           (case map_of (parse_qs lib (query parsed_url)) (pstr ''v'') of
              None \<Rightarrow> Inr None
            | Some [] \<Rightarrow> Inl ()
            | Some (v # vs) \<Rightarrow> Inr (Some v))
         else if contains (pstr ''/shorts/'') (path parsed_url) then
           (case split_1 (pstr ''/shorts/'') (path parsed_url) of
              None \<Rightarrow> Inl () | Some v \<Rightarrow> Inr (Some (split_0 (pstr ''?'') v)))
         else if startswith (path parsed_url) (pstr ''/embed/'') then
           (case split_1 (pstr ''/embed/'') (path parsed_url) of
              None \<Rightarrow> Inl () | Some v \<Rightarrow> Inr (Some (split_0 (pstr ''?'') v)))
         else if startswith (path parsed_url) (pstr ''/v/'') then
           (case split_1 (pstr ''/v/'') (path parsed_url) of
              None \<Rightarrow> Inl () | Some v \<Rightarrow> Inr (Some (split_0 (pstr ''?'') v)))
         else Inr None)
      else if hostname parsed_url = Some (pstr ''youtu.be'') then
        (let video_id = lstrip_slash (path parsed_url)
         in Inr (Some (if 63 \<in> set video_id then split_0 (pstr ''?'') video_id else video_id)))
      else Inr None)"

definition invalid_url_message :: pystr where
  "invalid_url_message = pstr ''Invalid YouTube URL. Please provide a valid YouTube video URL.''"

definition validate_youtube_url :: "urllib \<Rightarrow> pystr \<Rightarrow> exn + pystr" where
  "validate_youtube_url lib url =
     (let url = strip url
      in if match_video_id url then Inr url
         else (case urlparse lib url of
                 Inl m \<Rightarrow> Inl (ValidationError invalid_url_message)
               | Inr parsed_url \<Rightarrow>
                   (case url_video_id lib parsed_url of
                      Inl u \<Rightarrow> Inl (ValidationError invalid_url_message)
                    | Inr None \<Rightarrow>
                        Inl (ValidationError (pstr ''Could not extract valid video ID from URL''))
                    | Inr (Some video_id) \<Rightarrow>
                        if video_id \<noteq> [] \<and> match_video_id video_id then Inr video_id
                        else Inl (ValidationError
                                    (pstr ''Could not extract valid video ID from URL'')))))"

text \<open>
  utils/validators.py, \<^verbatim>\<open>extract_video_id_from_url\<close> and \<^verbatim>\<open>validate_youtube_url\<close>. The
  three tests under a recognised host are independent \<^verbatim>\<open>if\<close>s, each returning when it
  applies.
\<close>

definition supported_formats_message :: pystr where
  "supported_formats_message =
     pstr ''Invalid YouTube URL format. Please provide a valid YouTube URL or video ID.''
     @ [10] @ pstr ''Supported formats:''
     @ [10] @ pstr ''- https://www.youtube.com/watch?v=VIDEO_ID''
     @ [10] @ pstr ''- https://youtu.be/VIDEO_ID''
     @ [10] @ pstr ''- https://youtube.com/shorts/VIDEO_ID''
     @ [10] @ pstr ''- VIDEO_ID (11 characters)''"

definition extract_video_id_from_url :: "urllib \<Rightarrow> pystr \<Rightarrow> exn + pystr" where
  "extract_video_id_from_url lib url =
     (if match_video_id url then Inr url
      else (case urlparse lib url of
              Inl m \<Rightarrow> Inl (ValidationError (pstr ''Error processing URL: '' @ m))
            | Inr parsed_url \<Rightarrow>
                if netloc parsed_url = pstr ''youtu.be'' then Inr (lstrip_slash (path parsed_url))
                else if netloc parsed_url \<in> set youtube_hosts then
                  (case (if contains (pstr ''watch'') (path parsed_url)
                         then map_of (parse_qs lib (query parsed_url)) (pstr ''v'') else None) of
                     Some [] \<Rightarrow> Inl (ValidationError (pstr ''Error processing URL: list index out of range''))
                   | Some (v # vs) \<Rightarrow> Inr v
                   | None \<Rightarrow>
                       if contains (pstr ''shorts'') (path parsed_url)
                       then Inr (split_slash_last (path parsed_url))
                       else if contains (pstr ''embed'') (path parsed_url)
                       then Inr (split_slash_last (path parsed_url))
                       else Inl (ValidationError supported_formats_message))
                else Inl (ValidationError supported_formats_message)))"

definition validate_youtube_url_legacy :: "urllib \<Rightarrow> pystr \<Rightarrow> exn + pystr" where
  "validate_youtube_url_legacy lib url =
     (if url = [] then Inl (ValidationError (pstr ''URL cannot be empty''))
      else (case extract_video_id_from_url lib (strip url) of
              Inl e \<Rightarrow> Inl e
            | Inr video_id \<Rightarrow>
                if match_video_id video_id then Inr video_id
                else Inl (ValidationError
                  (pstr ''Invalid video ID format. YouTube video IDs are 11 characters long.''))))"

text \<open>
  The values of \<^verbatim>\<open>urlparse\<close> and \<^verbatim>\<open>parse_qs\<close> in CPython at the arguments that the
  validators pass for the inputs used below, the empty string and
  \<^verbatim>\<open>https://www.youtube.com/watch?v=dQw4w9WgXcQ%0A\<close>: \<^verbatim>\<open>parse_qs\<close> decodes the escape \<^verbatim>\<open>%0A\<close>
  to a newline. Other arguments are not tabulated (the error and the empty dictionary stand
  for them).
\<close>

definition urllib_tabulated :: urllib where
  "urllib_tabulated =
     \<lparr>urlparse = (\<lambda>u.
        if u = pstr ''https://www.youtube.com/watch?v=dQw4w9WgXcQ%0A''
        then Inr \<lparr>netloc = pstr ''www.youtube.com'', hostname = Some (pstr ''www.youtube.com''),
                  path = pstr ''/watch'', query = pstr ''v=dQw4w9WgXcQ%0A''\<rparr>
        else if u = []
        then Inr \<lparr>netloc = [], hostname = None, path = [], query = []\<rparr>
        else Inl (pstr ''not tabulated'')),
      parse_qs = (\<lambda>q.
        if q = pstr ''v=dQw4w9WgXcQ%0A'' then [(pstr ''v'', [pstr ''dQw4w9WgXcQ'' @ [10]])]
        else [])\<rparr>"

section \<open>Collaborators, configuration and the observable world\<close>

text \<open>
  A \<^verbatim>\<open>pathlib.Path\<close> is the list of its components; \<open>path_str\<close> is \<^verbatim>\<open>str(path)\<close> with the
  separator \<^verbatim>\<open>/\<close>. \<open>join\<close> is \<^verbatim>\<open>sep.join(xs)\<close>.
\<close>

type_synonym ppath = "pystr list"

fun join :: "pystr \<Rightarrow> pystr list \<Rightarrow> pystr" where
  "join sep (x # y # ys) = x @ sep @ join sep (y # ys)"
| "join sep [x] = x"
| "join sep [] = []"

definition path_str :: "ppath \<Rightarrow> pystr" where
  "path_str p = join (pstr ''/'') p"

text \<open>
  The calls that the pipelines make on their collaborators: yt-dlp, the file system, the
  worksheet (gspread) and the Drive upload. Rows and columns of the worksheet count from 1.
\<close>

datatype fs_op = Mkdir ppath | Rename ppath ppath | Unlink ppath | Copy ppath ppath

datatype sheet_op =
    OpenByKey
  | RowValues nat
  | InsertRow "pystr list" nat
  | Clear
  | ColValues nat
  | AppendRow "pystr list"
  | Find pystr
  | UpdateCell nat nat pystr

datatype call =
    ExtractInfo pystr bool
  | YdlDownload pystr ppath
  | Fs fs_op
  | Sheets sheet_op
  | DriveUpload ppath

text \<open>
  The world that a run observes and changes: the rows of the worksheet (the header row
  first), the regular files with their sizes, and the calls issued so far, oldest first.
\<close>

record world =
  sheet :: "pystr list list"
  files :: "ppath \<Rightarrow> nat option"
  calls :: "call list"

definition add_call :: "call \<Rightarrow> world \<Rightarrow> world" where
  "add_call c w = w\<lparr>calls := calls w @ [c]\<rparr>"

text \<open>
  The fields of yt-dlp's info dictionary that the code reads. \<open>None\<close> in \<open>info_id\<close> and
  \<open>info_title\<close> is an absent key.
\<close>

record ydl_info =
  has_entries :: bool
  is_live :: bool
  age_limit :: int
  info_id :: "pystr option"
  info_title :: "pystr option"
  info_description :: pystr
  info_tags :: "pystr list"
  info_categories :: "pystr list"
  info_thumbnail :: pystr
  info_upload_date :: pystr

text \<open>The dictionary that \<^verbatim>\<open>YouTubeDownloader.get_video_info\<close> returns.\<close>

record video_info =
  vi_id :: pystr
  vi_title :: pystr
  vi_description :: pystr
  vi_tags :: pystr
  vi_category :: pystr
  vi_thumbnail :: pystr

text \<open>
  app/config/settings.py (the options that the pipeline reads) and config/config.py.
\<close>

record settings =
  BASE_DIR :: ppath
  PLAYLIST_ID :: "pystr option"
  KEEP_FILES :: bool
  UPLOAD_TO_DRIVE :: bool

definition VIDEO_DIR :: "settings \<Rightarrow> ppath" where
  "VIDEO_DIR s = BASE_DIR s @ [pstr ''storage'', pstr ''videos'']"

definition PROCESSED_DIR :: "settings \<Rightarrow> ppath" where
  "PROCESSED_DIR s = VIDEO_DIR s @ [pstr ''processed'']"

record config =
  ROOT_DIR :: ppath
  KEEP_FILE :: bool

definition VIDEOS_DIR :: "config \<Rightarrow> ppath" where
  "VIDEOS_DIR c = ROOT_DIR c @ [pstr ''Videos'']"

text \<open>
  How the resumable upload ends: an exception outside the chunk loop, an \<^verbatim>\<open>HttpError\<close>
  from \<^verbatim>\<open>next_chunk\<close>, or the response with its \<^verbatim>\<open>id\<close> (\<open>None\<close> when absent). A transfer
  that never answers is outside the model.
\<close>

datatype upload_outcome =
    UploadRaises exn
  | ChunkHttpError pystr
  | UploadResponds "pystr option"

text \<open>
  What the collaborators do in one run. A call raises when its entry is an exception
  (\<open>Inl e\<close>, \<open>Some e\<close>). \<open>ydl_download\<close> returns the size of the file it leaves at the output
  template (\<open>None\<close>: it leaves no file); \<open>extract_info_download\<close> is
  \<^verbatim>\<open>extract_info(url, download=True)\<close>, which returns the info dictionary as well.
\<close>

record env =
  url_lib :: urllib
  cfg :: settings
  conf :: config
  today :: pystr
  extract_info :: "pystr \<Rightarrow> exn + ydl_info option"
  extract_info_download :: "pystr \<Rightarrow> exn + ydl_info option \<times> nat option"
  ydl_download :: "pystr \<Rightarrow> exn + nat option"
  fs_error :: "fs_op \<Rightarrow> exn option"
  sheets_error :: "sheet_op \<Rightarrow> exn option"
  media_upload :: upload_outcome
  credentials_email :: "exn + pystr"

text \<open>
  The worksheet as gspread shows it: \<^verbatim>\<open>find\<close> gives the first cell, row by row, whose value
  is the query; \<^verbatim>\<open>update_cell\<close> writes one cell, growing the sheet when needed;
  \<^verbatim>\<open>row_values\<close> and \<^verbatim>\<open>col_values\<close> drop trailing empty cells.
\<close>

definition find_cell :: "pystr list list \<Rightarrow> pystr \<Rightarrow> (nat \<times> nat) option" where
  "find_cell rows q =
     (case filter (\<lambda>(r, row). q \<in> set row) (zip [1..<Suc (length rows)] rows) of
        [] \<Rightarrow> None
      | (r, row) # rest \<Rightarrow> Some (r, Suc (length (takeWhile (\<lambda>v. v \<noteq> q) row))))"

definition set_cell :: "pystr list list \<Rightarrow> nat \<Rightarrow> nat \<Rightarrow> pystr \<Rightarrow> pystr list list" where
  "set_cell rows r c v =
     (let rows = rows @ replicate (r - length rows) [];
          row = rows ! (r - 1);
          row = row @ replicate (c - length row) []
      in rows[r - 1 := row[c - 1 := v]])"

definition drop_trailing_empty :: "pystr list \<Rightarrow> pystr list" where
  "drop_trailing_empty vs = rev (dropWhile (\<lambda>v. v = []) (rev vs))"

definition row_values :: "pystr list list \<Rightarrow> nat \<Rightarrow> pystr list" where
  "row_values rows r = (if 1 \<le> r \<and> r \<le> length rows then drop_trailing_empty (rows ! (r - 1)) else [])"

definition col_values :: "pystr list list \<Rightarrow> nat \<Rightarrow> pystr list" where
  "col_values rows c =
     drop_trailing_empty (map (\<lambda>row. if 1 \<le> c \<and> c \<le> length row then row ! (c - 1) else []) rows)"

text \<open>\<^verbatim>\<open>HEADERS.index(name) + 1\<close> for a name that occurs in the list.\<close>

definition column_of :: "pystr list \<Rightarrow> pystr \<Rightarrow> nat" where
  "column_of headers name = Suc (length (takeWhile (\<lambda>h. h \<noteq> name) headers))"

section \<open>The pipeline of app/\<close>

text \<open>app/utils/helpers.py, \<^verbatim>\<open>get_video_path\<close>.\<close>

definition get_video_path :: "pystr \<Rightarrow> pystr \<Rightarrow> ppath \<Rightarrow> bool \<Rightarrow> ppath" where
  "get_video_path video_id title directory temp =
     (let clean_title = sanitize_filename title;
          filename = clean_title @ pstr ''_'' @ video_id @ pstr ''.mp4''
      in if temp then directory @ [pstr ''temp'', filename] else directory @ [filename])"

text \<open>
  app/core/downloader.py, \<^verbatim>\<open>YouTubeDownloader.get_video_info\<close>. \<open>get_video_info_try\<close> is
  the body of its \<^verbatim>\<open>try\<close> after \<^verbatim>\<open>extract_info\<close> has returned, \<open>get_video_info_except\<close> its
  handlers: a \<^verbatim>\<open>DownloadError\<close> raised in the body is not one of yt-dlp's, so the last
  handler wraps it again. An absent key raises \<^verbatim>\<open>KeyError\<close>, whose \<^verbatim>\<open>str\<close> is the key in
  single quotes (code point 39).
\<close>

definition get_video_info_try :: "ydl_info option \<Rightarrow> exn + video_info" where
  "get_video_info_try r =
     (case r of
        None \<Rightarrow> Inl (DownloadError (pstr ''Failed to extract video information''))
      | Some info \<Rightarrow>
          if has_entries info then
            Inl (DownloadError
              (pstr ''URL appears to be a playlist. Please provide a single video URL.''))
          else if is_live info then Inl (DownloadError (pstr ''Live streams are not supported''))
          else if age_limit info > 0 then
            Inl (DownloadError (pstr ''Age-restricted videos are not supported''))
          else
            (let tags = (if info_tags info \<noteq> [] then join (pstr '', '') (info_tags info) else []);
                 category = (case info_categories info of [] \<Rightarrow> [] | c # cs \<Rightarrow> c)
             in case info_id info of
                  None \<Rightarrow> Inl (OtherException ([39] @ pstr ''id'' @ [39]))
                | Some i \<Rightarrow>
                    (case info_title info of
                       None \<Rightarrow> Inl (OtherException ([39] @ pstr ''title'' @ [39]))
                     | Some t \<Rightarrow>
                         Inr \<lparr>vi_id = i, vi_title = t, vi_description = info_description info,
                              vi_tags = tags, vi_category = category,
                              vi_thumbnail = info_thumbnail info\<rparr>)))"

fun get_video_info_except :: "exn \<Rightarrow> exn" where
  "get_video_info_except (YTDLError m) =
     (if contains (pstr ''Video unavailable'') m
      then DownloadError (pstr ''Video is unavailable or has been removed'')
      else if contains (pstr ''Private video'') m then DownloadError (pstr ''This video is private'')
      else if contains (pstr ''Sign in to confirm your age'') m
      then DownloadError (pstr ''Age-restricted video - cannot download'')
      else DownloadError (pstr ''YouTube-DL error: '' @ m))"
| "get_video_info_except (URLError m) = DownloadError (pstr ''Network error: '' @ m)"
| "get_video_info_except (SocketTimeout m) =
     DownloadError (pstr ''Connection timed out. Please check your internet connection.'')"
| "get_video_info_except e = DownloadError (pstr ''Failed to get video info: '' @ str_of e)"

definition get_video_info :: "env \<Rightarrow> world \<Rightarrow> pystr \<Rightarrow> (exn + video_info) \<times> world" where
  "get_video_info env w video_url =
     (let w = add_call (ExtractInfo video_url False) w
      in case extract_info env video_url of
           Inl e \<Rightarrow> (Inl (get_video_info_except e), w)
         | Inr r \<Rightarrow>
             (case get_video_info_try r of
                Inl e \<Rightarrow> (Inl (get_video_info_except e), w)
              | Inr video_info \<Rightarrow> (Inr video_info, w)))"

text \<open>app/services/google_sheets.py, \<^verbatim>\<open>GoogleSheetsService\<close>.\<close>

definition HEADERS :: "pystr list" where
  "HEADERS = [pstr ''Title'', pstr ''Description'', pstr ''Tags'', pstr ''Category'',
     pstr ''Drive File ID'', pstr ''Playlist'', pstr ''Thumbnail'', pstr ''Upload Date'',
     pstr ''Download Status'', pstr ''Upload Status'']"

definition row_data :: "env \<Rightarrow> video_info \<Rightarrow> pystr option \<Rightarrow> pystr list" where
  "row_data env metadata drive_file_id =
     [vi_title metadata, vi_description metadata, vi_tags metadata, vi_category metadata,
      (case drive_file_id of None \<Rightarrow> [] | Some d \<Rightarrow> d),
      (case PLAYLIST_ID (cfg env) of None \<Rightarrow> [] | Some p \<Rightarrow> p),
      vi_thumbnail metadata, today env, pstr ''Pending'', pstr ''Pending'']"

definition add_video :: "env \<Rightarrow> world \<Rightarrow> video_info \<Rightarrow> (exn + unit) \<times> world" where
  "add_video env w metadata =
     (let row = row_data env metadata None;
          w = add_call (Sheets (AppendRow row)) w
      in case sheets_error env (AppendRow row) of
           Some e \<Rightarrow>
             (Inl (GoogleSheetsError (pstr ''Failed to add video to spreadsheet: '' @ str_of e)), w)
         | None \<Rightarrow> (Inr (), w\<lparr>sheet := sheet w @ [row]\<rparr>))"

text \<open>
  \<^verbatim>\<open>worksheet.update_cell\<close> as one step of \<^verbatim>\<open>update_video_status\<close>: the call, and the cell
  written when the call does not raise.
\<close>

definition update_cell :: "env \<Rightarrow> world \<Rightarrow> nat \<Rightarrow> nat \<Rightarrow> pystr \<Rightarrow> (exn + unit) \<times> world" where
  "update_cell env w r c v =
     (let w = add_call (Sheets (UpdateCell r c v)) w
      in case sheets_error env (UpdateCell r c v) of
           Some e \<Rightarrow> (Inl e, w)
         | None \<Rightarrow> (Inr (), w\<lparr>sheet := set_cell (sheet w) r c v\<rparr>))"

definition update_video_status_try ::
  "env \<Rightarrow> world \<Rightarrow> pystr \<Rightarrow> pystr \<Rightarrow> pystr option \<Rightarrow> pystr option \<Rightarrow> (exn + unit) \<times> world" where
  "update_video_status_try env w video_id status drive_file_id title =
     (case title of
        None \<Rightarrow> (Inl (GoogleSheetsError (pstr ''Video title is required to update status'')), w)
      | Some t \<Rightarrow>
          if t = [] then
            (Inl (GoogleSheetsError (pstr ''Video title is required to update status'')), w)
          else
            (let w = add_call (Sheets (Find t)) w
             in case sheets_error env (Find t) of
                  Some e \<Rightarrow> (Inl e, w)
                | None \<Rightarrow>
                    (case find_cell (sheet w) t of
                       None \<Rightarrow>
                         (Inl (GoogleSheetsError
                            (pstr ''Video '' @ [39] @ t @ [39] @ pstr '' not found in spreadsheet'')), w)
                     | Some (row, col) \<Rightarrow>
                         (case (if status = pstr ''Completed''
                                then update_cell env w row (column_of HEADERS (pstr ''Download Status''))
                                       (pstr ''Completed'')
                                else (Inr (), w)) of
                            (Inl e, w) \<Rightarrow> (Inl e, w)
                          | (Inr u, w) \<Rightarrow>
                              (case drive_file_id of
                                 None \<Rightarrow> (Inr (), w)
                               | Some d \<Rightarrow>
                                   if d = [] then (Inr (), w)
                                   else update_cell env w row
                                          (column_of HEADERS (pstr ''Drive File ID'')) d)))))"

definition update_video_status ::
  "env \<Rightarrow> world \<Rightarrow> pystr \<Rightarrow> pystr \<Rightarrow> pystr option \<Rightarrow> pystr option \<Rightarrow> (exn + unit) \<times> world" where
  "update_video_status env w video_id status drive_file_id title =
     (case update_video_status_try env w video_id status drive_file_id title of
        (Inl e, w) \<Rightarrow>
          (Inl (GoogleSheetsError (pstr ''Failed to update video status: '' @ str_of e)), w)
      | (Inr u, w) \<Rightarrow> (Inr (), w))"

text \<open>
  app/core/downloader.py, \<^verbatim>\<open>YouTubeDownloader.download_video\<close>. \<open>mkdir\<close> is
  \<^verbatim>\<open>path.mkdir(parents=True, exist_ok=True)\<close>. \<open>download_video_try\<close> is the body of the
  \<^verbatim>\<open>try\<close>: an exception of yt-dlp from \<^verbatim>\<open>ydl.download\<close> becomes a \<^verbatim>\<open>DownloadError\<close> there,
  and every \<^verbatim>\<open>DownloadError\<close> raised in the body falls to the last handler of
  \<open>download_video_except\<close>.
\<close>

definition mkdir :: "env \<Rightarrow> world \<Rightarrow> ppath \<Rightarrow> (exn + unit) \<times> world" where
  "mkdir env w p =
     (let w = add_call (Fs (Mkdir p)) w
      in case fs_error env (Mkdir p) of Some e \<Rightarrow> (Inl e, w) | None \<Rightarrow> (Inr (), w))"

fun ydl_download_except :: "exn \<Rightarrow> exn" where
  "ydl_download_except (YTDLError m) =
     (if contains (pstr ''No video formats found'') m
      then DownloadError (pstr ''No suitable video formats found for download'')
      else if contains (pstr ''Unsupported URL'') m then DownloadError (pstr ''URL is not supported'')
      else DownloadError (pstr ''Download failed: '' @ m))"
| "ydl_download_except e = e"

definition download_video_try ::
  "env \<Rightarrow> world \<Rightarrow> pystr \<Rightarrow> video_info \<Rightarrow> (exn + ppath) \<times> world" where
  "download_video_try env w video_url metadata =
     (let temp_path = get_video_path (vi_id metadata) (vi_title metadata) (VIDEO_DIR (cfg env)) True
      in case mkdir env w (butlast temp_path) of
           (Inl e, w) \<Rightarrow> (Inl e, w)
         | (Inr u, w) \<Rightarrow>
             (let w = add_call (YdlDownload video_url temp_path) w
              in case ydl_download env video_url of
                   Inl e \<Rightarrow> (Inl (ydl_download_except e), w)
                 | Inr written \<Rightarrow>
                     (let w = (case written of
                                 None \<Rightarrow> w
                               | Some n \<Rightarrow> w\<lparr>files := (files w)(temp_path \<mapsto> n)\<rparr>);
                          final_path = get_video_path (vi_id metadata) (vi_title metadata)
                                         (PROCESSED_DIR (cfg env)) False
                      in case mkdir env w (butlast final_path) of
                           (Inl e, w) \<Rightarrow> (Inl e, w)
                         | (Inr u, w) \<Rightarrow>
                             (case files w temp_path of
                                Some sz \<Rightarrow>
                                  if sz = 0 then
                                    (Inl (DownloadError (pstr ''Downloaded file is empty'')), w)
                                  else
                                    (let w = add_call (Fs (Rename temp_path final_path)) w
                                     in case fs_error env (Rename temp_path final_path) of
                                          Some e \<Rightarrow> (Inl e, w)
                                        | None \<Rightarrow>
                                            (Inr final_path,
                                             w\<lparr>files := (files w)(temp_path := None,
                                                                    final_path \<mapsto> sz)\<rparr>))
                              | None \<Rightarrow>
                                  (Inl (DownloadError
                                     (pstr ''Download completed but file not found'')), w)))))"

fun download_video_except :: "exn \<Rightarrow> exn" where
  "download_video_except (URLError m) = DownloadError (pstr ''Network error during download: '' @ m)"
| "download_video_except (SocketTimeout m) =
     DownloadError (pstr ''Download timed out. Please check your internet connection.'')"
| "download_video_except (OSError m) = DownloadError (pstr ''File system error: '' @ m)"
| "download_video_except e = DownloadError (pstr ''Failed to download video: '' @ str_of e)"

definition download_video ::
  "env \<Rightarrow> world \<Rightarrow> pystr \<Rightarrow> video_info \<Rightarrow> (exn + ppath) \<times> world" where
  "download_video env w video_url metadata =
     (case download_video_try env w video_url metadata of
        (Inl e, w) \<Rightarrow> (Inl (download_video_except e), w)
      | (Inr final_path, w) \<Rightarrow> (Inr final_path, w))"

text \<open>
  app/services/google_drive.py, \<^verbatim>\<open>GoogleDriveService.upload_file\<close>, with
  \<^verbatim>\<open>validate_file_exists\<close> of app/utils/validators.py. The \<^verbatim>\<open>GoogleDriveError\<close> raised in the
  chunk loop and the one for a missing \<^verbatim>\<open>id\<close> are raised inside the outer \<^verbatim>\<open>try\<close>, whose last
  handler wraps them. The display name (\<^verbatim>\<open>title\<close>) changes nothing that the model observes and
  is left out.
\<close>

definition validate_file_exists :: "world \<Rightarrow> ppath \<Rightarrow> exn + unit" where
  "validate_file_exists w p =
     (case files w p of
        None \<Rightarrow> Inl (ValidationError (pstr ''File not found: '' @ path_str p))
      | Some n \<Rightarrow> Inr ())"

definition upload_file_try :: "env \<Rightarrow> world \<Rightarrow> ppath \<Rightarrow> (exn + pystr) \<times> world" where
  "upload_file_try env w file_path =
     (case validate_file_exists w file_path of
        Inl e \<Rightarrow> (Inl e, w)
      | Inr u \<Rightarrow>
          (let w = add_call (DriveUpload file_path) w
           in case media_upload env of
                UploadRaises e \<Rightarrow> (Inl e, w)
              | ChunkHttpError m \<Rightarrow>
                  (Inl (GoogleDriveError (pstr ''Error during upload chunk: '' @ m)), w)
              | UploadResponds None \<Rightarrow>
                  (Inl (GoogleDriveError (pstr ''Upload successful but file ID not received'')), w)
              | UploadResponds (Some file_id) \<Rightarrow>
                  if file_id = [] then
                    (Inl (GoogleDriveError (pstr ''Upload successful but file ID not received'')), w)
                  else (Inr file_id, w)))"

fun upload_file_except :: "exn \<Rightarrow> exn" where
  "upload_file_except (HttpError m) = GoogleDriveError (pstr ''Drive API error: '' @ m)"
| "upload_file_except e = GoogleDriveError (pstr ''Upload failed: '' @ str_of e)"

definition upload_file :: "env \<Rightarrow> world \<Rightarrow> ppath \<Rightarrow> (exn + pystr) \<times> world" where
  "upload_file env w file_path =
     (case upload_file_try env w file_path of
        (Inl e, w) \<Rightarrow> (Inl (upload_file_except e), w)
      | (Inr file_id, w) \<Rightarrow> (Inr file_id, w))"

text \<open>
  \<^verbatim>\<open>video_path.unlink()\<close>: raises when the file is missing or when the file system refuses.
\<close>

definition unlink :: "env \<Rightarrow> world \<Rightarrow> ppath \<Rightarrow> (exn + unit) \<times> world" where
  "unlink env w p =
     (let w = add_call (Fs (Unlink p)) w
      in case files w p of
           None \<Rightarrow> (Inl (OSError (pstr ''No such file or directory: '' @ path_str p)), w)
         | Some n \<Rightarrow>
             (case fs_error env (Unlink p) of
                Some e \<Rightarrow> (Inl e, w)
              | None \<Rightarrow> (Inr (), w\<lparr>files := (files w)(p := None)\<rparr>)))"

text \<open>
  app/core/processor.py, \<^verbatim>\<open>VideoProcessor.process_video\<close>. \<open>process_video_try\<close> is the body
  of the \<^verbatim>\<open>try\<close>; the only handler, \<^verbatim>\<open>except Exception\<close>, raises a \<^verbatim>\<open>ProcessingError\<close> with
  the message of what it caught. \<^verbatim>\<open>self.drive\<close> is an object and so true.
\<close>

definition process_video_try :: "env \<Rightarrow> world \<Rightarrow> pystr \<Rightarrow> (exn + unit) \<times> world" where
  "process_video_try env w video_url =
     (case validate_youtube_url (url_lib env) video_url of
        Inl e \<Rightarrow> (Inl e, w)
      | Inr video_id \<Rightarrow>
     (case get_video_info env w video_url of
        (Inl e, w) \<Rightarrow> (Inl e, w)
      | (Inr video_info, w) \<Rightarrow>
     (case add_video env w video_info of
        (Inl e, w) \<Rightarrow> (Inl e, w)
      | (Inr u, w) \<Rightarrow>
     (case download_video env w video_url video_info of
        (Inl e, w) \<Rightarrow> (Inl e, w)
      | (Inr video_path, w) \<Rightarrow>
          if UPLOAD_TO_DRIVE (cfg env) then
            (case upload_file env w video_path of
               (Inl e, w) \<Rightarrow> (Inl e, w)
             | (Inr file_id, w) \<Rightarrow>
                 if file_id \<noteq> [] then
                   (case update_video_status env w video_id (pstr ''Completed'') (Some file_id)
                           (Some (vi_title video_info)) of
                      (Inl e, w) \<Rightarrow> (Inl e, w)
                    | (Inr u, w) \<Rightarrow>
                        if \<not> KEEP_FILES (cfg env) then unlink env w video_path
                        else (Inr (), w))
                 else (Inr (), w))
          else
            update_video_status env w video_id (pstr ''Completed Locally'')
              (Some (path_str video_path)) (Some (vi_title video_info))))))"

definition process_video :: "env \<Rightarrow> world \<Rightarrow> pystr \<Rightarrow> (exn + unit) \<times> world" where
  "process_video env w video_url =
     (case process_video_try env w video_url of
        (Inl e, w) \<Rightarrow> (Inl (ProcessingError (pstr ''Processing error: '' @ str_of e)), w)
      | (Inr u, w) \<Rightarrow> (Inr (), w))"

section \<open>An example run\<close>

text \<open>
  A world with an empty worksheet and no files, and collaborators that all succeed: the
  video \<^verbatim>\<open>dQw4w9WgXcQ\<close> with the title \<^verbatim>\<open>Song\<close>, a download of 1000 bytes and the Drive
  identifier \<^verbatim>\<open>abc123\<close>. The theorems below are instantiated at this run and at variations
  of it.
\<close>

definition example_info :: ydl_info where
  "example_info =
     \<lparr>has_entries = False, is_live = False, age_limit = 0,
      info_id = Some (pstr ''dQw4w9WgXcQ''), info_title = Some (pstr ''Song''),
      info_description = pstr ''A song'', info_tags = [pstr ''music'', pstr ''pop''],
      info_categories = [pstr ''Music''], info_thumbnail = pstr ''t.jpg'',
      info_upload_date = pstr ''20091025''\<rparr>"

definition example_env :: env where
  "example_env =
     \<lparr>url_lib = urllib_tabulated,
      cfg = \<lparr>BASE_DIR = [pstr ''app''], PLAYLIST_ID = None, KEEP_FILES = True,
             UPLOAD_TO_DRIVE = True\<rparr>,
      conf = \<lparr>ROOT_DIR = [pstr ''app''], KEEP_FILE = True\<rparr>,
      today = pstr ''2024-01-01'',
      extract_info = (\<lambda>u. Inr (Some example_info)),
      extract_info_download = (\<lambda>u. Inr (Some example_info, Some 1000)),
      ydl_download = (\<lambda>u. Inr (Some 1000)),
      fs_error = (\<lambda>op. None),
      sheets_error = (\<lambda>op. None),
      media_upload = UploadResponds (Some (pstr ''abc123'')),
      credentials_email = Inr (pstr ''bot@example.com'')\<rparr>"

definition example_world :: world where
  "example_world = \<lparr>sheet = [HEADERS], files = (\<lambda>p. None), calls = []\<rparr>"

definition example_video_info :: video_info where
  "example_video_info =
     \<lparr>vi_id = pstr ''dQw4w9WgXcQ'', vi_title = pstr ''Song'', vi_description = pstr ''A song'',
      vi_tags = pstr ''music, pop'', vi_category = pstr ''Music'', vi_thumbnail = pstr ''t.jpg''\<rparr>"

text \<open>Kinds of calls, for stating that a run issues none of a kind.\<close>

fun is_unlink :: "call \<Rightarrow> bool" where
  "is_unlink (Fs (Unlink p)) = True"
| "is_unlink c = False"

fun is_upload :: "call \<Rightarrow> bool" where
  "is_upload (DriveUpload p) = True"
| "is_upload c = False"

fun is_rename :: "call \<Rightarrow> bool" where
  "is_rename (Fs (Rename p q)) = True"
| "is_rename c = False"

fun is_append_row :: "call \<Rightarrow> bool" where
  "is_append_row (Sheets (AppendRow row)) = True"
| "is_append_row c = False"

section \<open>The pipeline of src/youtube_manager.py\<close>

text \<open>
  config/config.py: the header row and the constants that the messages and rows contain.
\<close>

definition HEADERS_legacy :: "pystr list" where
  "HEADERS_legacy = [pstr ''Title'', pstr ''Description'', pstr ''Tags'', pstr ''Category'',
     pstr ''Thumbnail'', pstr ''Playlist'', pstr ''Video ID'', pstr ''Upload Date'',
     pstr ''Drive File ID'', pstr ''Download Status'']"

definition SPREADSHEET_ID :: pystr where
  "SPREADSHEET_ID = pstr ''1Zi0Pjsdnd6rOCRuFA-pwKrXlzuGKCaLFebD51fnKDqU''"

definition PLAYLIST_ID_legacy :: pystr where
  "PLAYLIST_ID_legacy = pstr ''NOTHINHG''"

text \<open>
  \<^verbatim>\<open>YouTubeManager.get_or_create_sheet\<close>. When the spreadsheet is not found the handler reads
  the credentials file for the account's address; an exception of that read is raised as
  it is.
\<close>

definition spreadsheet_not_found_message :: "pystr \<Rightarrow> pystr" where
  "spreadsheet_not_found_message email =
     pstr ''Spreadsheet with ID '' @ [39] @ SPREADSHEET_ID @ [39] @ pstr '' not found. ''
     @ pstr ''Please make sure:'' @ [10]
     @ pstr ''1. The spreadsheet exists'' @ [10]
     @ pstr ''2. The spreadsheet is shared with this service account: '' @ email @ [10]
     @ pstr ''3. The spreadsheet ID is correct''"

definition insert_header_row :: "env \<Rightarrow> world \<Rightarrow> (exn + unit) \<times> world" where
  "insert_header_row env w =
     (let w = add_call (Sheets (InsertRow HEADERS_legacy 1)) w
      in case sheets_error env (InsertRow HEADERS_legacy 1) of
           Some e \<Rightarrow> (Inl e, w)
         | None \<Rightarrow> (Inr (), w\<lparr>sheet := HEADERS_legacy # sheet w\<rparr>))"

definition get_or_create_sheet_try :: "env \<Rightarrow> world \<Rightarrow> (exn + unit) \<times> world" where
  "get_or_create_sheet_try env w =
     (let w = add_call (Sheets (RowValues 1)) w
      in case sheets_error env (RowValues 1) of
           Some e \<Rightarrow> (Inl e, w)
         | None \<Rightarrow>
             (let current_headers = row_values (sheet w) 1
              in if current_headers = [] then insert_header_row env w
                 else if current_headers \<noteq> HEADERS_legacy then
                   (let w = add_call (Sheets Clear) w
                    in case sheets_error env Clear of
                         Some e \<Rightarrow> (Inl e, w)
                       | None \<Rightarrow> insert_header_row env (w\<lparr>sheet := []\<rparr>))
                 else (Inr (), w)))"

definition get_or_create_sheet :: "env \<Rightarrow> world \<Rightarrow> (exn + unit) \<times> world" where
  "get_or_create_sheet env w =
     (let w = add_call (Sheets OpenByKey) w
      in case sheets_error env OpenByKey of
           Some (SpreadsheetNotFound m) \<Rightarrow>
             (case credentials_email env of
                Inl e \<Rightarrow> (Inl e, w)
              | Inr email \<Rightarrow> (Inl (GoogleSheetsError (spreadsheet_not_found_message email)), w))
         | Some e \<Rightarrow> (Inl (GoogleSheetsError (pstr ''Spreadsheet access error: '' @ str_of e)), w)
         | None \<Rightarrow>
             (case get_or_create_sheet_try env w of
                (Inl e, w) \<Rightarrow> (Inl (GoogleSheetsError (pstr ''Worksheet error: '' @ str_of e)), w)
              | (Inr u, w) \<Rightarrow> (Inr (), w)))"

text \<open>
  \<^verbatim>\<open>YouTubeManager.get_video_data\<close>: the row of ten cells, with an empty Drive File ID and the
  Download Status \<^verbatim>\<open>Pending\<close>. A \<^verbatim>\<open>YouTubeDataError\<close> raised in the body is caught by the last
  handler.
\<close>

definition format_upload_date :: "pystr \<Rightarrow> pystr" where
  "format_upload_date d =
     (if d \<noteq> [] then take 4 d @ pstr ''-'' @ take 2 (drop 4 d) @ pstr ''-'' @ drop 6 d else [])"

definition video_data_of :: "ydl_info \<Rightarrow> pystr list" where
  "video_data_of info =
     [(case info_title info of None \<Rightarrow> [] | Some t \<Rightarrow> t),
      info_description info,
      (if info_tags info \<noteq> [] then join (pstr '', '') (info_tags info) else []),
      (case info_categories info of [] \<Rightarrow> [] | c # cs \<Rightarrow> c),
      info_thumbnail info,
      PLAYLIST_ID_legacy,
      (case info_id info of None \<Rightarrow> [] | Some i \<Rightarrow> i),
      format_upload_date (info_upload_date info),
      [],
      pstr ''Pending'']"

fun get_video_data_except :: "exn \<Rightarrow> exn" where
  "get_video_data_except (YTDLError m) = YouTubeDataError (pstr ''Download error: '' @ m)"
| "get_video_data_except e = YouTubeDataError (pstr ''Data extraction error: '' @ str_of e)"

definition get_video_data :: "env \<Rightarrow> world \<Rightarrow> pystr \<Rightarrow> (exn + pystr list) \<times> world" where
  "get_video_data env w video_url =
     (let w = add_call (ExtractInfo video_url False) w
      in case extract_info env video_url of
           Inl e \<Rightarrow> (Inl (get_video_data_except e), w)
         | Inr None \<Rightarrow>
             (Inl (get_video_data_except
                (YouTubeDataError (pstr ''Failed to extract video information''))), w)
         | Inr (Some info) \<Rightarrow> (Inr (video_data_of info), w))"

text \<open>
  \<^verbatim>\<open>YouTubeManager.download_video\<close>, with \<^verbatim>\<open>ensure_video_dir\<close>. yt-dlp leaves the file at
  \<^verbatim>\<open>Videos/<id>.mp4\<close>. The only test of the downloaded file is that it exists; failures of
  the rename, of the backup copy and of the deletion are logged and swallowed.
\<close>

definition ensure_video_dir :: "env \<Rightarrow> world \<Rightarrow> (exn + ppath) \<times> world" where
  "ensure_video_dir env w =
     (let w = add_call (Fs (Mkdir (VIDEOS_DIR (conf env)))) w
      in case fs_error env (Mkdir (VIDEOS_DIR (conf env))) of
           Some e \<Rightarrow>
             (Inl (ConfigurationError (pstr ''Failed to create Videos directory: '' @ str_of e)), w)
         | None \<Rightarrow> (Inr (VIDEOS_DIR (conf env)), w))"

definition rename_or_keep :: "env \<Rightarrow> world \<Rightarrow> ppath \<Rightarrow> ppath \<Rightarrow> ppath \<times> world" where
  "rename_or_keep env w temp_video_path final_video_path =
     (let w = add_call (Fs (Rename temp_video_path final_video_path)) w
      in case fs_error env (Rename temp_video_path final_video_path) of
           Some e \<Rightarrow> (temp_video_path, w)
         | None \<Rightarrow>
             (final_video_path,
              w\<lparr>files := (files w)(temp_video_path := None,
                                     final_video_path := files w temp_video_path)\<rparr>))"

definition backup_copy :: "env \<Rightarrow> world \<Rightarrow> ppath \<Rightarrow> world" where
  "backup_copy env w final_video_path =
     (let backup_path = butlast final_video_path @ [pstr ''backup_'' @ last final_video_path];
          w = add_call (Fs (Copy final_video_path backup_path)) w
      in case fs_error env (Copy final_video_path backup_path) of
           Some e \<Rightarrow> w
         | None \<Rightarrow>
             (case files w final_video_path of
                None \<Rightarrow> w
              | Some n \<Rightarrow> w\<lparr>files := (files w)(backup_path \<mapsto> n)\<rparr>))"

definition unlink_quietly :: "env \<Rightarrow> world \<Rightarrow> ppath \<Rightarrow> world" where
  "unlink_quietly env w p =
     (let w = add_call (Fs (Unlink p)) w
      in case fs_error env (Unlink p) of
           Some e \<Rightarrow> w
         | None \<Rightarrow> w\<lparr>files := (files w)(p := None)\<rparr>)"

definition download_video_legacy_try ::
  "env \<Rightarrow> world \<Rightarrow> pystr \<Rightarrow> (exn + ppath) \<times> world" where
  "download_video_legacy_try env w video_url =
     (case ensure_video_dir env w of
        (Inl e, w) \<Rightarrow> (Inl e, w)
      | (Inr videos_dir, w) \<Rightarrow>
          (let w = add_call (ExtractInfo video_url True) w
           in case extract_info_download env video_url of
                Inl e \<Rightarrow> (Inl e, w)
              | Inr (None, written) \<Rightarrow>
                  (Inl (OtherException
                     ([39] @ pstr ''NoneType'' @ [39] @ pstr '' object has no attribute ''
                      @ [39] @ pstr ''get'' @ [39])), w)
              | Inr (Some info, written) \<Rightarrow>
                  (case info_id info of
                     None \<Rightarrow> (Inl (YouTubeDataError (pstr ''Could not extract video ID'')), w)
                   | Some video_id \<Rightarrow>
                       if video_id = [] then
                         (Inl (YouTubeDataError (pstr ''Could not extract video ID'')), w)
                       else
                         (let video_title =
                                (case info_title info of None \<Rightarrow> video_id | Some t \<Rightarrow> t);
                              temp_video_path = videos_dir @ [video_id @ pstr ''.mp4''];
                              w = (case written of
                                     None \<Rightarrow> w
                                   | Some n \<Rightarrow> w\<lparr>files := (files w)(temp_video_path \<mapsto> n)\<rparr>)
                          in if files w temp_video_path = None then
                               (Inl (YouTubeDataError
                                  (pstr ''Download completed but file was not created'')), w)
                             else
                               (let final_filename =
                                      sanitize_filename_legacy video_title @ pstr ''_''
                                      @ video_id @ pstr ''.mp4'';
                                    final_video_path = videos_dir @ [final_filename]
                                in case rename_or_keep env w temp_video_path final_video_path of
                                     (final_video_path, w) \<Rightarrow>
                                       (let w = backup_copy env w final_video_path;
                                            w = (if \<not> KEEP_FILE (conf env)
                                                    \<and> files w final_video_path \<noteq> None
                                                 then unlink_quietly env w final_video_path
                                                 else w)
                                        in (Inr final_video_path, w)))))))"

definition download_video_legacy :: "env \<Rightarrow> world \<Rightarrow> pystr \<Rightarrow> (exn + ppath) \<times> world" where
  "download_video_legacy env w video_url =
     (case download_video_legacy_try env w video_url of
        (Inl e, w) \<Rightarrow> (Inl (YouTubeDataError (pstr ''Video download failed: '' @ str_of e)), w)
      | (Inr p, w) \<Rightarrow> (Inr p, w))"

text \<open>
  \<^verbatim>\<open>YouTubeManager.upload_to_drive\<close>, with \<^verbatim>\<open>validate_file_exists\<close> of utils/validators.py.
  Every exception ends in the last handler; the result is the \<^verbatim>\<open>id\<close> of the response, which
  may be absent.
\<close>

definition upload_to_drive_try :: "env \<Rightarrow> world \<Rightarrow> ppath \<Rightarrow> (exn + pystr option) \<times> world" where
  "upload_to_drive_try env w file_path =
     (case files w file_path of
        None \<Rightarrow>
          (Inl (ValidationError
             (pstr ''File validation failed: File not found: '' @ path_str file_path)), w)
      | Some n \<Rightarrow>
          (let w = add_call (DriveUpload file_path) w
           in case media_upload env of
                UploadRaises e \<Rightarrow> (Inl e, w)
              | ChunkHttpError m \<Rightarrow> (Inl (HttpError m), w)
              | UploadResponds file_id \<Rightarrow> (Inr file_id, w)))"

definition upload_to_drive :: "env \<Rightarrow> world \<Rightarrow> ppath \<Rightarrow> (exn + pystr option) \<times> world" where
  "upload_to_drive env w file_path =
     (case upload_to_drive_try env w file_path of
        (Inl e, w) \<Rightarrow> (Inl (GoogleDriveError (pstr ''Upload failed: '' @ str_of e)), w)
      | (Inr file_id, w) \<Rightarrow> (Inr file_id, w))"

text \<open>
  \<^verbatim>\<open>YouTubeManager.update_spreadsheet\<close>: the duplicate check on column 7 and the only
  \<^verbatim>\<open>append_row\<close> of this pipeline, with the Download Status \<^verbatim>\<open>Completed\<close>.
\<close>

definition update_spreadsheet_try ::
  "env \<Rightarrow> world \<Rightarrow> pystr list \<Rightarrow> pystr \<Rightarrow> (exn + bool) \<times> world" where
  "update_spreadsheet_try env w video_data drive_file_id =
     (let video_data = video_data[8 := drive_file_id];
          video_data = video_data[9 := pstr ''Completed''];
          video_id = video_data ! 6;
          w = add_call (Sheets (ColValues 7)) w
      in case sheets_error env (ColValues 7) of
           Some e \<Rightarrow> (Inl e, w)
         | None \<Rightarrow>
             (let existing_ids = col_values (sheet w) 7
              in if video_id \<in> set existing_ids then (Inr False, w)
                 else
                   (let w = add_call (Sheets (AppendRow video_data)) w
                    in case sheets_error env (AppendRow video_data) of
                         Some e \<Rightarrow> (Inl e, w)
                       | None \<Rightarrow> (Inr True, w\<lparr>sheet := sheet w @ [video_data]\<rparr>))))"

definition update_spreadsheet ::
  "env \<Rightarrow> world \<Rightarrow> pystr list \<Rightarrow> pystr \<Rightarrow> (exn + bool) \<times> world" where
  "update_spreadsheet env w video_data drive_file_id =
     (case update_spreadsheet_try env w video_data drive_file_id of
        (Inl e, w) \<Rightarrow>
          (Inl (GoogleSheetsError (pstr ''Spreadsheet update failed: '' @ str_of e)), w)
      | (Inr b, w) \<Rightarrow> (Inr b, w))"

text \<open>
  \<^verbatim>\<open>YouTubeManager.process_video\<close>. \<open>process_video_legacy_try\<close> is the body of the \<^verbatim>\<open>try\<close>
  and also gives \<^verbatim>\<open>video_path\<close> when it was assigned; the handler raises again what it
  caught; \<open>cleanup_legacy\<close> is the \<^verbatim>\<open>finally\<close> clause, which deletes \<^verbatim>\<open>video_path\<close> when it
  exists, whatever \<open>KEEP_FILE\<close> says.
\<close>

definition process_video_legacy_try ::
  "env \<Rightarrow> world \<Rightarrow> pystr \<Rightarrow> ((exn + bool) \<times> ppath option) \<times> world" where
  "process_video_legacy_try env w url =
     (case validate_youtube_url_legacy (url_lib env) url of
        Inl e \<Rightarrow> ((Inl e, None), w)
      | Inr video_id \<Rightarrow>
     (let video_url = pstr ''https://www.youtube.com/watch?v='' @ video_id
      in case get_or_create_sheet env w of
        (Inl e, w) \<Rightarrow> ((Inl e, None), w)
      | (Inr u, w) \<Rightarrow>
     (case get_video_data env w video_url of
        (Inl e, w) \<Rightarrow> ((Inl e, None), w)
      | (Inr video_data, w) \<Rightarrow>
          if video_data = [] then
            ((Inl (YouTubeDataError (pstr ''Failed to get video data'')), None), w)
          else
     (case download_video_legacy env w video_url of
        (Inl e, w) \<Rightarrow> ((Inl e, None), w)
      | (Inr video_path, w) \<Rightarrow>
     (case upload_to_drive env w video_path of
        (Inl e, w) \<Rightarrow> ((Inl e, Some video_path), w)
      | (Inr None, w) \<Rightarrow>
          ((Inl (GoogleDriveError (pstr ''Failed to upload to Google Drive'')), Some video_path), w)
      | (Inr (Some drive_file_id), w) \<Rightarrow>
          if drive_file_id = [] then
            ((Inl (GoogleDriveError (pstr ''Failed to upload to Google Drive'')),
              Some video_path), w)
          else
            (case update_spreadsheet env w video_data drive_file_id of
               (Inl e, w) \<Rightarrow> ((Inl e, Some video_path), w)
             | (Inr b, w) \<Rightarrow> ((Inr b, Some video_path), w)))))))"

definition cleanup_legacy :: "env \<Rightarrow> world \<Rightarrow> ppath option \<Rightarrow> world" where
  "cleanup_legacy env w video_path =
     (case video_path of
        None \<Rightarrow> w
      | Some p \<Rightarrow> if files w p \<noteq> None then unlink_quietly env w p else w)"

definition process_video_legacy :: "env \<Rightarrow> world \<Rightarrow> pystr \<Rightarrow> (exn + bool) \<times> world" where
  "process_video_legacy env w url =
     (case process_video_legacy_try env w url of
        ((r, video_path), w) \<Rightarrow> (r, cleanup_legacy env w video_path))"

text \<open>
  Worlds for the example run of src/youtube_manager.py: a worksheet with its header row
  only, and one that already holds the row of the example video.
\<close>

definition example_world_legacy :: world where
  "example_world_legacy = \<lparr>sheet = [HEADERS_legacy], files = (\<lambda>p. None), calls = []\<rparr>"

definition example_world_legacy_known :: world where
  "example_world_legacy_known =
     \<lparr>sheet = [HEADERS_legacy, video_data_of example_info], files = (\<lambda>p. None), calls = []\<rparr>"

definition example_url :: pystr where
  "example_url = pstr ''https://www.youtube.com/watch?v='' @ pstr ''dQw4w9WgXcQ''"

definition example_temp_legacy :: ppath where
  "example_temp_legacy = [pstr ''app'', pstr ''Videos'', pstr ''dQw4w9WgXcQ.mp4'']"

definition example_final_legacy :: ppath where
  "example_final_legacy = [pstr ''app'', pstr ''Videos'', pstr ''Song_dQw4w9WgXcQ.mp4'']"

definition example_backup_legacy :: ppath where
  "example_backup_legacy = [pstr ''app'', pstr ''Videos'', pstr ''backup_Song_dQw4w9WgXcQ.mp4'']"

text \<open>
  A world for the pipeline of app/ whose worksheet already holds a row with the title of the
  example video, written by an earlier run that uploaded it.
\<close>

definition example_old_row :: "pystr list" where
  "example_old_row =
     [pstr ''Song'', pstr ''A song'', pstr ''music, pop'', pstr ''Music'', pstr ''old123'', [],
      pstr ''t.jpg'', pstr ''2023-12-31'', pstr ''Completed'', pstr ''Pending'']"

definition example_world_known :: world where
  "example_world_known = \<lparr>sheet = [HEADERS, example_old_row], files = (\<lambda>p. None), calls = []\<rparr>"

definition example_row :: "pystr list" where
  "example_row =
     [pstr ''Song'', pstr ''A song'', pstr ''music, pop'', pstr ''Music'', [], [],
      pstr ''t.jpg'', pstr ''2024-01-01'', pstr ''Pending'', pstr ''Pending'']"

definition example_temp :: ppath where
  "example_temp = [pstr ''app'', pstr ''storage'', pstr ''videos'', pstr ''temp'',
     pstr ''Song_dQw4w9WgXcQ.mp4'']"

definition example_final :: ppath where
  "example_final = [pstr ''app'', pstr ''storage'', pstr ''videos'', pstr ''processed'',
     pstr ''Song_dQw4w9WgXcQ.mp4'']"

section \<open>Properties of the filename sanitizer\<close>

subsection \<open>Facts about the sanitizer's steps\<close>

lemma set_sub_underscores: "set (sub_underscores s) \<subseteq> set s"
  by (induction s rule: sub_underscores.induct) auto

lemma set_strip_chars: "set (strip_chars chars s) \<subseteq> set s"
  unfolding strip_chars_def by (auto dest!: set_dropWhileD)

lemma clean_sub_non_ascii_sub_invalid: "list_all clean_char (sub_non_ascii (sub_invalid s))"
  by (induction s) (auto simp: sub_non_ascii_def sub_invalid_def clean_char_def invalid_chars_def)

lemma clean_sub_non_ascii_runs:
  "list_all (\<lambda>c. c \<notin> set invalid_chars) s \<Longrightarrow> list_all clean_char (sub_non_ascii_runs s)"
  by (induction s rule: sub_non_ascii_runs.induct) (auto simp: clean_char_def invalid_chars_def)

lemma sub_invalid_valid: "list_all (\<lambda>c. c \<notin> set invalid_chars) (sub_invalid s)"
  by (induction s) (auto simp: sub_invalid_def invalid_chars_def)

lemma list_all_subset: "set xs \<subseteq> set ys \<Longrightarrow> list_all P ys \<Longrightarrow> list_all P xs"
  by (auto simp: list_all_iff)

lemma clean_clean_filename: "list_all clean_char (clean_filename x)"
  unfolding clean_filename_def
  by (rule list_all_subset [OF set_strip_chars],
      rule list_all_subset [OF set_sub_underscores],
      rule clean_sub_non_ascii_sub_invalid)

lemma clean_clean_filename_legacy: "list_all clean_char (clean_filename_legacy x)"
  unfolding clean_filename_legacy_def
  by (rule list_all_subset [OF set_strip_chars],
      rule list_all_subset [OF set_sub_underscores],
      rule clean_sub_non_ascii_runs, rule sub_invalid_valid)

lemma sub_invalid_id: "list_all clean_char s \<Longrightarrow> sub_invalid s = s"
  by (induction s) (auto simp: sub_invalid_def clean_char_def)

lemma sub_non_ascii_id: "list_all clean_char s \<Longrightarrow> sub_non_ascii s = s"
  by (induction s) (auto simp: sub_non_ascii_def clean_char_def)

lemma sub_non_ascii_runs_id: "list_all clean_char s \<Longrightarrow> sub_non_ascii_runs s = s"
  by (induction s rule: sub_non_ascii_runs.induct) (auto simp: clean_char_def)

lemma sub_underscores_Nil_iff: "sub_underscores s = [] \<longleftrightarrow> s = []"
  by (induction s rule: sub_underscores.induct) auto

lemma hd_sub_underscores: "hd (sub_underscores s) = hd s"
  by (induction s rule: sub_underscores.induct) auto

lemma no_double_sub_underscores: "no_double_underscore (sub_underscores s)"
proof (induction s rule: sub_underscores.induct)
  case (1 c d cs)
  obtain e es where e: "sub_underscores (d # cs) = e # es"
    using sub_underscores_Nil_iff [of "d # cs"] by (cases "sub_underscores (d # cs)") auto
  with hd_sub_underscores [of "d # cs"] have "e = d" by simp
  with 1 e show ?case by auto
qed auto

lemma sub_underscores_id: "no_double_underscore s \<Longrightarrow> sub_underscores s = s"
  by (induction s rule: sub_underscores.induct) auto

lemma no_double_append:
  "no_double_underscore (xs @ ys) \<Longrightarrow> no_double_underscore xs \<and> no_double_underscore ys"
proof (induction xs rule: no_double_underscore.induct)
  case (1 c d cs)
  then show ?case by auto
next
  case (2 c)
  then show ?case by (cases ys) auto
qed auto

lemma no_double_strip_chars:
  assumes "no_double_underscore s" shows "no_double_underscore (strip_chars chars s)"
proof -
  let ?P = "\<lambda>c. c \<in> set chars"
  let ?t = "dropWhile ?P s"
  have "s = takeWhile ?P s @ ?t" by simp
  with assms have t: "no_double_underscore ?t" using no_double_append by metis
  have "?t = rev (dropWhile ?P (rev ?t)) @ rev (takeWhile ?P (rev ?t))"
    by (metis rev_append rev_rev_ident takeWhile_dropWhile_id)
  with t show ?thesis unfolding strip_chars_def using no_double_append by metis
qed

lemma strip_chars_id:
  "(s \<noteq> [] \<Longrightarrow> hd s \<notin> set chars \<and> last s \<notin> set chars) \<Longrightarrow> strip_chars chars s = s"
proof (cases "s = []")
  case True
  then show ?thesis by (simp add: strip_chars_def)
next
  case False
  assume "s \<noteq> [] \<Longrightarrow> hd s \<notin> set chars \<and> last s \<notin> set chars"
  with False have h: "hd s \<notin> set chars" and l: "last s \<notin> set chars" by auto
  from h have 1: "dropWhile (\<lambda>c. c \<in> set chars) s = s"
    by (simp add: dropWhile_eq_self_iff)
  from l False have 2: "dropWhile (\<lambda>c. c \<in> set chars) (rev s) = rev s"
    by (simp add: dropWhile_eq_self_iff hd_rev)
  show ?thesis by (simp add: strip_chars_def 1 2)
qed

lemma strip_chars_ends:
  assumes "strip_chars chars s \<noteq> []"
  shows "hd (strip_chars chars s) \<notin> set chars \<and> last (strip_chars chars s) \<notin> set chars"
proof -
  let ?P = "\<lambda>c. c \<in> set chars"
  let ?t = "dropWhile ?P s"
  let ?u = "dropWhile ?P (rev ?t)"
  from assms have u: "?u \<noteq> []" by (simp add: strip_chars_def)
  then have l: "\<not> ?P (hd ?u)" by (rule hd_dropWhile)
  have t: "?t \<noteq> []"
  proof
    assume "?t = []"
    with u show False by simp
  qed
  then have ht: "\<not> ?P (hd ?t)" by (rule hd_dropWhile)
  have "?t = rev ?u @ rev (takeWhile ?P (rev ?t))"
    by (metis rev_append rev_rev_ident takeWhile_dropWhile_id)
  with u have "hd ?t = hd (rev ?u)" by (metis hd_append rev_is_Nil_conv)
  with ht l u show ?thesis by (simp add: strip_chars_def last_rev)
qed

lemma strip_chars_idem: "strip_chars chars (strip_chars chars s) = strip_chars chars s"
  by (rule strip_chars_id) (rule strip_chars_ends)

lemma clean_filename_fixed: "clean_filename (clean_filename x) = clean_filename x"
proof -
  let ?u = "sub_underscores (sub_non_ascii (sub_invalid x))"
  have c: "list_all clean_char (clean_filename x)" by (rule clean_clean_filename)
  have "no_double_underscore (clean_filename x)"
    unfolding clean_filename_def by (rule no_double_strip_chars) (rule no_double_sub_underscores)
  then have "sub_underscores (clean_filename x) = clean_filename x" by (rule sub_underscores_id)
  with c have "clean_filename (clean_filename x) = strip_chars (pstr ''. '') (clean_filename x)"
    by (simp add: clean_filename_def [of "clean_filename x"] sub_invalid_id sub_non_ascii_id)
  also have "\<dots> = clean_filename x"
    unfolding clean_filename_def by (rule strip_chars_idem)
  finally show ?thesis .
qed

lemma clean_filename_legacy_fixed:
  "clean_filename_legacy (clean_filename_legacy x) = clean_filename_legacy x"
proof -
  have c: "list_all clean_char (clean_filename_legacy x)" by (rule clean_clean_filename_legacy)
  have "no_double_underscore (clean_filename_legacy x)"
    unfolding clean_filename_legacy_def
    by (rule no_double_strip_chars) (rule no_double_sub_underscores)
  then have "sub_underscores (clean_filename_legacy x) = clean_filename_legacy x"
    by (rule sub_underscores_id)
  with c have "clean_filename_legacy (clean_filename_legacy x)
      = strip_chars (pstr ''. '') (clean_filename_legacy x)"
    by (simp add: clean_filename_legacy_def [of "clean_filename_legacy x"]
        sub_invalid_id sub_non_ascii_runs_id)
  also have "\<dots> = clean_filename_legacy x"
    unfolding clean_filename_legacy_def by (rule strip_chars_idem)
  finally show ?thesis .
qed

lemma no_double_no_underscore: "95 \<notin> set s \<Longrightarrow> no_double_underscore s"
  by (induction s rule: no_double_underscore.induct) auto

lemma strip_chars_tail:
  assumes "set t \<subseteq> set chars" "s \<noteq> []" "hd s \<notin> set chars" "last s \<notin> set chars"
  shows "strip_chars chars (s @ t) = s"
proof -
  let ?P = "\<lambda>c. c \<in> set chars"
  from assms have 1: "dropWhile ?P (s @ t) = s @ t"
    by (simp add: dropWhile_eq_self_iff)
  from assms have "dropWhile ?P (rev t @ rev s) = dropWhile ?P (rev s)"
    by (intro dropWhile_append2) auto
  also from assms have "\<dots> = rev s"
    by (simp add: dropWhile_eq_self_iff hd_rev)
  finally show ?thesis by (simp add: strip_chars_def 1)
qed

lemma clean_filename_tail:
  assumes "list_all clean_char s" "95 \<notin> set s" "set t \<subseteq> set (pstr ''. '')"
    "s \<noteq> []" "hd s \<notin> set (pstr ''. '')" "last s \<notin> set (pstr ''. '')"
  shows "clean_filename (s @ t) = s" "clean_filename_legacy (s @ t) = s"
proof -
  from assms(3) have t: "list_all clean_char t" "95 \<notin> set t"
    by (auto simp: list_all_iff clean_char_def invalid_chars_def pstr_def)
  with assms have c: "list_all clean_char (s @ t)" and "95 \<notin> set (s @ t)" by auto
  then have u: "sub_underscores (s @ t) = s @ t"
    by (intro sub_underscores_id no_double_no_underscore)
  from c u assms show "clean_filename (s @ t) = s"
    by (simp add: clean_filename_def sub_invalid_id sub_non_ascii_id strip_chars_tail)
  from c u assms show "clean_filename_legacy (s @ t) = s"
    by (simp add: clean_filename_legacy_def sub_invalid_id sub_non_ascii_runs_id strip_chars_tail)
qed

lemma rfind_absent: "c \<notin> set s \<Longrightarrow> rfind c s = - 1"
  by (simp add: rfind_def)

lemma rfind_last: "c \<notin> set ys \<Longrightarrow> rfind c (xs @ c # ys) = int (length xs)"
proof -
  assume a: "c \<notin> set ys"
  then have "takeWhile (\<lambda>x. x \<noteq> c) (rev ys @ c # rev xs) = rev ys"
    by (subst takeWhile_append2) auto
  then show ?thesis by (simp add: rfind_def)
qed

lemma splitext_no_dot: "46 \<notin> set s \<Longrightarrow> splitext s = (s, [])"
  by (simp add: splitext_def rfind_absent Let_def rfind_def)

lemma splitext_ext:
  assumes "47 \<notin> set xs" "47 \<notin> set ys" "46 \<notin> set ys" "c \<in> set xs" "c \<noteq> 46"
  shows "splitext (xs @ 46 # ys) = (xs, 46 # ys)"
proof -
  from assms have s: "rfind 47 (xs @ 46 # ys) = - 1" by (intro rfind_absent) auto
  from assms have d: "rfind 46 (xs @ 46 # ys) = int (length xs)" by (intro rfind_last)
  from assms obtain i where "i < length xs" "xs ! i = c" by (auto simp: in_set_conv_nth)
  with assms have "list_ex (\<lambda>i. (xs @ 46 # ys) ! i \<noteq> 46) [0..<length xs]"
    by (auto simp: list_ex_iff nth_append intro!: bexI [of _ i])
  with s d show ?thesis by (simp add: splitext_def)
qed

lemma sanitize_a201:
  "sanitize_filename (replicate 201 97) = replicate 196 97 @ pstr ''...''"
  "sanitize_filename_legacy (replicate 201 97) = replicate 196 97 @ pstr ''...''"
proof -
  have "clean_filename (replicate 201 97 @ []) = replicate 201 97"
    by (rule clean_filename_tail) (simp_all add: clean_char_def invalid_chars_def pstr_def list_all_iff)
  then show "sanitize_filename (replicate 201 97) = replicate 196 97 @ pstr ''...''"
    by (simp add: sanitize_filename_def splitext_no_dot)
  have "clean_filename_legacy (replicate 201 97 @ []) = replicate 201 97"
    by (rule clean_filename_tail) (simp_all add: clean_char_def invalid_chars_def pstr_def list_all_iff)
  then show "sanitize_filename_legacy (replicate 201 97) = replicate 196 97 @ pstr ''...''"
    by (simp add: sanitize_filename_legacy_def)
qed

lemma sanitize_a196_dots:
  "sanitize_filename (replicate 196 97 @ pstr ''...'') = replicate 196 97"
  "sanitize_filename_legacy (replicate 196 97 @ pstr ''...'') = replicate 196 97"
proof -
  have "clean_filename (replicate 196 97 @ pstr ''...'') = replicate 196 97"
    by (rule clean_filename_tail) (simp_all add: clean_char_def invalid_chars_def pstr_def list_all_iff)
  then show "sanitize_filename (replicate 196 97 @ pstr ''...'') = replicate 196 97"
    by (simp add: sanitize_filename_def)
  have "clean_filename_legacy (replicate 196 97 @ pstr ''...'') = replicate 196 97"
    by (rule clean_filename_tail) (simp_all add: clean_char_def invalid_chars_def pstr_def list_all_iff)
  then show "sanitize_filename_legacy (replicate 196 97 @ pstr ''...'') = replicate 196 97"
    by (simp add: sanitize_filename_legacy_def)
qed

text \<open>
  Claim C4 as stated fails. A title of 201 letters \<^verbatim>\<open>a\<close> is cut to 196 letters followed by
  \<^verbatim>\<open>...\<close>; a second call strips these trailing dots and returns the 196 letters alone.
\<close>

theorem sanitize_not_idempotent:
  "sanitize_filename (sanitize_filename (replicate 201 97)) \<noteq> sanitize_filename (replicate 201 97) \<and>
   sanitize_filename_legacy (sanitize_filename_legacy (replicate 201 97))
     \<noteq> sanitize_filename_legacy (replicate 201 97)"
  unfolding sanitize_a201 sanitize_a196_dots by (simp add: pstr_def)

lemma set_splitext: "set (fst (splitext p)) \<subseteq> set p" "set (snd (splitext p)) \<subseteq> set p"
  by (auto simp: splitext_def Let_def dest: in_set_takeD in_set_dropD)

lemma length_splitext: "length (fst (splitext p)) + length (snd (splitext p)) = length p"
  by (auto simp: splitext_def Let_def)

lemma clean_sanitize_filename: "list_all clean_char (sanitize_filename x)"
proof (cases "length (clean_filename x) > 200")
  case True
  obtain name ext where ne: "splitext (clean_filename x) = (name, ext)" by fastforce
  with set_splitext [of "clean_filename x"]
  have "set name \<subseteq> set (clean_filename x)" "set ext \<subseteq> set (clean_filename x)" by simp_all
  with clean_clean_filename [of x]
  have "list_all clean_char name" "list_all clean_char ext" by (auto simp: list_all_iff)
  moreover from this have "list_all clean_char (take 196 name)"
    by (auto simp: list_all_iff dest: in_set_takeD)
  moreover have "list_all clean_char (pstr ''...'')"
    by (simp add: pstr_def clean_char_def invalid_chars_def)
  ultimately show ?thesis using True ne by (simp add: sanitize_filename_def)
next
  case False
  then show ?thesis using clean_clean_filename [of x] by (simp add: sanitize_filename_def)
qed

lemma clean_sanitize_filename_legacy: "list_all clean_char (sanitize_filename_legacy x)"
proof -
  have "list_all clean_char (take 196 (clean_filename_legacy x))"
    using clean_clean_filename_legacy [of x] by (auto simp: list_all_iff dest: in_set_takeD)
  moreover have "list_all clean_char (pstr ''...'')"
    by (simp add: pstr_def clean_char_def invalid_chars_def)
  ultimately show ?thesis
    using clean_clean_filename_legacy [of x] by (simp add: sanitize_filename_legacy_def Let_def)
qed

lemma length_sanitize_filename_legacy: "length (sanitize_filename_legacy x) \<le> 200"
  by (simp add: sanitize_filename_legacy_def Let_def pstr_def)

lemma length_sanitize_filename:
  "length (sanitize_filename x) \<le> max 200 (199 + length (snd (splitext (clean_filename x))))"
  by (auto simp: sanitize_filename_def Let_def pstr_def split: prod.split)

text \<open>
  Claim C5, as amended. The output of either sanitizer contains none of the invalid
  characters and no code point from 128 upwards. The output of the sanitizer of
  src/youtube_manager.py has at most 200 characters; the output of the sanitizer of
  app/utils/helpers.py has at most 203 whenever the extension that \<^verbatim>\<open>os.path.splitext\<close>
  finds has at most 4 characters.
\<close>

theorem sanitize_output_chars_and_length:
  "(\<forall>c \<in> set (sanitize_filename x). c \<notin> set invalid_chars \<and> c < 128) \<and>
   (\<forall>c \<in> set (sanitize_filename_legacy x). c \<notin> set invalid_chars \<and> c < 128) \<and>
   length (sanitize_filename_legacy x) \<le> 200 \<and>
   (length (snd (splitext (clean_filename x))) \<le> 4 \<longrightarrow> length (sanitize_filename x) \<le> 203)"
proof -
  have "\<forall>c \<in> set (sanitize_filename x). c \<notin> set invalid_chars \<and> c < 128"
    using clean_sanitize_filename [of x] by (simp add: list_all_iff clean_char_def)
  moreover have "\<forall>c \<in> set (sanitize_filename_legacy x). c \<notin> set invalid_chars \<and> c < 128"
    using clean_sanitize_filename_legacy [of x] by (simp add: list_all_iff clean_char_def)
  moreover have "length (snd (splitext (clean_filename x))) \<le> 4 \<longrightarrow>
      length (sanitize_filename x) \<le> 203"
    using length_sanitize_filename [of x] by auto
  ultimately show ?thesis using length_sanitize_filename_legacy [of x] by blast
qed

lemma sanitize_a250_mp4:
  "clean_filename (replicate 250 97 @ pstr ''.mp4'') = replicate 250 97 @ pstr ''.mp4''"
  "splitext (replicate 250 97 @ pstr ''.mp4'') = (replicate 250 97, pstr ''.mp4'')"
  "sanitize_filename (replicate 250 97 @ pstr ''.mp4'') = replicate 196 97 @ pstr ''....mp4''"
  "sanitize_filename_legacy (replicate 250 97 @ pstr ''.mp4'') = replicate 196 97 @ pstr ''...''"
proof -
  have "clean_filename ((replicate 250 97 @ pstr ''.mp4'') @ []) = replicate 250 97 @ pstr ''.mp4''"
    by (rule clean_filename_tail)
       (simp_all add: clean_char_def invalid_chars_def pstr_def list_all_iff hd_append)
  then show c: "clean_filename (replicate 250 97 @ pstr ''.mp4'') = replicate 250 97 @ pstr ''.mp4''"
    by simp
  have "splitext (replicate 250 97 @ 46 # pstr ''mp4'') = (replicate 250 97, 46 # pstr ''mp4'')"
    by (rule splitext_ext [where c = 97]) (simp_all add: pstr_def)
  then show s: "splitext (replicate 250 97 @ pstr ''.mp4'') = (replicate 250 97, pstr ''.mp4'')"
    by (simp add: pstr_def)
  from c s show "sanitize_filename (replicate 250 97 @ pstr ''.mp4'')
      = replicate 196 97 @ pstr ''....mp4''"
    by (simp add: sanitize_filename_def) (simp add: pstr_def)
  have "clean_filename_legacy ((replicate 250 97 @ pstr ''.mp4'') @ [])
      = replicate 250 97 @ pstr ''.mp4''"
    by (rule clean_filename_tail)
       (simp_all add: clean_char_def invalid_chars_def pstr_def list_all_iff hd_append)
  then show "sanitize_filename_legacy (replicate 250 97 @ pstr ''.mp4'')
      = replicate 196 97 @ pstr ''...''"
    by (simp add: sanitize_filename_legacy_def)
qed

text \<open>Claim C5, as amended, at a title of 250 letters followed by \<^verbatim>\<open>.mp4\<close>.\<close>

theorem sanitize_output_chars_and_length_witness:
  "97 \<in> set (sanitize_filename (replicate 250 97 @ pstr ''.mp4'')) \<and>
   97 \<in> set (sanitize_filename_legacy (replicate 250 97 @ pstr ''.mp4'')) \<and>
   97 \<notin> set invalid_chars \<and> (97::nat) < 128 \<and>
   length (sanitize_filename_legacy (replicate 250 97 @ pstr ''.mp4'')) \<le> 200 \<and>
   length (snd (splitext (clean_filename (replicate 250 97 @ pstr ''.mp4'')))) \<le> 4 \<and>
   length (sanitize_filename (replicate 250 97 @ pstr ''.mp4'')) \<le> 203"
proof -
  have m: "97 \<in> set (sanitize_filename (replicate 250 97 @ pstr ''.mp4''))"
    "97 \<in> set (sanitize_filename_legacy (replicate 250 97 @ pstr ''.mp4''))"
    by (simp_all add: sanitize_a250_mp4)
  have e: "length (snd (splitext (clean_filename (replicate 250 97 @ pstr ''.mp4'')))) \<le> 4"
    by (simp add: sanitize_a250_mp4) (simp add: pstr_def)
  from sanitize_output_chars_and_length [of "replicate 250 97 @ pstr ''.mp4''"] m e
  show ?thesis by blast
qed

lemma sanitize_a_dot_b300:
  "sanitize_filename (pstr ''a.'' @ replicate 300 98) = pstr ''a....'' @ replicate 300 98"
proof -
  have "clean_filename ((pstr ''a.'' @ replicate 300 98) @ []) = pstr ''a.'' @ replicate 300 98"
    by (rule clean_filename_tail)
       (simp_all add: clean_char_def invalid_chars_def pstr_def list_all_iff)
  then have c: "clean_filename (pstr ''a.'' @ replicate 300 98) = pstr ''a.'' @ replicate 300 98"
    by simp
  have "splitext ([97] @ 46 # replicate 300 98) = ([97], 46 # replicate 300 98)"
    by (rule splitext_ext [where c = 97]) simp_all
  then have "splitext (pstr ''a.'' @ replicate 300 98) = ([97], 46 # replicate 300 98)"
    by (simp add: pstr_def)
  with c show ?thesis by (simp add: sanitize_filename_def) (simp add: pstr_def)
qed

text \<open>
  Claim C5 as stated fails. The control character with code point 1 is below 128 and is
  kept by both sanitizers, and the title \<^verbatim>\<open>a.\<close> followed by 300 letters \<^verbatim>\<open>b\<close> has the
  extension \<^verbatim>\<open>.bbb...\<close>, which app/utils/helpers.py appends whole: 305 characters.
\<close>

theorem sanitize_keeps_control_chars_and_long_extensions:
  "sanitize_filename [1] = [1] \<and> sanitize_filename_legacy [1] = [1] \<and>
   length (sanitize_filename (pstr ''a.'' @ replicate 300 98)) = 305"
proof -
  have "sanitize_filename [1] = [1]"
    by (simp add: sanitize_filename_def clean_filename_def sub_invalid_def invalid_chars_def
        sub_non_ascii_def strip_chars_def pstr_def)
  moreover have "sanitize_filename_legacy [1] = [1]"
    by (simp add: sanitize_filename_legacy_def clean_filename_legacy_def sub_invalid_def
        invalid_chars_def strip_chars_def pstr_def)
  moreover have "length (sanitize_filename (pstr ''a.'' @ replicate 300 98)) = 305"
    unfolding sanitize_a_dot_b300 by (simp add: pstr_def)
  ultimately show ?thesis by blast
qed

subsection \<open>When a second call changes nothing\<close>

lemma length_sub_underscores: "length (sub_underscores s) \<le> length s"
  by (induction s rule: sub_underscores.induct) auto

lemma length_sub_non_ascii_runs: "length (sub_non_ascii_runs s) \<le> length s"
  by (induction s rule: sub_non_ascii_runs.induct) auto

lemma length_strip_chars: "length (strip_chars chars s) \<le> length s"
proof -
  have "length (dropWhile (\<lambda>c. c \<in> set chars) (rev (dropWhile (\<lambda>c. c \<in> set chars) s)))
      \<le> length (rev (dropWhile (\<lambda>c. c \<in> set chars) s))"
    by (rule length_dropWhile_le)
  also have "\<dots> \<le> length s" by (simp add: length_dropWhile_le)
  finally show ?thesis by (simp add: strip_chars_def)
qed

lemma length_clean_filename: "length (clean_filename s) \<le> length s"
proof -
  have "length (clean_filename s) \<le> length (sub_underscores (sub_non_ascii (sub_invalid s)))"
    unfolding clean_filename_def by (rule length_strip_chars)
  also have "\<dots> \<le> length (sub_non_ascii (sub_invalid s))" by (rule length_sub_underscores)
  finally show ?thesis by (simp add: sub_non_ascii_def sub_invalid_def)
qed

lemma length_clean_filename_legacy: "length (clean_filename_legacy s) \<le> length s"
proof -
  have "length (clean_filename_legacy s)
      \<le> length (sub_underscores (sub_non_ascii_runs (sub_invalid s)))"
    unfolding clean_filename_legacy_def by (rule length_strip_chars)
  also have "\<dots> \<le> length (sub_non_ascii_runs (sub_invalid s))" by (rule length_sub_underscores)
  also have "\<dots> \<le> length (sub_invalid s)" by (rule length_sub_non_ascii_runs)
  finally show ?thesis by (simp add: sub_invalid_def)
qed

lemma clean_filename_ends:
  "clean_filename x \<noteq> [] \<Longrightarrow>
     hd (clean_filename x) \<notin> set (pstr ''. '') \<and> last (clean_filename x) \<notin> set (pstr ''. '')"
  "clean_filename_legacy x \<noteq> [] \<Longrightarrow>
     hd (clean_filename_legacy x) \<notin> set (pstr ''. '') \<and>
     last (clean_filename_legacy x) \<notin> set (pstr ''. '')"
  unfolding clean_filename_def clean_filename_legacy_def by (rule strip_chars_ends, assumption)+

lemma no_double_clean_filename:
  "no_double_underscore (clean_filename x)" "no_double_underscore (clean_filename_legacy x)"
  unfolding clean_filename_def clean_filename_legacy_def
  by (rule no_double_strip_chars, rule no_double_sub_underscores)+

lemma dot_in_strip_set: "46 \<in> set (pstr ''. '')"
  by (simp add: pstr_def)

text \<open>A short string that ends with a dot is changed by either sanitizer.\<close>

lemma sanitize_changes_trailing_dot:
  assumes "length s < 200"
  shows "sanitize_filename (s @ [46]) \<noteq> s @ [46]"
    and "sanitize_filename_legacy (s @ [46]) \<noteq> s @ [46]"
proof -
  from length_clean_filename [of "s @ [46]"] assms
  have "sanitize_filename (s @ [46]) = clean_filename (s @ [46])"
    by (simp add: sanitize_filename_def)
  with clean_filename_ends(1) [of "s @ [46]"] dot_in_strip_set
  show "sanitize_filename (s @ [46]) \<noteq> s @ [46]" by auto
  from length_clean_filename_legacy [of "s @ [46]"] assms
  have "sanitize_filename_legacy (s @ [46]) = clean_filename_legacy (s @ [46])"
    by (simp add: sanitize_filename_legacy_def)
  with clean_filename_ends(2) [of "s @ [46]"] dot_in_strip_set
  show "sanitize_filename_legacy (s @ [46]) \<noteq> s @ [46]" by auto
qed

lemma no_double_join:
  "no_double_underscore xs \<Longrightarrow> no_double_underscore (d # ys) \<Longrightarrow> d \<noteq> 95 \<Longrightarrow>
     no_double_underscore (xs @ d # ys)"
  by (induction xs rule: no_double_underscore.induct) auto

lemma clean_filename_id:
  assumes "list_all clean_char s" "no_double_underscore s" "s \<noteq> []"
    "hd s \<notin> set (pstr ''. '')" "last s \<notin> set (pstr ''. '')"
  shows "clean_filename s = s"
  using assms
  by (simp add: clean_filename_def sub_invalid_id sub_non_ascii_id sub_underscores_id
      strip_chars_id)

text \<open>
  What \<^verbatim>\<open>os.path.splitext\<close> returns when it finds an extension in a name without a
  separator: the name is cut at its last dot, and a character other than a dot precedes it.
\<close>

lemma splitext_cases:
  assumes "47 \<notin> set p" "snd (splitext p) \<noteq> []"
  shows "\<exists>xs ys. p = xs @ 46 # ys \<and> 46 \<notin> set ys \<and> (\<exists>c \<in> set xs. c \<noteq> 46) \<and>
           splitext p = (xs, 46 # ys)"
proof -
  from assms(1) have s: "rfind 47 p = - 1" by (rule rfind_absent)
  have d: "46 \<in> set p"
  proof (rule ccontr)
    assume "46 \<notin> set p"
    then have "splitext p = (p, [])" by (rule splitext_no_dot)
    with assms(2) show False by simp
  qed
  then obtain xs ys where p: "p = xs @ 46 # ys" "46 \<notin> set ys"
    using split_list_last [of 46 p] by blast
  then have r: "rfind 46 p = int (length xs)" by (simp add: rfind_last)
  from assms(2) s r have "list_ex (\<lambda>i. p ! i \<noteq> 46) [0..<length xs]"
    by (auto simp: splitext_def Let_def split: if_splits)
  then obtain i where i: "i < length xs" "p ! i \<noteq> 46" by (auto simp: list_ex_iff)
  with p have "xs ! i \<in> set xs" "xs ! i \<noteq> 46" by (simp_all add: nth_append)
  then have c: "\<exists>c \<in> set xs. c \<noteq> 46" by blast
  then obtain c where "c \<in> set xs" "c \<noteq> 46" by blast
  with assms(1) p have "splitext (xs @ 46 # ys) = (xs, 46 # ys)"
    by (intro splitext_ext [where c=c]) auto
  with p c show ?thesis by blast
qed

text \<open>
  A long cleaned name with an extension: what the sanitizer of app/utils/helpers.py returns
  for it, and what it returns for that.
\<close>

lemma sanitize_truncated_with_extension:
  assumes c: "clean_filename x = xs @ 46 # ys" and l: "length (clean_filename x) > 200"
    and s: "splitext (clean_filename x) = (xs, 46 # ys)"
    and d: "46 \<notin> set ys" and n: "\<exists>c \<in> set xs. c \<noteq> 46"
  shows "sanitize_filename x = take 196 xs @ pstr ''...'' @ 46 # ys"
    and "sanitize_filename (sanitize_filename x)
           = take 196 (take 196 xs @ pstr ''...'') @ pstr ''...'' @ 46 # ys"
proof -
  let ?z = "take 196 xs @ pstr ''...'' @ 46 # ys"
  from l s show 1: "sanitize_filename x = ?z" by (simp add: sanitize_filename_def)
  from n have xs: "xs \<noteq> []" by auto
  from c have ne: "clean_filename x \<noteq> []" by simp
  from clean_filename_ends(1) [OF ne] c xs
  have h: "hd xs \<notin> set (pstr ''. '')" and la: "last (46 # ys) \<notin> set (pstr ''. '')"
    by simp_all
  from la dot_in_strip_set have ys: "ys \<noteq> []" by auto
  with la have ly: "last ys \<notin> set (pstr ''. '')" by simp
  from clean_clean_filename [of x] c
  have cx: "list_all clean_char xs" and cy: "list_all clean_char ys" by simp_all
  have cd: "clean_char 46" by (simp add: clean_char_def invalid_chars_def)
  from cx have ct: "list_all clean_char (take 196 xs)"
    by (auto simp: list_all_iff dest: in_set_takeD)
  with cy cd have cz: "list_all clean_char ?z" by (simp add: pstr_def)
  from no_double_clean_filename(1) [of x] c
  have "no_double_underscore xs" "no_double_underscore (46 # ys)"
    using no_double_append [of xs "46 # ys"] by simp_all
  moreover from this(1) have "no_double_underscore (take 196 xs)"
    using no_double_append [of "take 196 xs" "drop 196 xs"] by simp
  ultimately have nz: "no_double_underscore ?z"
    by (simp add: pstr_def no_double_join)
  from xs h have hz: "hd ?z \<notin> set (pstr ''. '')" by (cases xs) simp_all
  from ys ly have lz: "last ?z \<notin> set (pstr ''. '')" by (simp add: pstr_def)
  have "?z \<noteq> []" by simp
  from clean_filename_id [OF cz nz this hz lz] have fz: "clean_filename ?z = ?z" .
  from c l have "length xs + length ys \<ge> 200" by simp
  with ys have gz: "length ?z > 200" by (cases ys) (auto simp: pstr_def min_def)
  from cx cy have "47 \<notin> set xs" "47 \<notin> set ys"
    by (auto simp: list_all_iff clean_char_def invalid_chars_def)
  moreover from xs h dot_in_strip_set have "hd xs \<in> set (take 196 xs)" "hd xs \<noteq> 46"
    by (cases xs; auto)+
  ultimately have "splitext ((take 196 xs @ pstr ''...'') @ 46 # ys)
      = (take 196 xs @ pstr ''...'', 46 # ys)"
    using d by (intro splitext_ext [where c="hd xs"]) (auto simp: pstr_def dest: in_set_takeD)
  then have sz: "splitext ?z = (take 196 xs @ pstr ''...'', 46 # ys)" by simp
  from fz gz sz have "sanitize_filename ?z
      = take 196 (take 196 xs @ pstr ''...'') @ pstr ''...'' @ 46 # ys"
    by (simp add: sanitize_filename_def del: take_append append_assoc)
  with 1 show "sanitize_filename (sanitize_filename x)
      = take 196 (take 196 xs @ pstr ''...'') @ pstr ''...'' @ 46 # ys"
    by simp
qed

lemma sanitize_idempotent_legacy:
  "sanitize_filename_legacy (sanitize_filename_legacy x) = sanitize_filename_legacy x
     \<longleftrightarrow> length (clean_filename_legacy x) \<le> 200"
proof (cases "length (clean_filename_legacy x) \<le> 200")
  case True
  then show ?thesis
    by (simp add: sanitize_filename_legacy_def Let_def clean_filename_legacy_fixed)
next
  case False
  then have "sanitize_filename_legacy x = (take 196 (clean_filename_legacy x) @ [46, 46]) @ [46]"
    by (simp add: sanitize_filename_legacy_def pstr_def)
  moreover have "length (take 196 (clean_filename_legacy x) @ [46, 46]) < 200" by simp
  ultimately show ?thesis using False sanitize_changes_trailing_dot(2) by metis
qed

lemma sanitize_idempotent_app:
  "sanitize_filename (sanitize_filename x) = sanitize_filename x
     \<longleftrightarrow> length (clean_filename x) \<le> 200 \<or>
          (snd (splitext (clean_filename x)) \<noteq> [] \<and>
           196 \<le> length (fst (splitext (clean_filename x))))"
proof (cases "length (clean_filename x) \<le> 200")
  case True
  then show ?thesis by (simp add: sanitize_filename_def Let_def clean_filename_fixed)
next
  case False
  then have l: "length (clean_filename x) > 200" by simp
  show ?thesis
  proof (cases "snd (splitext (clean_filename x)) = []")
    case True
    then obtain name where "splitext (clean_filename x) = (name, [])"
      by (cases "splitext (clean_filename x)") simp
    with l have "sanitize_filename x = (take 196 name @ [46, 46]) @ [46]"
      by (simp add: sanitize_filename_def pstr_def)
    moreover have "length (take 196 name @ [46, 46]) < 200" by simp
    ultimately have "sanitize_filename (sanitize_filename x) \<noteq> sanitize_filename x"
      using sanitize_changes_trailing_dot(1) by metis
    with True False show ?thesis by simp
  next
    case ext: False
    from clean_clean_filename [of x] have "47 \<notin> set (clean_filename x)"
      by (auto simp: list_all_iff clean_char_def invalid_chars_def)
    from splitext_cases [OF this ext] obtain xs ys where
      c: "clean_filename x = xs @ 46 # ys" and d: "46 \<notin> set ys"
      and n: "\<exists>c \<in> set xs. c \<noteq> 46" and s: "splitext (clean_filename x) = (xs, 46 # ys)"
      by blast
    note t = sanitize_truncated_with_extension [OF c l s d n]
    have "take 196 (take 196 xs @ pstr ''...'') = take 196 xs \<longleftrightarrow> 196 \<le> length xs"
      by (auto simp: pstr_def min_def)
    with t s False ext show ?thesis by simp
  qed
qed

text \<open>
  Claim C4, as amended. The sanitizer of src/youtube_manager.py is idempotent at an input
  exactly when the input is not truncated, that is when the name left after replacing
  characters, collapsing underscores and stripping dots and spaces has at most 200
  characters. The sanitizer of app/utils/helpers.py is idempotent at an input exactly when
  the input is not truncated, or \<^verbatim>\<open>os.path.splitext\<close> finds an extension in that name and
  at least 196 characters before it.
\<close>

theorem sanitize_idempotent_iff:
  "(sanitize_filename (sanitize_filename x) = sanitize_filename x
      \<longleftrightarrow> length (clean_filename x) \<le> 200 \<or>
           (snd (splitext (clean_filename x)) \<noteq> [] \<and>
            196 \<le> length (fst (splitext (clean_filename x))))) \<and>
   (sanitize_filename_legacy (sanitize_filename_legacy x) = sanitize_filename_legacy x
      \<longleftrightarrow> length (clean_filename_legacy x) \<le> 200)"
  using sanitize_idempotent_app [of x] sanitize_idempotent_legacy [of x] by blast

text \<open>
  Claim C4, as amended, at a title of 250 letters followed by \<^verbatim>\<open>.mp4\<close>: truncated by both
  sanitizers, a fixed point of the one of app/utils/helpers.py and not of the other.
\<close>

theorem sanitize_idempotent_iff_witness:
  "sanitize_filename (sanitize_filename (replicate 250 97 @ pstr ''.mp4''))
     = sanitize_filename (replicate 250 97 @ pstr ''.mp4'') \<and>
   sanitize_filename (replicate 250 97 @ pstr ''.mp4'') = replicate 196 97 @ pstr ''....mp4'' \<and>
   sanitize_filename_legacy (sanitize_filename_legacy (replicate 250 97 @ pstr ''.mp4''))
     \<noteq> sanitize_filename_legacy (replicate 250 97 @ pstr ''.mp4'')"
proof -
  have "clean_filename_legacy ((replicate 250 97 @ pstr ''.mp4'') @ [])
      = replicate 250 97 @ pstr ''.mp4''"
    by (rule clean_filename_tail)
       (simp_all add: clean_char_def invalid_chars_def pstr_def list_all_iff hd_append)
  then have l: "length (clean_filename_legacy (replicate 250 97 @ pstr ''.mp4'')) = 254"
    by (simp add: pstr_def)
  have a: "snd (splitext (clean_filename (replicate 250 97 @ pstr ''.mp4''))) \<noteq> []"
    "196 \<le> length (fst (splitext (clean_filename (replicate 250 97 @ pstr ''.mp4''))))"
    unfolding sanitize_a250_mp4 by (simp_all add: pstr_def)
  from sanitize_idempotent_iff [of "replicate 250 97 @ pstr ''.mp4''"] a l
  show ?thesis by (simp add: sanitize_a250_mp4(3))
qed

section \<open>Properties of the identifier extraction\<close>

lemma strip_no_trailing_space: "strip s \<noteq> [] \<Longrightarrow> \<not> is_space (last (strip s))"
proof -
  let ?u = "dropWhile is_space (rev (dropWhile is_space s))"
  assume "strip s \<noteq> []"
  then have u: "?u \<noteq> []" by (simp add: strip_def)
  then have "\<not> is_space (hd ?u)" by (rule hd_dropWhile)
  with u show ?thesis by (simp add: strip_def last_rev)
qed

lemma strip_id: "s \<noteq> [] \<Longrightarrow> \<not> is_space (hd s) \<Longrightarrow> \<not> is_space (last s) \<Longrightarrow> strip s = s"
proof -
  assume a: "s \<noteq> []" "\<not> is_space (hd s)" "\<not> is_space (last s)"
  then have 1: "dropWhile is_space s = s" by (simp add: dropWhile_eq_self_iff)
  from a have 2: "dropWhile is_space (rev s) = rev s" by (simp add: dropWhile_eq_self_iff hd_rev)
  show ?thesis by (simp add: strip_def 1 2)
qed

lemma id_char_not_space: "id_char c \<Longrightarrow> \<not> is_space c"
  by (auto simp: id_char_def is_space_def)

lemma match_video_id_strip:
  assumes "match_video_id (strip s)"
  shows "length (strip s) = 11 \<and> list_all id_char (strip s)"
proof (cases "drop 11 (strip s) = []")
  case True
  with assms show ?thesis by (simp add: match_video_id_def)
next
  case False
  with assms have d: "drop 11 (strip s) = [10]" by (simp add: match_video_id_def)
  then have "strip s \<noteq> []" by auto
  then have n: "\<not> is_space (last (strip s))" by (rule strip_no_trailing_space)
  from d have "last (strip s) = last (drop 11 (strip s))" by (intro last_drop [symmetric]) (cases "11 < length (strip s)"; simp)
  with d n show ?thesis by (simp add: is_space_def)
qed

text \<open>
  What holds of every result: a failure is a \<open>ValidationError\<close>, and a returned value is
  one that the regular expression matches. An input of eleven characters of the class is
  returned unchanged.
\<close>

lemma validate_youtube_url_result:
  "(case validate_youtube_url lib url of
      Inl e \<Rightarrow> e = ValidationError (str_of e)
    | Inr v \<Rightarrow> match_video_id v)"
  by (auto simp: validate_youtube_url_def Let_def split: sum.splits option.splits)

lemma validate_youtube_url_legacy_result:
  "(case validate_youtube_url_legacy lib url of
      Inl e \<Rightarrow> e = ValidationError (str_of e)
    | Inr v \<Rightarrow> match_video_id v)"
  by (auto simp: validate_youtube_url_legacy_def extract_video_id_from_url_def
      split: sum.splits option.splits list.splits if_splits)

lemma validate_youtube_url_direct_id:
  assumes "length s = 11" "list_all id_char s"
  shows "validate_youtube_url lib s = Inr s" "validate_youtube_url_legacy lib s = Inr s"
proof -
  from assms have ne: "s \<noteq> []" by auto
  with assms have "id_char (hd s)" "id_char (last s)" by (auto simp: list_all_iff)
  with ne have s: "strip s = s" by (intro strip_id id_char_not_space)
  from assms have m: "match_video_id s" by (simp add: match_video_id_def)
  from s m show "validate_youtube_url lib s = Inr s" by (simp add: validate_youtube_url_def)
  from s m ne show "validate_youtube_url_legacy lib s = Inr s"
    by (simp add: validate_youtube_url_legacy_def extract_video_id_from_url_def)
qed

lemma strip_failing_url:
  "strip (pstr ''https://www.youtube.com/watch?v=dQw4w9WgXcQ%0A'')
     = pstr ''https://www.youtube.com/watch?v=dQw4w9WgXcQ%0A''"
  by (rule strip_id) (simp_all add: pstr_def is_space_def)

lemma match_failing:
  "\<not> match_video_id (pstr ''https://www.youtube.com/watch?v=dQw4w9WgXcQ%0A'')"
  "match_video_id (pstr ''dQw4w9WgXcQ'' @ [10])"
  by (simp_all add: match_video_id_def pstr_def id_char_def)

text \<open>
  Claim C9, at the input \<^verbatim>\<open>https://www.youtube.com/watch?v=dQw4w9WgXcQ%0A\<close>. Both
  validators return the twelve characters \<^verbatim>\<open>dQw4w9WgXcQ\n\<close>: the final check
  \<^verbatim>\<open>re.match(r'^[a-zA-Z0-9_-]{11}$', video_id)\<close> accepts eleven characters of the class
  followed by a newline, and the value that matched is returned as it is.
\<close>

theorem validate_youtube_url_returns_trailing_newline:
  "validate_youtube_url urllib_tabulated (pstr ''https://www.youtube.com/watch?v=dQw4w9WgXcQ%0A'')
     = Inr (pstr ''dQw4w9WgXcQ'' @ [10]) \<and>
   validate_youtube_url_legacy urllib_tabulated
       (pstr ''https://www.youtube.com/watch?v=dQw4w9WgXcQ%0A'')
     = Inr (pstr ''dQw4w9WgXcQ'' @ [10]) \<and>
   length (pstr ''dQw4w9WgXcQ'' @ [10]) = 12"
proof -
  have 1: "validate_youtube_url urllib_tabulated
      (pstr ''https://www.youtube.com/watch?v=dQw4w9WgXcQ%0A'') = Inr (pstr ''dQw4w9WgXcQ'' @ [10])"
    by (simp add: validate_youtube_url_def strip_failing_url match_failing urllib_tabulated_def
        url_video_id_def youtube_hosts_def)
  have 2: "validate_youtube_url_legacy urllib_tabulated
      (pstr ''https://www.youtube.com/watch?v=dQw4w9WgXcQ%0A'') = Inr (pstr ''dQw4w9WgXcQ'' @ [10])"
    apply (simp add: validate_youtube_url_legacy_def extract_video_id_from_url_def
        strip_failing_url match_failing urllib_tabulated_def youtube_hosts_def)
    apply (simp add: pstr_def)
    done
  from 1 2 show ?thesis by (simp add: pstr_def)
qed

section \<open>Properties of the pipeline of app/\<close>

subsection \<open>What each step leaves unchanged\<close>

lemma get_video_info_world: "snd (get_video_info env w url) = add_call (ExtractInfo url False) w"
  by (simp add: get_video_info_def Let_def split: sum.splits)

lemma get_video_info_except_kind:
  "get_video_info_except e = DownloadError (str_of (get_video_info_except e))"
  by (cases e) simp_all

lemma get_video_info_error:
  "fst (get_video_info env w url) = Inl e \<Longrightarrow> e = DownloadError (str_of e)"
  using get_video_info_except_kind
  by (auto simp: get_video_info_def Let_def split: sum.splits)


lemma add_video_Inl:
  "add_video env w m = (Inl e, w') \<Longrightarrow>
     w' = add_call (Sheets (AppendRow (row_data env m None))) w"
  by (auto simp: add_video_def Let_def split: option.splits)

lemma mkdir_frame:
  "sheet (snd (mkdir env w p)) = sheet w" "files (snd (mkdir env w p)) = files w"
  "calls (snd (mkdir env w p)) = calls w @ [Fs (Mkdir p)]"
  by (simp_all add: mkdir_def Let_def add_call_def split: option.splits)

lemma download_video_try_sheet: "sheet (snd (download_video_try env w url m)) = sheet w"
  by (auto simp: download_video_try_def Let_def add_call_def mkdir_def
      split: prod.splits sum.splits option.splits)

lemma download_video_sheet: "sheet (snd (download_video env w url m)) = sheet w"
  using download_video_try_sheet [of env w url m]
  by (auto simp: download_video_def split: prod.splits sum.splits)

lemma download_video_except_kind:
  "download_video_except e = DownloadError (str_of (download_video_except e))"
  by (cases e) simp_all

lemma download_video_error:
  "fst (download_video env w url m) = Inl e \<Longrightarrow> e = DownloadError (str_of e)"
  using download_video_except_kind
  by (auto simp: download_video_def split: prod.splits sum.splits)


subsection \<open>The example run, step by step\<close>

lemma validate_example:
  "validate_youtube_url lib (pstr ''dQw4w9WgXcQ'') = Inr (pstr ''dQw4w9WgXcQ'')"
  by (rule validate_youtube_url_direct_id) (simp_all add: pstr_def id_char_def)

lemma validate_blank:
  "validate_youtube_url urllib_tabulated (pstr '' '')
     = Inl (ValidationError (pstr ''Could not extract valid video ID from URL''))"
  "validate_youtube_url urllib_tabulated []
     = Inl (ValidationError (pstr ''Could not extract valid video ID from URL''))"
  by (simp_all add: validate_youtube_url_def strip_def is_space_def pstr_def match_video_id_def
      urllib_tabulated_def url_video_id_def youtube_hosts_def)

subsection \<open>Errors at the boundary of the pipeline\<close>

text \<open>
  Claim C3, as amended. Every failure of \<open>process_video\<close> is a \<open>ProcessingError\<close>, so no
  exception of a collaborator leaves the pipeline; the \<open>ValidationError\<close> of the validator
  is not propagated unchanged, it is replaced by a \<open>ProcessingError\<close> that carries its
  message, and the world is as it was.
\<close>

theorem process_video_raises_only_processing_error:
  "(fst (process_video env w url) = Inr () \<or>
    (\<exists>m. fst (process_video env w url) = Inl (ProcessingError m))) \<and>
   (validate_youtube_url (url_lib env) url = Inl (ValidationError m) \<longrightarrow>
      process_video env w url = (Inl (ProcessingError (pstr ''Processing error: '' @ m)), w))"
  by (auto simp: process_video_def process_video_try_def split: prod.splits sum.splits)

text \<open>Claim C3, as amended, at the input of one space.\<close>

theorem process_video_raises_only_processing_error_witness:
  "validate_youtube_url (url_lib example_env) (pstr '' '')
     = Inl (ValidationError (pstr ''Could not extract valid video ID from URL'')) \<and>
   process_video example_env example_world (pstr '' '')
     = (Inl (ProcessingError
          (pstr ''Processing error: '' @ pstr ''Could not extract valid video ID from URL'')),
        example_world)"
proof -
  have v: "validate_youtube_url (url_lib example_env) (pstr '' '')
     = Inl (ValidationError (pstr ''Could not extract valid video ID from URL''))"
    by (simp add: example_env_def validate_blank)
  with process_video_raises_only_processing_error
    [of example_env example_world "pstr '' ''" "pstr ''Could not extract valid video ID from URL''"]
  show ?thesis by simp
qed

text \<open>
  Claim C3 as stated fails. On the empty input the validator raises a \<open>ValidationError\<close>,
  and \<open>process_video\<close> raises a \<open>ProcessingError\<close> instead of it.
\<close>

theorem process_video_wraps_validation_error:
  "validate_youtube_url (url_lib example_env) []
     = Inl (ValidationError (pstr ''Could not extract valid video ID from URL'')) \<and>
   fst (process_video example_env example_world [])
     = Inl (ProcessingError (pstr ''Processing error: Could not extract valid video ID from URL''))"
proof -
  have v: "validate_youtube_url (url_lib example_env) []
     = Inl (ValidationError (pstr ''Could not extract valid video ID from URL''))"
    by (simp add: example_env_def validate_blank)
  then have "fst (process_video example_env example_world [])
     = Inl (ProcessingError (pstr ''Processing error: '' @
         pstr ''Could not extract valid video ID from URL''))"
    by (simp add: process_video_def process_video_try_def)
  with v show ?thesis by (simp add: pstr_def)
qed

subsection \<open>Unsupported content\<close>

text \<open>
  Claim C7, as amended. When the metadata reports a playlist, a live stream or an age
  limit, \<open>get_video_info\<close> raises a \<open>DownloadError\<close> (the code has no kind of its own for
  unsupported content) and \<open>process_video\<close> raises a \<open>ProcessingError\<close> with its message.
  The only call of the run is the metadata fetch: no row is appended, no file is created.
\<close>

theorem unsupported_content_fails_before_registration:
  assumes "validate_youtube_url (url_lib env) url = Inr vid"
    and "extract_info env url = Inr (Some info)"
    and "has_entries info \<or> is_live info \<or> age_limit info > 0"
    and "m = (if has_entries info
              then pstr ''URL appears to be a playlist. Please provide a single video URL.''
              else if is_live info then pstr ''Live streams are not supported''
              else pstr ''Age-restricted videos are not supported'')"
  shows "get_video_info env w url
           = (Inl (DownloadError (pstr ''Failed to get video info: '' @ m)),
              add_call (ExtractInfo url False) w) \<and>
         process_video env w url
           = (Inl (ProcessingError (pstr ''Processing error: '' @ pstr ''Failed to get video info: '' @ m)),
              add_call (ExtractInfo url False) w) \<and>
         sheet (snd (process_video env w url)) = sheet w \<and>
         files (snd (process_video env w url)) = files w \<and>
         calls (snd (process_video env w url)) = calls w @ [ExtractInfo url False]"
proof -
  from assms have g: "get_video_info env w url
      = (Inl (DownloadError (pstr ''Failed to get video info: '' @ m)),
         add_call (ExtractInfo url False) w)"
    by (auto simp: get_video_info_def get_video_info_try_def Let_def)
  with assms(1) have "process_video env w url
      = (Inl (ProcessingError (pstr ''Processing error: '' @ pstr ''Failed to get video info: '' @ m)),
         add_call (ExtractInfo url False) w)"
    by (simp add: process_video_def process_video_try_def)
  with g show ?thesis by (simp add: add_call_def)
qed

text \<open>Claim C7, as amended, at the example run with a live stream.\<close>

theorem unsupported_content_fails_before_registration_witness:
  "process_video
     (example_env\<lparr>extract_info := (\<lambda>u. Inr (Some (example_info\<lparr>is_live := True\<rparr>)))\<rparr>)
     example_world (pstr ''dQw4w9WgXcQ'')
   = (Inl (ProcessingError
        (pstr ''Processing error: '' @ pstr ''Failed to get video info: ''
           @ pstr ''Live streams are not supported'')),
      add_call (ExtractInfo (pstr ''dQw4w9WgXcQ'') False) example_world) \<and>
   sheet (snd (process_video
     (example_env\<lparr>extract_info := (\<lambda>u. Inr (Some (example_info\<lparr>is_live := True\<rparr>)))\<rparr>)
     example_world (pstr ''dQw4w9WgXcQ''))) = [HEADERS]"
proof -
  let ?env = "example_env\<lparr>extract_info := (\<lambda>u. Inr (Some (example_info\<lparr>is_live := True\<rparr>)))\<rparr>"
  have 1: "validate_youtube_url (url_lib ?env) (pstr ''dQw4w9WgXcQ'') = Inr (pstr ''dQw4w9WgXcQ'')"
    by (rule validate_example)
  have 2: "extract_info ?env (pstr ''dQw4w9WgXcQ'') = Inr (Some (example_info\<lparr>is_live := True\<rparr>))"
    by simp
  have 3: "has_entries (example_info\<lparr>is_live := True\<rparr>) \<or> is_live (example_info\<lparr>is_live := True\<rparr>)
      \<or> age_limit (example_info\<lparr>is_live := True\<rparr>) > 0"
    by simp
  have 4: "pstr ''Live streams are not supported''
      = (if has_entries (example_info\<lparr>is_live := True\<rparr>)
         then pstr ''URL appears to be a playlist. Please provide a single video URL.''
         else if is_live (example_info\<lparr>is_live := True\<rparr>) then pstr ''Live streams are not supported''
         else pstr ''Age-restricted videos are not supported'')"
    by (simp add: example_info_def)
  from unsupported_content_fails_before_registration [OF 1 2 3 4, of example_world]
  show ?thesis by (simp add: example_world_def add_call_def)
qed

text \<open>
  Claim C7 as stated fails. A live stream makes \<open>get_video_info\<close> raise a \<open>DownloadError\<close>,
  the very exception that it raises when yt-dlp fails with that message for any other
  reason, and \<open>process_video\<close> raises a \<open>ProcessingError\<close>: no kind distinguishes
  unsupported content.
\<close>

theorem live_stream_raises_download_error:
  "fst (get_video_info
     (example_env\<lparr>extract_info := (\<lambda>u. Inr (Some (example_info\<lparr>is_live := True\<rparr>)))\<rparr>)
     example_world (pstr ''dQw4w9WgXcQ''))
   = Inl (DownloadError (pstr ''Failed to get video info: Live streams are not supported'')) \<and>
   fst (get_video_info
     (example_env\<lparr>extract_info :=
        (\<lambda>u. Inl (OtherException (pstr ''Live streams are not supported'')))\<rparr>)
     example_world (pstr ''dQw4w9WgXcQ''))
   = Inl (DownloadError (pstr ''Failed to get video info: Live streams are not supported'')) \<and>
   fst (process_video
     (example_env\<lparr>extract_info := (\<lambda>u. Inr (Some (example_info\<lparr>is_live := True\<rparr>)))\<rparr>)
     example_world (pstr ''dQw4w9WgXcQ''))
   = Inl (ProcessingError
       (pstr ''Processing error: Failed to get video info: Live streams are not supported''))"
proof -
  let ?env = "example_env\<lparr>extract_info := (\<lambda>u. Inr (Some (example_info\<lparr>is_live := True\<rparr>)))\<rparr>"
  have g: "get_video_info ?env example_world (pstr ''dQw4w9WgXcQ'')
      = (Inl (DownloadError (pstr ''Failed to get video info: '' @ pstr ''Live streams are not supported'')),
         add_call (ExtractInfo (pstr ''dQw4w9WgXcQ'') False) example_world)"
    by (simp add: get_video_info_def get_video_info_try_def example_info_def)
  have h: "fst (get_video_info
      (example_env\<lparr>extract_info :=
         (\<lambda>u. Inl (OtherException (pstr ''Live streams are not supported'')))\<rparr>)
      example_world (pstr ''dQw4w9WgXcQ''))
      = Inl (DownloadError (pstr ''Failed to get video info: '' @ pstr ''Live streams are not supported''))"
    by (simp add: get_video_info_def)
  have p: "fst (process_video ?env example_world (pstr ''dQw4w9WgXcQ''))
      = Inl (ProcessingError (pstr ''Processing error: '' @ pstr ''Failed to get video info: ''
          @ pstr ''Live streams are not supported''))"
    by (simp add: process_video_def process_video_try_def validate_example g)
  from g h p show ?thesis by (simp add: pstr_def)
qed

subsection \<open>Calls and frames of the later steps\<close>

lemma download_video_try_calls: "prefix (calls w) (calls (snd (download_video_try env w url m)))"
  by (auto simp: download_video_try_def Let_def add_call_def mkdir_def
      split: prod.splits sum.splits option.splits)

lemma download_video_calls: "prefix (calls w) (calls (snd (download_video env w url m)))"
  using download_video_try_calls [where env=env and w=w and url=url and m=m]
  by (auto simp: download_video_def split: prod.splits sum.splits)

lemma download_video_try_no_unlink:
  "filter is_unlink (calls (snd (download_video_try env w url m))) = filter is_unlink (calls w)"
  "filter is_upload (calls (snd (download_video_try env w url m))) = filter is_upload (calls w)"
  by (auto simp: download_video_try_def Let_def add_call_def mkdir_def
      split: prod.splits sum.splits option.splits)

lemma download_video_no_unlink:
  "filter is_unlink (calls (snd (download_video env w url m))) = filter is_unlink (calls w)"
  "filter is_upload (calls (snd (download_video env w url m))) = filter is_upload (calls w)"
  using download_video_try_no_unlink [where env=env and w=w and url=url and m=m]
  by (auto simp: download_video_def split: prod.splits sum.splits)

lemma temp_path_neq_final_path:
  "get_video_path i t (VIDEO_DIR s) True \<noteq> get_video_path i t (PROCESSED_DIR s) False"
  by (simp add: get_video_path_def Let_def PROCESSED_DIR_def VIDEO_DIR_def pstr_def)

lemma download_video_try_Inr:
  assumes "download_video_try env w url m = (Inr p, w')"
  shows "p = get_video_path (vi_id m) (vi_title m) (PROCESSED_DIR (cfg env)) False \<and>
         (\<exists>sz. 0 < sz \<and> files w' p = Some sz)"
  using assms
  by (auto simp: download_video_try_def Let_def add_call_def mkdir_def
      split: prod.splits sum.splits option.splits if_splits)

lemma download_video_Inr:
  assumes "download_video env w url m = (Inr p, w')"
  shows "p = get_video_path (vi_id m) (vi_title m) (PROCESSED_DIR (cfg env)) False \<and>
         (\<exists>sz. 0 < sz \<and> files w' p = Some sz)"
  using assms download_video_try_Inr [of env w url m p w']
  by (auto simp: download_video_def split: prod.splits sum.splits)

lemma upload_file_Inr:
  "upload_file env w p = (Inr fid, w') \<Longrightarrow> fid \<noteq> [] \<and> w' = add_call (DriveUpload p) w"
  by (auto simp: upload_file_def upload_file_try_def Let_def
      split: prod.splits sum.splits upload_outcome.splits option.splits if_splits)

lemma upload_file_frame:
  "sheet (snd (upload_file env w p)) = sheet w" "files (snd (upload_file env w p)) = files w"
  "prefix (calls w) (calls (snd (upload_file env w p)))"
  "filter is_unlink (calls (snd (upload_file env w p))) = filter is_unlink (calls w)"
  by (auto simp: upload_file_def upload_file_try_def Let_def add_call_def
      split: prod.splits sum.splits upload_outcome.splits option.splits if_splits)

lemma update_cell_frame:
  "files (snd (update_cell env w r c v)) = files w"
  "calls (snd (update_cell env w r c v)) = calls w @ [Sheets (UpdateCell r c v)]"
  by (auto simp: update_cell_def Let_def add_call_def split: option.splits)

lemma update_video_status_try_frame:
  "files (snd (update_video_status_try env w i st d t)) = files w"
  "prefix (calls w) (calls (snd (update_video_status_try env w i st d t)))"
  "filter is_unlink (calls (snd (update_video_status_try env w i st d t))) = filter is_unlink (calls w)"
  "filter is_upload (calls (snd (update_video_status_try env w i st d t))) = filter is_upload (calls w)"
  by (auto simp: update_video_status_try_def update_cell_def Let_def add_call_def
      split: prod.splits sum.splits option.splits if_splits)

lemma update_video_status_frame:
  "files (snd (update_video_status env w i st d t)) = files w"
  "prefix (calls w) (calls (snd (update_video_status env w i st d t)))"
  "filter is_unlink (calls (snd (update_video_status env w i st d t))) = filter is_unlink (calls w)"
  "filter is_upload (calls (snd (update_video_status env w i st d t))) = filter is_upload (calls w)"
  using update_video_status_try_frame [where env=env and w=w and i=i and st=st and d=d and t=t]
  by (auto simp: update_video_status_def split: prod.splits sum.splits)

lemma unlink_frame:
  "sheet (snd (unlink env w p)) = sheet w"
  "calls (snd (unlink env w p)) = calls w @ [Fs (Unlink p)]"
  by (auto simp: unlink_def Let_def add_call_def split: option.splits)

lemma unlink_Inr:
  "unlink env w p = (Inr u, w') \<Longrightarrow> files w' p = None"
  by (auto simp: unlink_def Let_def add_call_def split: option.splits)


lemma download_video_callsD:
  "download_video env w url m = (r, w') \<Longrightarrow> prefix (calls w) (calls w')"
  using download_video_calls [where env=env and w=w and url=url and m=m] by simp

lemma upload_file_callsD: "upload_file env w p = (r, w') \<Longrightarrow> prefix (calls w) (calls w')"
  using upload_file_frame(3) [where env=env and w=w and p=p] by simp

lemma update_video_status_callsD:
  "update_video_status env w i st d t = (r, w') \<Longrightarrow> prefix (calls w) (calls w')"
  using update_video_status_frame(2) [where env=env and w=w and i=i and st=st and d=d and t=t]
  by simp

lemma unlink_callsD: "unlink env w p = (r, w') \<Longrightarrow> prefix (calls w) (calls w')"
  using unlink_frame(2) [where env=env and w=w and p=p] by simp

lemma download_video_sheetD: "download_video env w url m = (r, w') \<Longrightarrow> sheet w' = sheet w"
  using download_video_sheet [where env=env and w=w and url=url and m=m] by simp

lemma column_of_HEADERS:
  "column_of HEADERS (pstr ''Download Status'') = 9"
  "column_of HEADERS (pstr ''Drive File ID'') = 5"
  by (simp_all add: column_of_def HEADERS_def pstr_def)

lemma row_data_status: "row_data env m d ! 8 = pstr ''Pending''" "length (row_data env m d) = 10"
  "row_data env m d ! 0 = vi_title m"
  by (simp_all add: row_data_def)

lemma process_video_try_after_add_video:
  assumes "validate_youtube_url (url_lib env) url = Inr vid"
    and "fst (get_video_info env w url) = Inr info"
    and "sheets_error env (AppendRow (row_data env info None)) = None"
    and "w2 = (add_call (Sheets (AppendRow (row_data env info None)))
                (add_call (ExtractInfo url False) w))
              \<lparr>sheet := sheet w @ [row_data env info None]\<rparr>"
  shows "get_video_info env w url = (Inr info, add_call (ExtractInfo url False) w)"
    and "add_video env (add_call (ExtractInfo url False) w) info = (Inr (), w2)"
proof -
  from assms(2) get_video_info_world [of env w url]
  show "get_video_info env w url = (Inr info, add_call (ExtractInfo url False) w)"
    by (cases "get_video_info env w url") simp
  from assms(3,4) show "add_video env (add_call (ExtractInfo url False) w) info = (Inr (), w2)"
    by (simp add: add_video_def Let_def add_call_def)
qed

text \<open>
  Claim C2, as amended: the pipeline of app/, \<open>process_video\<close> of app/core/processor.py.
  When the input is valid, the metadata is fetched and \<^verbatim>\<open>append_row\<close> does not raise, the
  calls of the run begin with the metadata fetch and the append of a row whose Download
  Status is \<^verbatim>\<open>Pending\<close>; the download and everything else come after them. When the
  download then fails, \<open>process_video\<close> fails and the worksheet ends as the old rows
  followed by that row.
\<close>

theorem pending_row_precedes_download:
  assumes "validate_youtube_url (url_lib env) url = Inr vid"
    and "fst (get_video_info env w url) = Inr info"
    and "sheets_error env (AppendRow (row_data env info None)) = None"
    and "w2 = (add_call (Sheets (AppendRow (row_data env info None)))
                (add_call (ExtractInfo url False) w))
              \<lparr>sheet := sheet w @ [row_data env info None]\<rparr>"
  shows "row_data env info None ! (column_of HEADERS (pstr ''Download Status'') - 1)
           = pstr ''Pending'' \<and>
         prefix (calls w @ [ExtractInfo url False, Sheets (AppendRow (row_data env info None))])
           (calls (snd (process_video env w url))) \<and>
         (fst (download_video env w2 url info) = Inl e \<longrightarrow>
            fst (process_video env w url)
              = Inl (ProcessingError (pstr ''Processing error: '' @ str_of e)) \<and>
            sheet (snd (process_video env w url)) = sheet w @ [row_data env info None])"
proof -
  note s = process_video_try_after_add_video [OF assms]
  have c2: "calls w2 = calls w @ [ExtractInfo url False, Sheets (AppendRow (row_data env info None))]"
    by (simp add: assms(4) add_call_def)
  have sh: "sheet w2 = sheet w @ [row_data env info None]"
    by (simp add: assms(4))
  have 1: "row_data env info None ! (column_of HEADERS (pstr ''Download Status'') - 1)
      = pstr ''Pending''"
    by (simp add: column_of_HEADERS row_data_status)
  have 2: "prefix (calls w2) (calls (snd (process_video env w url)))"
    using assms(1) s
    by (auto simp: process_video_def process_video_try_def
        split: prod.splits sum.splits if_splits
        dest!: download_video_callsD upload_file_callsD update_video_status_callsD unlink_callsD
        intro: prefix_order.trans)
  have 3: "fst (download_video env w2 url info) = Inl e \<longrightarrow>
            fst (process_video env w url)
              = Inl (ProcessingError (pstr ''Processing error: '' @ str_of e)) \<and>
            sheet (snd (process_video env w url)) = sheet w @ [row_data env info None]"
    using assms(1) s sh
    by (auto simp: process_video_def process_video_try_def
        split: prod.splits sum.splits dest: download_video_sheetD)
  from 1 2 3 show ?thesis by (simp add: c2)
qed


lemma example_get_video_info:
  "extract_info env u = Inr (Some example_info) \<Longrightarrow>
     get_video_info env w u = (Inr example_video_info, add_call (ExtractInfo u False) w)"
  by (simp add: get_video_info_def get_video_info_try_def example_info_def
      example_video_info_def pstr_def)

text \<open>Claim C2, as amended, at the example run with a download that fails on the network.\<close>

theorem pending_row_precedes_download_witness:
  "fst (process_video (example_env\<lparr>ydl_download := (\<lambda>u. Inl (URLError (pstr ''timed out'')))\<rparr>)
     example_world (pstr ''dQw4w9WgXcQ''))
   = Inl (ProcessingError (pstr ''Processing error: '' @
       pstr ''Network error during download: '' @ pstr ''timed out'')) \<and>
   sheet (snd (process_video
     (example_env\<lparr>ydl_download := (\<lambda>u. Inl (URLError (pstr ''timed out'')))\<rparr>)
     example_world (pstr ''dQw4w9WgXcQ'')))
   = [HEADERS, [pstr ''Song'', pstr ''A song'', pstr ''music, pop'', pstr ''Music'', [], [],
        pstr ''t.jpg'', pstr ''2024-01-01'', pstr ''Pending'', pstr ''Pending'']] \<and>
   prefix [ExtractInfo (pstr ''dQw4w9WgXcQ'') False,
           Sheets (AppendRow [pstr ''Song'', pstr ''A song'', pstr ''music, pop'', pstr ''Music'',
             [], [], pstr ''t.jpg'', pstr ''2024-01-01'', pstr ''Pending'', pstr ''Pending''])]
     (calls (snd (process_video
        (example_env\<lparr>ydl_download := (\<lambda>u. Inl (URLError (pstr ''timed out'')))\<rparr>)
        example_world (pstr ''dQw4w9WgXcQ''))))"
proof -
  let ?env = "example_env\<lparr>ydl_download := (\<lambda>u. Inl (URLError (pstr ''timed out'')))\<rparr>"
  let ?u = "pstr ''dQw4w9WgXcQ''"
  let ?row = "[pstr ''Song'', pstr ''A song'', pstr ''music, pop'', pstr ''Music'', [], [],
        pstr ''t.jpg'', pstr ''2024-01-01'', pstr ''Pending'', pstr ''Pending'']"
  let ?w2 = "(add_call (Sheets (AppendRow (row_data ?env example_video_info None)))
                (add_call (ExtractInfo ?u False) example_world))
              \<lparr>sheet := sheet example_world @ [row_data ?env example_video_info None]\<rparr>"
  have r: "row_data ?env example_video_info None = ?row"
    by (simp add: row_data_def example_env_def example_video_info_def)
  have 1: "validate_youtube_url (url_lib ?env) ?u = Inr ?u" by (rule validate_example)
  have 2: "fst (get_video_info ?env example_world ?u) = Inr example_video_info"
    by (simp add: example_get_video_info example_env_def)
  have 3: "sheets_error ?env (AppendRow (row_data ?env example_video_info None)) = None"
    by (simp add: example_env_def)
  have 4: "fst (download_video ?env ?w2 ?u example_video_info)
      = Inl (DownloadError (pstr ''Network error during download: '' @ pstr ''timed out''))"
    by (simp add: download_video_def download_video_try_def mkdir_def Let_def example_env_def
        split: prod.splits)
  from pending_row_precedes_download [OF 1 2 3 refl, of
      "DownloadError (pstr ''Network error during download: '' @ pstr ''timed out'')"] 4
  show ?thesis unfolding r by (simp add: example_world_def)
qed

subsection \<open>Empty and missing downloads\<close>

lemma download_video_empty_or_missing:
  assumes "temp = get_video_path (vi_id info) (vi_title info) (VIDEO_DIR (cfg env)) True"
    and "final = get_video_path (vi_id info) (vi_title info) (PROCESSED_DIR (cfg env)) False"
    and "fs_error env (Mkdir (butlast temp)) = None"
    and "fs_error env (Mkdir (butlast final)) = None"
    and "ydl_download env url = Inr written"
    and "after = (case written of None \<Rightarrow> files w temp | Some n \<Rightarrow> Some n)"
    and "after = None \<or> after = Some 0"
    and "msg = (if after = None then pstr ''Download completed but file not found''
                else pstr ''Downloaded file is empty'')"
  shows "download_video env w url info
           = (Inl (DownloadError (pstr ''Failed to download video: '' @ msg)),
              w\<lparr>files := (files w)(temp := after),
                calls := calls w @ [Fs (Mkdir (butlast temp)), YdlDownload url temp,
                                    Fs (Mkdir (butlast final))]\<rparr>)"
proof (cases written)
  case None
  with assms show ?thesis
    by (auto simp: download_video_def download_video_try_def mkdir_def Let_def add_call_def)
next
  case (Some n)
  with assms show ?thesis
    by (auto simp: download_video_def download_video_try_def mkdir_def Let_def add_call_def)
qed

lemma process_video_download_fails:
  assumes "validate_youtube_url (url_lib env) url = Inr vid"
    and "fst (get_video_info env w url) = Inr info"
    and "sheets_error env (AppendRow (row_data env info None)) = None"
    and "w2 = (add_call (Sheets (AppendRow (row_data env info None)))
                (add_call (ExtractInfo url False) w))
              \<lparr>sheet := sheet w @ [row_data env info None]\<rparr>"
    and "download_video env w2 url info = (Inl e, w3)"
  shows "process_video env w url
           = (Inl (ProcessingError (pstr ''Processing error: '' @ str_of e)), w3)"
  using assms(1,5) process_video_try_after_add_video [OF assms(1-4)]
  by (simp add: process_video_def process_video_try_def)

text \<open>
  Claim C6, as amended: the pipeline of app/. When the input is valid, the metadata is
  fetched, \<^verbatim>\<open>append_row\<close> does not raise, the directory of the temporary file and the
  directory of the final file can be created (the second \<^verbatim>\<open>mkdir\<close> runs before the file is
  tested), yt-dlp returns normally, and the temporary file then has size zero or does not
  exist: \<open>download_video\<close> raises a \<open>DownloadError\<close> and \<open>process_video\<close> raises a
  \<open>ProcessingError\<close> that carries its message. No rename is called: the temporary file
  stays as the download left it and the final location is as before.
\<close>

theorem empty_or_missing_download_fails:
  assumes "validate_youtube_url (url_lib env) url = Inr vid"
    and "fst (get_video_info env w url) = Inr info"
    and "sheets_error env (AppendRow (row_data env info None)) = None"
    and "temp = get_video_path (vi_id info) (vi_title info) (VIDEO_DIR (cfg env)) True"
    and "final = get_video_path (vi_id info) (vi_title info) (PROCESSED_DIR (cfg env)) False"
    and "fs_error env (Mkdir (butlast temp)) = None"
    and "fs_error env (Mkdir (butlast final)) = None"
    and "ydl_download env url = Inr written"
    and "after = (case written of None \<Rightarrow> files w temp | Some n \<Rightarrow> Some n)"
    and "after = None \<or> after = Some 0"
    and "msg = (if after = None then pstr ''Download completed but file not found''
                else pstr ''Downloaded file is empty'')"
  shows "fst (download_video env w url info)
           = Inl (DownloadError (pstr ''Failed to download video: '' @ msg)) \<and>
         fst (process_video env w url)
           = Inl (ProcessingError
               (pstr ''Processing error: '' @ pstr ''Failed to download video: '' @ msg)) \<and>
         files (snd (process_video env w url)) temp = after \<and>
         files (snd (process_video env w url)) final = files w final \<and>
         filter is_rename (calls (snd (process_video env w url))) = filter is_rename (calls w)"
proof -
  let ?w2 = "(add_call (Sheets (AppendRow (row_data env info None)))
                (add_call (ExtractInfo url False) w))
              \<lparr>sheet := sheet w @ [row_data env info None]\<rparr>"
  let ?cs = "[Fs (Mkdir (butlast temp)), YdlDownload url temp, Fs (Mkdir (butlast final))]"
  have f2: "files ?w2 = files w" by (simp add: add_call_def)
  from assms(9) have a2: "after = (case written of None \<Rightarrow> files ?w2 temp | Some n \<Rightarrow> Some n)"
    by (simp add: add_call_def split: option.splits)
  note d = download_video_empty_or_missing [OF assms(4-8) _ assms(10,11)]
  from d [OF assms(9)] have 1: "fst (download_video env w url info)
      = Inl (DownloadError (pstr ''Failed to download video: '' @ msg))"
    by simp
  from process_video_download_fails [OF assms(1-3) refl d [OF a2]]
  have p: "process_video env w url
      = (Inl (ProcessingError (pstr ''Processing error: '' @ pstr ''Failed to download video: '' @ msg)),
         ?w2\<lparr>files := (files ?w2)(temp := after), calls := calls ?w2 @ ?cs\<rparr>)"
    by simp
  from assms(4,5) have "temp \<noteq> final" by (simp add: temp_path_neq_final_path)
  with p 1 show ?thesis by (simp add: add_call_def)
qed

text \<open>Claim C6, as amended, at the example run with a download of zero bytes.\<close>

theorem empty_or_missing_download_fails_witness:
  "fst (download_video (example_env\<lparr>ydl_download := (\<lambda>u. Inr (Some 0))\<rparr>)
     example_world (pstr ''dQw4w9WgXcQ'') example_video_info)
   = Inl (DownloadError (pstr ''Failed to download video: '' @ pstr ''Downloaded file is empty'')) \<and>
   fst (process_video (example_env\<lparr>ydl_download := (\<lambda>u. Inr (Some 0))\<rparr>)
     example_world (pstr ''dQw4w9WgXcQ''))
   = Inl (ProcessingError (pstr ''Processing error: '' @ pstr ''Failed to download video: ''
       @ pstr ''Downloaded file is empty'')) \<and>
   files (snd (process_video (example_env\<lparr>ydl_download := (\<lambda>u. Inr (Some 0))\<rparr>)
     example_world (pstr ''dQw4w9WgXcQ'')))
     (get_video_path (pstr ''dQw4w9WgXcQ'') (pstr ''Song'') (VIDEO_DIR (cfg example_env)) True)
   = Some 0 \<and>
   files (snd (process_video (example_env\<lparr>ydl_download := (\<lambda>u. Inr (Some 0))\<rparr>)
     example_world (pstr ''dQw4w9WgXcQ'')))
     (get_video_path (pstr ''dQw4w9WgXcQ'') (pstr ''Song'') (PROCESSED_DIR (cfg example_env)) False)
   = None"
proof -
  let ?env = "example_env\<lparr>ydl_download := (\<lambda>u. Inr (Some 0))\<rparr>"
  let ?u = "pstr ''dQw4w9WgXcQ''"
  have 1: "validate_youtube_url (url_lib ?env) ?u = Inr ?u" by (rule validate_example)
  have 2: "fst (get_video_info ?env example_world ?u) = Inr example_video_info"
    by (simp add: example_get_video_info example_env_def)
  have 3: "sheets_error ?env (AppendRow (row_data ?env example_video_info None)) = None"
    by (simp add: example_env_def)
  have 6: "fs_error ?env (Mkdir (butlast (get_video_path (vi_id example_video_info)
      (vi_title example_video_info) (VIDEO_DIR (cfg ?env)) True))) = None"
    by (simp add: example_env_def)
  have 7: "fs_error ?env (Mkdir (butlast (get_video_path (vi_id example_video_info)
      (vi_title example_video_info) (PROCESSED_DIR (cfg ?env)) False))) = None"
    by (simp add: example_env_def)
  have 8: "ydl_download ?env ?u = Inr (Some 0)" by simp
  have 9: "Some 0 = (case Some 0 of None \<Rightarrow> files example_world (get_video_path
      (vi_id example_video_info) (vi_title example_video_info) (VIDEO_DIR (cfg ?env)) True)
      | Some n \<Rightarrow> Some n)"
    by simp
  have 10: "Some (0::nat) = None \<or> Some (0::nat) = Some 0" by simp
  have 11: "pstr ''Downloaded file is empty''
      = (if Some (0::nat) = None then pstr ''Download completed but file not found''
         else pstr ''Downloaded file is empty'')"
    by simp
  from empty_or_missing_download_fails [OF 1 2 3 refl refl 6 7 8 9 10 11]
  show ?thesis by (simp add: example_video_info_def example_world_def)
qed

subsection \<open>The worksheet\<close>

lemma find_cell_range:
  assumes "find_cell rows q = Some (r, c)"
  shows "1 \<le> r \<and> r \<le> length rows"
proof -
  let ?f = "filter (\<lambda>(r, row). q \<in> set row) (zip [1..<Suc (length rows)] rows)"
  from assms obtain row rest where "?f = (r, row) # rest"
    by (auto simp: find_cell_def split: list.splits)
  then have "(r, row) \<in> set ?f" by simp
  then have "(r, row) \<in> set (zip [1..<Suc (length rows)] rows)" by simp
  then have "r \<in> set [1..<Suc (length rows)]" by (rule set_zip_leftD)
  then show ?thesis by auto
qed

lemma find_cell_appended:
  assumes "q \<in> set row"
  shows "\<exists>r c. find_cell (rows @ [row]) q = Some (r, c)"
proof -
  define z where "z = filter (\<lambda>(r, row). q \<in> set row)
    (zip [1..<Suc (length (rows @ [row]))] (rows @ [row]))"
  have "(Suc (length rows), row) \<in> set (zip [1..<Suc (length (rows @ [row]))] (rows @ [row]))"
    by (auto simp: in_set_zip nth_append intro!: exI [of _ "length rows"])
  with assms have "(Suc (length rows), row) \<in> set z" by (simp add: z_def)
  then obtain r rw rest where "z = (r, rw) # rest" by (cases z) auto
  then have "find_cell (rows @ [row]) q = Some (r, Suc (length (takeWhile (\<lambda>v. v \<noteq> q) rw)))"
    unfolding find_cell_def z_def [symmetric] by simp
  then show ?thesis by blast
qed

lemma set_cell_in_range:
  "1 \<le> r \<Longrightarrow> r \<le> length rows \<Longrightarrow>
     set_cell rows r c v
       = rows[r - 1 := (rows ! (r - 1) @ replicate (c - length (rows ! (r - 1))) [])[c - 1 := v]]"
  by (simp add: set_cell_def Let_def)

lemma set_cell_written:
  assumes "1 \<le> r" "r \<le> length rows" "1 \<le> c"
  shows "set_cell rows r c v ! (r - 1) ! (c - 1) = v"
proof -
  from assms have "r - 1 < length rows" by simp
  moreover from assms have "c - 1 < length (rows ! (r - 1) @ replicate (c - length (rows ! (r - 1))) [])"
    by simp
  ultimately show ?thesis using assms by (simp add: set_cell_in_range)
qed

lemma set_cell_last_other:
  assumes "1 \<le> r" "r \<le> length rows" "k < length (last rows)" "k \<noteq> c - 1"
  shows "last (set_cell rows r c v) ! k = last rows ! k"
proof -
  from assms have ne: "rows \<noteq> []" by auto
  show ?thesis
  proof (cases "r - 1 = length rows - 1")
    case True
    with assms ne show ?thesis
      by (simp add: set_cell_in_range last_list_update last_conv_nth nth_append)
  next
    case False
    with assms ne show ?thesis by (simp add: set_cell_in_range last_list_update)
  qed
qed

lemma join_nonempty: "ys \<noteq> [] \<Longrightarrow> last ys \<noteq> [] \<Longrightarrow> join sep ys \<noteq> []"
  by (induction sep ys rule: join.induct) auto

lemma path_str_final_path: "path_str (get_video_path i t d False) \<noteq> []"
  by (simp add: path_str_def get_video_path_def Let_def join_nonempty pstr_def)

subsection \<open>Steps that succeed\<close>

lemma download_video_success:
  assumes "temp = get_video_path (vi_id info) (vi_title info) (VIDEO_DIR (cfg env)) True"
    and "final = get_video_path (vi_id info) (vi_title info) (PROCESSED_DIR (cfg env)) False"
    and "fs_error env (Mkdir (butlast temp)) = None"
    and "fs_error env (Mkdir (butlast final)) = None"
    and "ydl_download env url = Inr (Some n)"
    and "0 < n"
    and "fs_error env (Rename temp final) = None"
  shows "download_video env w url info
           = (Inr final,
              w\<lparr>files := (files w)(temp := None, final \<mapsto> n),
                calls := calls w @ [Fs (Mkdir (butlast temp)), YdlDownload url temp,
                                    Fs (Mkdir (butlast final)), Fs (Rename temp final)]\<rparr>)"
  using assms
  by (simp add: download_video_def download_video_try_def mkdir_def Let_def add_call_def)

lemma upload_file_success:
  assumes "files w p = Some n" "media_upload env = UploadResponds (Some fid)" "fid \<noteq> []"
  shows "upload_file env w p = (Inr fid, add_call (DriveUpload p) w)"
  using assms
  by (simp add: upload_file_def upload_file_try_def validate_file_exists_def Let_def)

lemma update_video_status_completed_locally:
  assumes "t \<noteq> []" "d \<noteq> []"
    and "sheets_error env (Find t) = None"
    and "find_cell (sheet w) t = Some (r, c)"
    and "sheets_error env (UpdateCell r (column_of HEADERS (pstr ''Drive File ID'')) d) = None"
  shows "update_video_status env w i (pstr ''Completed Locally'') (Some d) (Some t)
           = (Inr (),
              w\<lparr>sheet := set_cell (sheet w) r (column_of HEADERS (pstr ''Drive File ID'')) d,
                calls := calls w @ [Sheets (Find t),
                  Sheets (UpdateCell r (column_of HEADERS (pstr ''Drive File ID'')) d)]\<rparr>)"
proof -
  have "pstr ''Completed Locally'' \<noteq> pstr ''Completed''" by (simp add: pstr_def)
  with assms show ?thesis
    by (simp add: update_video_status_def update_video_status_try_def update_cell_def Let_def
        add_call_def)
qed

lemma update_video_status_completed:
  assumes "t \<noteq> []" "d \<noteq> []"
    and "sheets_error env (Find t) = None"
    and "find_cell (sheet w) t = Some (r, c)"
    and "sheets_error env (UpdateCell r (column_of HEADERS (pstr ''Download Status''))
           (pstr ''Completed'')) = None"
    and "sheets_error env (UpdateCell r (column_of HEADERS (pstr ''Drive File ID'')) d) = None"
  shows "update_video_status env w i (pstr ''Completed'') (Some d) (Some t)
           = (Inr (),
              w\<lparr>sheet := set_cell (set_cell (sheet w) r
                            (column_of HEADERS (pstr ''Download Status'')) (pstr ''Completed''))
                          r (column_of HEADERS (pstr ''Drive File ID'')) d,
                calls := calls w @ [Sheets (Find t),
                  Sheets (UpdateCell r (column_of HEADERS (pstr ''Download Status''))
                    (pstr ''Completed'')),
                  Sheets (UpdateCell r (column_of HEADERS (pstr ''Drive File ID'')) d)]\<rparr>)"
  using assms
  by (simp add: update_video_status_def update_video_status_try_def update_cell_def Let_def
      add_call_def)


subsection \<open>The example paths\<close>

lemma sanitize_Song: "sanitize_filename (pstr ''Song'') = pstr ''Song''"
  by (simp add: sanitize_filename_def clean_filename_def sub_invalid_def invalid_chars_def
      sub_non_ascii_def strip_chars_def pstr_def)

lemma example_final_path:
  "BASE_DIR s = [pstr ''app''] \<Longrightarrow>
     get_video_path (pstr ''dQw4w9WgXcQ'') (pstr ''Song'') (PROCESSED_DIR s) False
       = [pstr ''app'', pstr ''storage'', pstr ''videos'', pstr ''processed'',
          pstr ''Song_dQw4w9WgXcQ.mp4'']"
  by (simp add: get_video_path_def sanitize_Song PROCESSED_DIR_def VIDEO_DIR_def) (simp add: pstr_def)

lemma example_download:
  assumes "ydl_download env u = Inr (Some 1000)" "fs_error env = (\<lambda>op. None)"
  shows "download_video env w u example_video_info
     = (Inr (get_video_path (pstr ''dQw4w9WgXcQ'') (pstr ''Song'') (PROCESSED_DIR (cfg env)) False),
        w\<lparr>files := (files w)
             (get_video_path (pstr ''dQw4w9WgXcQ'') (pstr ''Song'') (VIDEO_DIR (cfg env)) True := None,
              get_video_path (pstr ''dQw4w9WgXcQ'') (pstr ''Song'') (PROCESSED_DIR (cfg env)) False
                \<mapsto> 1000),
           calls := calls w @
             [Fs (Mkdir (butlast (get_video_path (pstr ''dQw4w9WgXcQ'') (pstr ''Song'')
                   (VIDEO_DIR (cfg env)) True))),
              YdlDownload u (get_video_path (pstr ''dQw4w9WgXcQ'') (pstr ''Song'')
                   (VIDEO_DIR (cfg env)) True),
              Fs (Mkdir (butlast (get_video_path (pstr ''dQw4w9WgXcQ'') (pstr ''Song'')
                   (PROCESSED_DIR (cfg env)) False))),
              Fs (Rename
                   (get_video_path (pstr ''dQw4w9WgXcQ'') (pstr ''Song'') (VIDEO_DIR (cfg env)) True)
                   (get_video_path (pstr ''dQw4w9WgXcQ'') (pstr ''Song'')
                      (PROCESSED_DIR (cfg env)) False))]\<rparr>)"
  using download_video_success [where env=env and info=example_video_info and url=u and n=1000
      and w=w, OF refl refl] assms
  by (simp add: example_video_info_def)

subsection \<open>Keeping and deleting the local file\<close>





section \<open>Properties of the pipeline of src/youtube_manager.py\<close>

subsection \<open>Steps that succeed\<close>

lemma get_or_create_sheet_ok:
  assumes "sheets_error env OpenByKey = None" "sheets_error env (RowValues 1) = None"
    and "row_values (sheet w) 1 = HEADERS_legacy"
  shows "get_or_create_sheet env w
           = (Inr (), w\<lparr>calls := calls w @ [Sheets OpenByKey, Sheets (RowValues 1)]\<rparr>)"
proof -
  have "HEADERS_legacy \<noteq> []" by (simp add: HEADERS_legacy_def)
  with assms show ?thesis
    by (simp add: get_or_create_sheet_def get_or_create_sheet_try_def Let_def add_call_def)
qed

lemma get_video_data_Inr:
  "get_video_data env w u = (Inr vd, w') \<Longrightarrow>
     length vd = 10 \<and> w' = add_call (ExtractInfo u False) w"
  by (auto simp: get_video_data_def Let_def video_data_of_def split: sum.splits option.splits)

lemma get_video_data_ok:
  "extract_info env u = Inr (Some info) \<Longrightarrow>
     get_video_data env w u = (Inr (video_data_of info), add_call (ExtractInfo u False) w)"
  by (simp add: get_video_data_def Let_def)

lemma download_video_legacy_ok:
  assumes "extract_info_download env u = Inr (Some info, Some n)"
    and "info_id info = Some i" "i \<noteq> []"
    and "title = (case info_title info of None \<Rightarrow> i | Some t \<Rightarrow> t)"
    and "temp = VIDEOS_DIR (conf env) @ [i @ pstr ''.mp4'']"
    and "final = VIDEOS_DIR (conf env) @ [sanitize_filename_legacy title @ pstr ''_'' @ i @ pstr ''.mp4'']"
    and "backup = butlast final @ [pstr ''backup_'' @ last final]"
    and "fs_error env (Mkdir (VIDEOS_DIR (conf env))) = None"
    and "fs_error env (Rename temp final) = None"
    and "fs_error env (Copy final backup) = None"
    and "KEEP_FILE (conf env)"
  shows "download_video_legacy env w u
           = (Inr final,
              w\<lparr>files := (files w)(temp := None, final \<mapsto> n, backup \<mapsto> n),
                calls := calls w @ [Fs (Mkdir (VIDEOS_DIR (conf env))), ExtractInfo u True,
                                    Fs (Rename temp final), Fs (Copy final backup)]\<rparr>)"
  using assms
  by (simp add: download_video_legacy_def download_video_legacy_try_def ensure_video_dir_def
      rename_or_keep_def backup_copy_def Let_def add_call_def)

lemma upload_to_drive_Inr:
  "upload_to_drive env w p = (Inr r, w') \<Longrightarrow> w' = add_call (DriveUpload p) w"
  by (auto simp: upload_to_drive_def upload_to_drive_try_def Let_def
      split: prod.splits sum.splits option.splits upload_outcome.splits)

lemma upload_to_drive_ok:
  assumes "files w p = Some n" "media_upload env = UploadResponds r"
  shows "upload_to_drive env w p = (Inr r, add_call (DriveUpload p) w)"
  using assms by (simp add: upload_to_drive_def upload_to_drive_try_def Let_def)

lemma legacy_fs_steps_sheet:
  "sheet (snd (rename_or_keep env w a b)) = sheet w"
  "sheet (backup_copy env w b) = sheet w"
  "sheet (unlink_quietly env w b) = sheet w"
  "sheet (snd (ensure_video_dir env w)) = sheet w"
  by (simp_all add: rename_or_keep_def backup_copy_def unlink_quietly_def ensure_video_dir_def
      Let_def add_call_def split: option.splits)

lemma rename_or_keep_sheetD: "rename_or_keep env w a b = (x, w') \<Longrightarrow> sheet w' = sheet w"
  using legacy_fs_steps_sheet(1) [of env w a b] by simp

lemma download_video_legacy_try_sheet:
  "sheet (snd (download_video_legacy_try env w u)) = sheet w"
proof (cases "ensure_video_dir env w")
  case (Pair r w1)
  with legacy_fs_steps_sheet(4) [of env w] have s1: "sheet w1 = sheet w" by simp
  show ?thesis
  proof (cases r)
    case (Inl e)
    with Pair s1 show ?thesis by (simp add: download_video_legacy_try_def)
  next
    case (Inr videos_dir)
    with Pair s1 show ?thesis
      by (auto simp: download_video_legacy_try_def Let_def add_call_def legacy_fs_steps_sheet
          split: sum.split option.split prod.split dest!: rename_or_keep_sheetD)
  qed
qed

lemma download_video_legacy_sheet:
  "sheet (snd (download_video_legacy env w u)) = sheet w"
  using download_video_legacy_try_sheet [of env w u]
  by (auto simp: download_video_legacy_def split: prod.splits sum.splits)

lemma update_spreadsheet_duplicate:
  assumes "sheets_error env (ColValues 7) = None"
    and "video_data ! 6 \<in> set (col_values (sheet w) 7)"
    and "length video_data = 10"
  shows "update_spreadsheet env w video_data drive_file_id
           = (Inr False, add_call (Sheets (ColValues 7)) w)"
  using assms
  by (simp add: update_spreadsheet_def update_spreadsheet_try_def Let_def add_call_def)

lemma cleanup_legacy_frame:
  "sheet (cleanup_legacy env w vp) = sheet w"
  "prefix (calls w) (calls (cleanup_legacy env w vp))"
  "filter is_append_row (calls (cleanup_legacy env w vp)) = filter is_append_row (calls w)"
  "filter is_upload (calls (cleanup_legacy env w vp)) = filter is_upload (calls w)"
  by (auto simp: cleanup_legacy_def unlink_quietly_def Let_def add_call_def split: option.splits)


subsection \<open>The duplicate check\<close>

lemma process_video_legacy_duplicate:
  assumes "validate_youtube_url_legacy (url_lib env) url = Inr vid"
    and "get_or_create_sheet env w = (Inr (), w1)"
    and "get_video_data env w1 (pstr ''https://www.youtube.com/watch?v='' @ vid)
           = (Inr video_data, w2)"
    and "download_video_legacy env w2 (pstr ''https://www.youtube.com/watch?v='' @ vid)
           = (Inr video_path, w3)"
    and "upload_to_drive env w3 video_path = (Inr (Some drive_file_id), w4)"
    and "drive_file_id \<noteq> []"
    and "sheets_error env (ColValues 7) = None"
    and "video_data ! 6 \<in> set (col_values (sheet w1) 7)"
  shows "process_video_legacy env w url
           = (Inr False,
              cleanup_legacy env
                (w3\<lparr>calls := calls w3 @ [DriveUpload video_path, Sheets (ColValues 7)]\<rparr>)
                (Some video_path))"
    and "sheet w3 = sheet w1"
proof -
  from get_video_data_Inr [OF assms(3)]
  have l: "length video_data = 10" and w2: "w2 = add_call (ExtractInfo
      (pstr ''https://www.youtube.com/watch?v='' @ vid) False) w1"
    by simp_all
  from download_video_legacy_sheet
    [of env w2 "pstr ''https://www.youtube.com/watch?v='' @ vid"] assms(4) w2
  show s3: "sheet w3 = sheet w1" by (simp add: add_call_def)
  from upload_to_drive_Inr [OF assms(5)] have w4: "w4 = add_call (DriveUpload video_path) w3" .
  with s3 assms(8) have "video_data ! 6 \<in> set (col_values (sheet w4) 7)"
    by (simp add: add_call_def)
  from update_spreadsheet_duplicate [OF assms(7) this l]
  have "update_spreadsheet env w4 video_data drive_file_id
      = (Inr False, add_call (Sheets (ColValues 7)) w4)" .
  with assms(1-6) l w4 show "process_video_legacy env w url
      = (Inr False,
         cleanup_legacy env
           (w3\<lparr>calls := calls w3 @ [DriveUpload video_path, Sheets (ColValues 7)]\<rparr>)
           (Some video_path))"
    by (auto simp: process_video_legacy_def process_video_legacy_try_def Let_def add_call_def)
qed

text \<open>
  Claim C1, as amended: the pipeline of src/youtube_manager.py. When every step up to the
  upload has succeeded and column 7 of the worksheet already holds the identifier of the
  fetched metadata, \<open>process_video\<close> returns \<open>False\<close> and the worksheet is as it was after
  the header check: no row is appended. The scan of column 7 is the call right after the
  upload, so the file has been uploaded by then.
\<close>

theorem duplicate_found_after_upload:
  assumes "validate_youtube_url_legacy (url_lib env) url = Inr vid"
    and "get_or_create_sheet env w = (Inr (), w1)"
    and "get_video_data env w1 (pstr ''https://www.youtube.com/watch?v='' @ vid)
           = (Inr video_data, w2)"
    and "download_video_legacy env w2 (pstr ''https://www.youtube.com/watch?v='' @ vid)
           = (Inr video_path, w3)"
    and "upload_to_drive env w3 video_path = (Inr (Some drive_file_id), w4)"
    and "drive_file_id \<noteq> []"
    and "sheets_error env (ColValues 7) = None"
    and "video_data ! 6 \<in> set (col_values (sheet w1) 7)"
  shows "fst (process_video_legacy env w url) = Inr False \<and>
         sheet (snd (process_video_legacy env w url)) = sheet w1 \<and>
         filter is_append_row (calls (snd (process_video_legacy env w url)))
           = filter is_append_row (calls w3) \<and>
         prefix (calls w3 @ [DriveUpload video_path, Sheets (ColValues 7)])
           (calls (snd (process_video_legacy env w url)))"
  using process_video_legacy_duplicate [OF assms]
    cleanup_legacy_frame [where env=env
      and w="w3\<lparr>calls := calls w3 @ [DriveUpload video_path, Sheets (ColValues 7)]\<rparr>"
      and vp="Some video_path"]
  by simp

subsection \<open>The example run\<close>

lemma sanitize_legacy_Song: "sanitize_filename_legacy (pstr ''Song'') = pstr ''Song''"
  by (simp add: sanitize_filename_legacy_def clean_filename_legacy_def sub_invalid_def
      invalid_chars_def strip_chars_def pstr_def)

lemma validate_legacy_example:
  "validate_youtube_url_legacy lib (pstr ''dQw4w9WgXcQ'') = Inr (pstr ''dQw4w9WgXcQ'')"
  by (rule validate_youtube_url_direct_id) (simp_all add: pstr_def id_char_def)

lemma example_sheet_legacy:
  assumes "sheets_error env = (\<lambda>op. None)" "hd (sheet w) = HEADERS_legacy" "sheet w \<noteq> []"
  shows "get_or_create_sheet env w
           = (Inr (), w\<lparr>calls := calls w @ [Sheets OpenByKey, Sheets (RowValues 1)]\<rparr>)"
proof -
  have "drop_trailing_empty HEADERS_legacy = HEADERS_legacy"
    by (simp add: drop_trailing_empty_def HEADERS_legacy_def pstr_def)
  with assms have "row_values (sheet w) 1 = HEADERS_legacy"
    by (cases "sheet w") (simp_all add: row_values_def)
  with assms(1) show ?thesis by (intro get_or_create_sheet_ok) simp_all
qed

lemma example_download_legacy:
  assumes "extract_info_download env u = Inr (Some example_info, Some n)"
    and "fs_error env = (\<lambda>op. None)" "conf env = \<lparr>ROOT_DIR = [pstr ''app''], KEEP_FILE = True\<rparr>"
  shows "download_video_legacy env w u
           = (Inr example_final_legacy,
              w\<lparr>files := (files w)(example_temp_legacy := None, example_final_legacy \<mapsto> n,
                                    example_backup_legacy \<mapsto> n),
                calls := calls w @ [Fs (Mkdir [pstr ''app'', pstr ''Videos'']), ExtractInfo u True,
                   Fs (Rename example_temp_legacy example_final_legacy),
                   Fs (Copy example_final_legacy example_backup_legacy)]\<rparr>)"
proof -
  have i: "info_id example_info = Some (pstr ''dQw4w9WgXcQ'')" "pstr ''dQw4w9WgXcQ'' \<noteq> []"
    "pstr ''Song'' = (case info_title example_info of None \<Rightarrow> pstr ''dQw4w9WgXcQ'' | Some t \<Rightarrow> t)"
    by (simp_all add: example_info_def pstr_def)
  have t: "example_temp_legacy = VIDEOS_DIR (conf env) @ [pstr ''dQw4w9WgXcQ'' @ pstr ''.mp4'']"
    by (simp add: example_temp_legacy_def VIDEOS_DIR_def assms(3) pstr_def)
  have f: "example_final_legacy = VIDEOS_DIR (conf env)
      @ [sanitize_filename_legacy (pstr ''Song'') @ pstr ''_'' @ pstr ''dQw4w9WgXcQ'' @ pstr ''.mp4'']"
    by (simp add: example_final_legacy_def VIDEOS_DIR_def assms(3) sanitize_legacy_Song)
       (simp add: pstr_def)
  have b: "example_backup_legacy
      = butlast example_final_legacy @ [pstr ''backup_'' @ last example_final_legacy]"
    by (simp add: example_backup_legacy_def example_final_legacy_def pstr_def)
  have v: "VIDEOS_DIR (conf env) = [pstr ''app'', pstr ''Videos'']"
    by (simp add: VIDEOS_DIR_def assms(3))
  from download_video_legacy_ok [OF assms(1) i t f b, of w] assms(2,3) v
  show ?thesis by simp
qed


lemma update_spreadsheet_new:
  assumes "sheets_error env (ColValues 7) = None"
    and "video_data ! 6 \<notin> set (col_values (sheet w) 7)"
    and "length video_data = 10"
    and "row = video_data[8 := drive_file_id, 9 := pstr ''Completed'']"
    and "sheets_error env (AppendRow row) = None"
  shows "update_spreadsheet env w video_data drive_file_id
           = (Inr True,
              w\<lparr>sheet := sheet w @ [row],
                calls := calls w @ [Sheets (ColValues 7), Sheets (AppendRow row)]\<rparr>)"
  using assms
  by (simp add: update_spreadsheet_def update_spreadsheet_try_def Let_def add_call_def)

lemma example_files_legacy:
  "example_temp_legacy \<noteq> example_final_legacy" "example_final_legacy \<noteq> example_backup_legacy"
  "example_temp_legacy \<noteq> example_backup_legacy"
  by (simp_all add: example_temp_legacy_def example_final_legacy_def example_backup_legacy_def
      pstr_def)

lemma example_video_data:
  "video_data_of example_info
     = [pstr ''Song'', pstr ''A song'', pstr ''music, pop'', pstr ''Music'', pstr ''t.jpg'',
        pstr ''NOTHINHG'', pstr ''dQw4w9WgXcQ'', pstr ''2009-10-25'', [], pstr ''Pending'']"
  by (simp add: video_data_of_def example_info_def PLAYLIST_ID_legacy_def format_upload_date_def
      pstr_def)

text \<open>
  The run of src/youtube_manager.py on the identifier \<^verbatim>\<open>dQw4w9WgXcQ\<close> with the example
  collaborators, from a world whose worksheet has the right header row and whose
  temporary file does not exist: up to the upload, and then with the identifier already in
  column 7 or not.
\<close>

lemma example_legacy_upload:
  assumes "sheets_error env = (\<lambda>op. None)" "fs_error env = (\<lambda>op. None)"
    and "extract_info env example_url = Inr (Some example_info)"
    and "extract_info_download env example_url = Inr (Some example_info, Some n)"
    and "conf env = \<lparr>ROOT_DIR = [pstr ''app''], KEEP_FILE = True\<rparr>"
    and "media_upload env = UploadResponds (Some (pstr ''abc123''))"
    and "hd (sheet w) = HEADERS_legacy" "sheet w \<noteq> []"
    and "w1 = w\<lparr>calls := calls w @ [Sheets OpenByKey, Sheets (RowValues 1)]\<rparr>"
    and "w2 = add_call (ExtractInfo example_url False) w1"
    and "w3 = w2\<lparr>files := (files w2)(example_temp_legacy := None, example_final_legacy \<mapsto> n,
                                    example_backup_legacy \<mapsto> n),
                calls := calls w2 @ [Fs (Mkdir [pstr ''app'', pstr ''Videos'']),
                   ExtractInfo example_url True,
                   Fs (Rename example_temp_legacy example_final_legacy),
                   Fs (Copy example_final_legacy example_backup_legacy)]\<rparr>"
  shows "validate_youtube_url_legacy (url_lib env) (pstr ''dQw4w9WgXcQ'')
           = Inr (pstr ''dQw4w9WgXcQ'')"
    and "get_or_create_sheet env w = (Inr (), w1)"
    and "get_video_data env w1 (pstr ''https://www.youtube.com/watch?v='' @ pstr ''dQw4w9WgXcQ'')
           = (Inr (video_data_of example_info), w2)"
    and "download_video_legacy env w2
           (pstr ''https://www.youtube.com/watch?v='' @ pstr ''dQw4w9WgXcQ'')
           = (Inr example_final_legacy, w3)"
    and "upload_to_drive env w3 example_final_legacy
           = (Inr (Some (pstr ''abc123'')), add_call (DriveUpload example_final_legacy) w3)"
    and "pstr ''abc123'' \<noteq> []"
    and "sheets_error env (ColValues 7) = None"
proof -
  show "validate_youtube_url_legacy (url_lib env) (pstr ''dQw4w9WgXcQ'')
      = Inr (pstr ''dQw4w9WgXcQ'')"
    by (rule validate_legacy_example)
  from example_sheet_legacy [OF assms(1,7,8)] assms(9)
  show "get_or_create_sheet env w = (Inr (), w1)" by simp
  from get_video_data_ok [OF assms(3), of w1] assms(10)
  show "get_video_data env w1 (pstr ''https://www.youtube.com/watch?v='' @ pstr ''dQw4w9WgXcQ'')
      = (Inr (video_data_of example_info), w2)"
    by (simp add: example_url_def)
  from example_download_legacy [OF assms(4,2,5), of w2] assms(11)
  show "download_video_legacy env w2
      (pstr ''https://www.youtube.com/watch?v='' @ pstr ''dQw4w9WgXcQ'')
      = (Inr example_final_legacy, w3)"
    by (simp add: example_url_def)
  have "files w3 example_final_legacy = Some n"
    by (simp add: assms(11) example_files_legacy)
  from upload_to_drive_ok [OF this assms(6)]
  show "upload_to_drive env w3 example_final_legacy
      = (Inr (Some (pstr ''abc123'')), add_call (DriveUpload example_final_legacy) w3)" .
  show "pstr ''abc123'' \<noteq> []" by (simp add: pstr_def)
  show "sheets_error env (ColValues 7) = None" by (simp add: assms(1))
qed

lemma example_env_legacy:
  "sheets_error example_env = (\<lambda>op. None)" "fs_error example_env = (\<lambda>op. None)"
  "extract_info example_env example_url = Inr (Some example_info)"
  "extract_info_download example_env example_url = Inr (Some example_info, Some 1000)"
  "conf example_env = \<lparr>ROOT_DIR = [pstr ''app''], KEEP_FILE = True\<rparr>"
  "media_upload example_env = UploadResponds (Some (pstr ''abc123''))"
  by (simp_all add: example_env_def)

lemma example_known_column:
  "video_data_of example_info ! 6 \<in> set (col_values (sheet example_world_legacy_known) 7)"
  by (simp add: example_world_legacy_known_def example_video_data col_values_def
      drop_trailing_empty_def HEADERS_legacy_def) (simp add: pstr_def)

text \<open>Claim C1, as amended, at the example run with the video's row already in the sheet.\<close>

theorem duplicate_found_after_upload_witness:
  "fst (process_video_legacy example_env example_world_legacy_known (pstr ''dQw4w9WgXcQ''))
     = Inr False \<and>
   sheet (snd (process_video_legacy example_env example_world_legacy_known
     (pstr ''dQw4w9WgXcQ''))) = [HEADERS_legacy, video_data_of example_info] \<and>
   filter is_append_row (calls (snd (process_video_legacy example_env
     example_world_legacy_known (pstr ''dQw4w9WgXcQ'')))) = [] \<and>
   prefix [Sheets OpenByKey, Sheets (RowValues 1), ExtractInfo example_url False,
           Fs (Mkdir [pstr ''app'', pstr ''Videos'']), ExtractInfo example_url True,
           Fs (Rename example_temp_legacy example_final_legacy),
           Fs (Copy example_final_legacy example_backup_legacy),
           DriveUpload example_final_legacy, Sheets (ColValues 7)]
     (calls (snd (process_video_legacy example_env example_world_legacy_known
        (pstr ''dQw4w9WgXcQ''))))"
proof -
  have h: "hd (sheet example_world_legacy_known) = HEADERS_legacy"
    "sheet example_world_legacy_known \<noteq> []"
    by (simp_all add: example_world_legacy_known_def)
  note st = example_legacy_upload [OF example_env_legacy h refl refl refl]
  have d: "video_data_of example_info ! 6 \<in> set (col_values
      (sheet (example_world_legacy_known\<lparr>calls := calls example_world_legacy_known
         @ [Sheets OpenByKey, Sheets (RowValues 1)]\<rparr>)) 7)"
    using example_known_column by simp
  from duplicate_found_after_upload [OF st d]
  show ?thesis by (simp add: add_call_def example_world_legacy_known_def)
qed

section \<open>Runs of the pipeline of app/ that succeed\<close>

lemma process_video_uploaded:
  assumes "UPLOAD_TO_DRIVE (cfg env)"
    and "validate_youtube_url (url_lib env) url = Inr vid"
    and "fst (get_video_info env w url) = Inr info"
    and "sheets_error env (AppendRow (row_data env info None)) = None"
    and "w2 = (add_call (Sheets (AppendRow (row_data env info None)))
                (add_call (ExtractInfo url False) w))
              \<lparr>sheet := sheet w @ [row_data env info None]\<rparr>"
    and "download_video env w2 url info = (Inr p, w3)"
    and "upload_file env w3 p = (Inr fid, w4)"
    and "update_video_status env w4 vid (pstr ''Completed'') (Some fid) (Some (vi_title info))
           = (Inr (), w5)"
  shows "process_video env w url
           = (if KEEP_FILES (cfg env) then (Inr (), w5)
              else (case unlink env w5 p of
                      (Inl e, w) \<Rightarrow> (Inl (ProcessingError (pstr ''Processing error: '' @ str_of e)), w)
                    | (Inr u, w) \<Rightarrow> (Inr (), w)))"
proof -
  note s = process_video_try_after_add_video [OF assms(2-5)]
  from upload_file_Inr [OF assms(7)] have "fid \<noteq> []" by simp
  with assms s show ?thesis
    by (simp add: process_video_def process_video_try_def split: prod.splits sum.splits)
qed

lemma process_video_without_upload:
  assumes "\<not> UPLOAD_TO_DRIVE (cfg env)"
    and "validate_youtube_url (url_lib env) url = Inr vid"
    and "fst (get_video_info env w url) = Inr info"
    and "sheets_error env (AppendRow (row_data env info None)) = None"
    and "w2 = (add_call (Sheets (AppendRow (row_data env info None)))
                (add_call (ExtractInfo url False) w))
              \<lparr>sheet := sheet w @ [row_data env info None]\<rparr>"
    and "download_video env w2 url info = (Inr video_path, w3)"
    and "vi_title info \<noteq> []"
    and "sheets_error env (Find (vi_title info)) = None"
    and "find_cell (sheet w3) (vi_title info) = Some (r, c)"
    and "sheets_error env
           (UpdateCell r (column_of HEADERS (pstr ''Drive File ID'')) (path_str video_path)) = None"
  shows "process_video env w url
           = (Inr (),
              w3\<lparr>sheet := set_cell (sheet w3) r (column_of HEADERS (pstr ''Drive File ID''))
                            (path_str video_path),
                 calls := calls w3 @ [Sheets (Find (vi_title info)),
                   Sheets (UpdateCell r (column_of HEADERS (pstr ''Drive File ID''))
                     (path_str video_path))]\<rparr>)"
proof -
  note s = process_video_try_after_add_video [OF assms(2-5)]
  from download_video_Inr [OF assms(6)]
  have "video_path = get_video_path (vi_id info) (vi_title info) (PROCESSED_DIR (cfg env)) False"
    by simp
  then have ne: "path_str video_path \<noteq> []" by (simp add: path_str_final_path)
  note u = update_video_status_completed_locally [OF assms(7) ne assms(8-10)]
  from assms(1,2,6) s u show ?thesis
    by (simp add: process_video_def process_video_try_def)
qed


lemma example_paths:
  assumes "BASE_DIR s = [pstr ''app'']"
  shows "get_video_path (pstr ''dQw4w9WgXcQ'') (pstr ''Song'') (VIDEO_DIR s) True = example_temp"
    and "get_video_path (pstr ''dQw4w9WgXcQ'') (pstr ''Song'') (PROCESSED_DIR s) False
           = example_final"
    and "path_str example_final = pstr ''app/storage/videos/processed/Song_dQw4w9WgXcQ.mp4''"
    and "example_temp \<noteq> example_final"
proof -
  from assms show "get_video_path (pstr ''dQw4w9WgXcQ'') (pstr ''Song'') (VIDEO_DIR s) True
      = example_temp"
    by (simp add: get_video_path_def sanitize_Song VIDEO_DIR_def example_temp_def)
       (simp add: pstr_def)
  from assms show "get_video_path (pstr ''dQw4w9WgXcQ'') (pstr ''Song'') (PROCESSED_DIR s) False
      = example_final"
    by (simp add: example_final_path example_final_def)
  show "path_str example_final = pstr ''app/storage/videos/processed/Song_dQw4w9WgXcQ.mp4''"
    by (simp add: path_str_def example_final_def) (simp add: pstr_def)
  show "example_temp \<noteq> example_final"
    by (simp add: example_temp_def example_final_def pstr_def)
qed

text \<open>
  The run of the pipeline of app/ on the identifier \<^verbatim>\<open>dQw4w9WgXcQ\<close> with the example
  collaborators, from any world: up to the end of the download, and then to its end with
  and without upload. \<open>r\<close> is the row in which \<^verbatim>\<open>find\<close> meets the title.
\<close>

lemma example_run_download:
  assumes "extract_info env (pstr ''dQw4w9WgXcQ'') = Inr (Some example_info)"
    and "sheets_error env = (\<lambda>op. None)" "fs_error env = (\<lambda>op. None)"
    and "ydl_download env (pstr ''dQw4w9WgXcQ'') = Inr (Some 1000)"
    and "BASE_DIR (cfg env) = [pstr ''app'']"
    and "row_data env example_video_info None = example_row"
    and "w2 = (add_call (Sheets (AppendRow (row_data env example_video_info None)))
                (add_call (ExtractInfo (pstr ''dQw4w9WgXcQ'') False) w))
              \<lparr>sheet := sheet w @ [row_data env example_video_info None]\<rparr>"
    and "w3 = w\<lparr>sheet := sheet w @ [example_row],
                files := (files w)(example_temp := None, example_final \<mapsto> 1000),
                calls := calls w @ [ExtractInfo (pstr ''dQw4w9WgXcQ'') False,
                  Sheets (AppendRow example_row), Fs (Mkdir (butlast example_temp)),
                  YdlDownload (pstr ''dQw4w9WgXcQ'') example_temp,
                  Fs (Mkdir (butlast example_final)), Fs (Rename example_temp example_final)]\<rparr>"
  shows "validate_youtube_url (url_lib env) (pstr ''dQw4w9WgXcQ'') = Inr (pstr ''dQw4w9WgXcQ'')"
    and "fst (get_video_info env w (pstr ''dQw4w9WgXcQ'')) = Inr example_video_info"
    and "sheets_error env (AppendRow (row_data env example_video_info None)) = None"
    and "download_video env w2 (pstr ''dQw4w9WgXcQ'') example_video_info = (Inr example_final, w3)"
proof -
  show "validate_youtube_url (url_lib env) (pstr ''dQw4w9WgXcQ'') = Inr (pstr ''dQw4w9WgXcQ'')"
    by (rule validate_example)
  show "fst (get_video_info env w (pstr ''dQw4w9WgXcQ'')) = Inr example_video_info"
    by (simp add: example_get_video_info assms(1))
  show "sheets_error env (AppendRow (row_data env example_video_info None)) = None"
    by (simp add: assms(2))
  from example_download [OF assms(4,3), of w2] example_paths(1,2) [OF assms(5)] assms(6,7,8)
  show "download_video env w2 (pstr ''dQw4w9WgXcQ'') example_video_info = (Inr example_final, w3)"
    by (simp add: add_call_def)
qed

lemma example_run_local:
  assumes "extract_info env (pstr ''dQw4w9WgXcQ'') = Inr (Some example_info)"
    and "sheets_error env = (\<lambda>op. None)" "fs_error env = (\<lambda>op. None)"
    and "ydl_download env (pstr ''dQw4w9WgXcQ'') = Inr (Some 1000)"
    and "BASE_DIR (cfg env) = [pstr ''app'']"
    and "row_data env example_video_info None = example_row"
    and "\<not> UPLOAD_TO_DRIVE (cfg env)"
    and "find_cell (sheet w @ [example_row]) (pstr ''Song'') = Some (r, c)"
  shows "process_video env w (pstr ''dQw4w9WgXcQ'')
     = (Inr (),
        w\<lparr>sheet := set_cell (sheet w @ [example_row]) r 5
                      (pstr ''app/storage/videos/processed/Song_dQw4w9WgXcQ.mp4''),
          files := (files w)(example_temp := None, example_final \<mapsto> 1000),
          calls := calls w @ [ExtractInfo (pstr ''dQw4w9WgXcQ'') False,
            Sheets (AppendRow example_row), Fs (Mkdir (butlast example_temp)),
            YdlDownload (pstr ''dQw4w9WgXcQ'') example_temp,
            Fs (Mkdir (butlast example_final)), Fs (Rename example_temp example_final),
            Sheets (Find (pstr ''Song'')),
            Sheets (UpdateCell r 5 (pstr ''app/storage/videos/processed/Song_dQw4w9WgXcQ.mp4''))]\<rparr>)"
proof -
  note d = example_run_download [OF assms(1-6) refl refl]
  have t: "vi_title example_video_info = pstr ''Song''" "pstr ''Song'' \<noteq> []"
    by (simp_all add: example_video_info_def pstr_def)
  from process_video_without_upload [OF assms(7) d(1,2,3) refl d(4), where r=r and c=c and w=w]
    t assms(2,8) example_paths(3) [OF assms(5)]
  show ?thesis by (simp add: column_of_HEADERS)
qed

lemma example_run_uploaded:
  assumes "extract_info env (pstr ''dQw4w9WgXcQ'') = Inr (Some example_info)"
    and "sheets_error env = (\<lambda>op. None)" "fs_error env = (\<lambda>op. None)"
    and "ydl_download env (pstr ''dQw4w9WgXcQ'') = Inr (Some 1000)"
    and "BASE_DIR (cfg env) = [pstr ''app'']"
    and "row_data env example_video_info None = example_row"
    and "UPLOAD_TO_DRIVE (cfg env)"
    and "find_cell (sheet w @ [example_row]) (pstr ''Song'') = Some (r, c)"
    and "media_upload env = UploadResponds (Some (pstr ''abc123''))"
    and "w5 = w\<lparr>sheet := set_cell (set_cell (sheet w @ [example_row]) r 9 (pstr ''Completed''))
                          r 5 (pstr ''abc123''),
                files := (files w)(example_temp := None, example_final \<mapsto> 1000),
                calls := calls w @ [ExtractInfo (pstr ''dQw4w9WgXcQ'') False,
                  Sheets (AppendRow example_row), Fs (Mkdir (butlast example_temp)),
                  YdlDownload (pstr ''dQw4w9WgXcQ'') example_temp,
                  Fs (Mkdir (butlast example_final)), Fs (Rename example_temp example_final),
                  DriveUpload example_final, Sheets (Find (pstr ''Song'')),
                  Sheets (UpdateCell r 9 (pstr ''Completed'')),
                  Sheets (UpdateCell r 5 (pstr ''abc123''))]\<rparr>"
  shows "process_video env w (pstr ''dQw4w9WgXcQ'')
     = (if KEEP_FILES (cfg env) then (Inr (), w5)
        else (Inr (), w5\<lparr>files := (files w5)(example_final := None),
                         calls := calls w5 @ [Fs (Unlink example_final)]\<rparr>))"
proof -
  let ?w3 = "w\<lparr>sheet := sheet w @ [example_row],
                files := (files w)(example_temp := None, example_final \<mapsto> 1000),
                calls := calls w @ [ExtractInfo (pstr ''dQw4w9WgXcQ'') False,
                  Sheets (AppendRow example_row), Fs (Mkdir (butlast example_temp)),
                  YdlDownload (pstr ''dQw4w9WgXcQ'') example_temp,
                  Fs (Mkdir (butlast example_final)), Fs (Rename example_temp example_final)]\<rparr>"
  note d = example_run_download [OF assms(1-6) refl refl]
  have f: "files ?w3 example_final = Some 1000" by simp
  have ne: "pstr ''abc123'' \<noteq> []" "pstr ''Song'' \<noteq> []" by (simp_all add: pstr_def)
  note u = upload_file_success [OF f assms(9) ne(1)]
  have t: "vi_title example_video_info = pstr ''Song''" by (simp add: example_video_info_def)
  have s: "update_video_status env (add_call (DriveUpload example_final) ?w3)
      (pstr ''dQw4w9WgXcQ'') (pstr ''Completed'') (Some (pstr ''abc123''))
      (Some (vi_title example_video_info)) = (Inr (), w5)"
    unfolding t
    by (subst update_video_status_completed [where r=r and c=c])
       (simp_all add: ne assms(2,8,10) add_call_def column_of_HEADERS)
  have ul: "unlink env w5 example_final
      = (Inr (), w5\<lparr>files := (files w5)(example_final := None),
                      calls := calls w5 @ [Fs (Unlink example_final)]\<rparr>)"
    by (simp add: unlink_def Let_def add_call_def assms(3,10))
  from process_video_uploaded [OF assms(7) d(1,2,3) refl d(4) u s] ul
  show ?thesis by simp
qed

section \<open>The two pipelines on the example\<close>

lemma example_env_app:
  assumes "BASE_DIR c = [pstr ''app'']" "PLAYLIST_ID c = None"
  shows "extract_info (example_env\<lparr>cfg := c\<rparr>) (pstr ''dQw4w9WgXcQ'') = Inr (Some example_info)"
    and "sheets_error (example_env\<lparr>cfg := c\<rparr>) = (\<lambda>op. None)"
    and "fs_error (example_env\<lparr>cfg := c\<rparr>) = (\<lambda>op. None)"
    and "ydl_download (example_env\<lparr>cfg := c\<rparr>) (pstr ''dQw4w9WgXcQ'') = Inr (Some 1000)"
    and "BASE_DIR (cfg (example_env\<lparr>cfg := c\<rparr>)) = [pstr ''app'']"
    and "row_data (example_env\<lparr>cfg := c\<rparr>) example_video_info None = example_row"
  using assms
  by (simp_all add: example_env_def row_data_def example_video_info_def example_row_def)

lemma example_cfg:
  "BASE_DIR (cfg example_env) = [pstr ''app'']" "PLAYLIST_ID (cfg example_env) = None"
  "KEEP_FILES (cfg example_env)" "UPLOAD_TO_DRIVE (cfg example_env)"
  "example_env\<lparr>cfg := cfg example_env\<rparr> = example_env"
  "media_upload (example_env\<lparr>cfg := c\<rparr>) = UploadResponds (Some (pstr ''abc123''))"
  by (simp_all add: example_env_def)

lemma example_find:
  "find_cell (sheet example_world @ [example_row]) (pstr ''Song'') = Some (2, 1)"
  "find_cell (sheet example_world_known @ [example_row]) (pstr ''Song'') = Some (2, 1)"
  by (simp_all add: example_world_def example_world_known_def example_row_def example_old_row_def
      find_cell_def HEADERS_def pstr_def)

lemma process_video_legacy_updated:
  assumes "validate_youtube_url_legacy (url_lib env) url = Inr vid"
    and "get_or_create_sheet env w = (Inr (), w1)"
    and "get_video_data env w1 (pstr ''https://www.youtube.com/watch?v='' @ vid)
           = (Inr video_data, w2)"
    and "download_video_legacy env w2 (pstr ''https://www.youtube.com/watch?v='' @ vid)
           = (Inr video_path, w3)"
    and "upload_to_drive env w3 video_path = (Inr (Some drive_file_id), w4)"
    and "drive_file_id \<noteq> []"
    and "update_spreadsheet env w4 video_data drive_file_id = (Inr b, w5)"
  shows "process_video_legacy env w url = (Inr b, cleanup_legacy env w5 (Some video_path))"
proof -
  from get_video_data_Inr [OF assms(3)] have "video_data \<noteq> []" by auto
  with assms show ?thesis
    by (simp add: process_video_legacy_def process_video_legacy_try_def Let_def)
qed

lemma example_legacy_success:
  "fst (process_video_legacy example_env example_world_legacy (pstr ''dQw4w9WgXcQ'')) = Inr True"
  "files (snd (process_video_legacy example_env example_world_legacy (pstr ''dQw4w9WgXcQ'')))
     example_final_legacy = None"
  "last (calls (snd (process_video_legacy example_env example_world_legacy
     (pstr ''dQw4w9WgXcQ'')))) = Fs (Unlink example_final_legacy)"
  "sheet (snd (process_video_legacy example_env example_world_legacy (pstr ''dQw4w9WgXcQ'')))
     = [HEADERS_legacy, (video_data_of example_info)[8 := pstr ''abc123'', 9 := pstr ''Completed'']]"
proof -
  have h: "hd (sheet example_world_legacy) = HEADERS_legacy" "sheet example_world_legacy \<noteq> []"
    by (simp_all add: example_world_legacy_def)
  note st = example_legacy_upload [OF example_env_legacy h refl refl refl]
  let ?w3 = "(add_call (ExtractInfo example_url False)
      (example_world_legacy\<lparr>calls := calls example_world_legacy
         @ [Sheets OpenByKey, Sheets (RowValues 1)]\<rparr>))
      \<lparr>files := (files (add_call (ExtractInfo example_url False)
            (example_world_legacy\<lparr>calls := calls example_world_legacy
               @ [Sheets OpenByKey, Sheets (RowValues 1)]\<rparr>)))
          (example_temp_legacy := None, example_final_legacy \<mapsto> 1000,
           example_backup_legacy \<mapsto> 1000),
       calls := calls (add_call (ExtractInfo example_url False)
            (example_world_legacy\<lparr>calls := calls example_world_legacy
               @ [Sheets OpenByKey, Sheets (RowValues 1)]\<rparr>))
          @ [Fs (Mkdir [pstr ''app'', pstr ''Videos'']), ExtractInfo example_url True,
             Fs (Rename example_temp_legacy example_final_legacy),
             Fs (Copy example_final_legacy example_backup_legacy)]\<rparr>"
  let ?w4 = "add_call (DriveUpload example_final_legacy) ?w3"
  have n: "video_data_of example_info ! 6 \<notin> set (col_values (sheet ?w4) 7)"
    by (simp add: add_call_def example_world_legacy_def example_video_data col_values_def
        drop_trailing_empty_def HEADERS_legacy_def) (simp add: pstr_def)
  have l: "length (video_data_of example_info) = 10" by (simp add: example_video_data)
  note us = update_spreadsheet_new [OF st(7) n l refl, of "pstr ''abc123''"]
  have a: "sheets_error example_env (AppendRow
      ((video_data_of example_info)[8 := pstr ''abc123'', 9 := pstr ''Completed''])) = None"
    by (simp add: example_env_legacy)
  note p = process_video_legacy_updated [OF st(1-6) us [OF a]]
  from p show "fst (process_video_legacy example_env example_world_legacy (pstr ''dQw4w9WgXcQ''))
      = Inr True"
    by simp
  from p show "files (snd (process_video_legacy example_env example_world_legacy
      (pstr ''dQw4w9WgXcQ''))) example_final_legacy = None"
    by (simp add: cleanup_legacy_def unlink_quietly_def add_call_def example_files_legacy
        example_env_legacy)
  from p show "last (calls (snd (process_video_legacy example_env example_world_legacy
      (pstr ''dQw4w9WgXcQ'')))) = Fs (Unlink example_final_legacy)"
    by (simp add: cleanup_legacy_def unlink_quietly_def add_call_def example_files_legacy
        example_env_legacy)
  from p show "sheet (snd (process_video_legacy example_env example_world_legacy
      (pstr ''dQw4w9WgXcQ'')))
      = [HEADERS_legacy, (video_data_of example_info)[8 := pstr ''abc123'', 9 := pstr ''Completed'']]"
    by (simp add: cleanup_legacy_frame add_call_def example_world_legacy_def)
qed




text \<open>
  Claim C1 as stated fails. In the pipeline of src/youtube_manager.py a run on an
  identifier that is already in column 7 returns \<open>False\<close>, and has called the upload. In
  the pipeline of app/, which has no duplicate check, a run on a title that is already in
  the worksheet succeeds with an upload, and the worksheet ends with a second row for it.
\<close>

theorem duplicate_is_uploaded_and_app_appends_again:
  "fst (process_video_legacy example_env example_world_legacy_known (pstr ''dQw4w9WgXcQ''))
     = Inr False \<and>
   filter is_upload (calls (snd (process_video_legacy example_env example_world_legacy_known
     (pstr ''dQw4w9WgXcQ'')))) = [DriveUpload example_final_legacy] \<and>
   fst (process_video example_env example_world_known (pstr ''dQw4w9WgXcQ'')) = Inr () \<and>
   filter is_upload (calls (snd (process_video example_env example_world_known
     (pstr ''dQw4w9WgXcQ'')))) = [DriveUpload example_final] \<and>
   length (sheet (snd (process_video example_env example_world_known (pstr ''dQw4w9WgXcQ''))))
     = 3 \<and>
   last (sheet (snd (process_video example_env example_world_known (pstr ''dQw4w9WgXcQ''))))
     = example_row"
proof -
  have h: "hd (sheet example_world_legacy_known) = HEADERS_legacy"
    "sheet example_world_legacy_known \<noteq> []"
    by (simp_all add: example_world_legacy_known_def)
  note st = example_legacy_upload [OF example_env_legacy h refl refl refl]
  have d: "video_data_of example_info ! 6 \<in> set (col_values
      (sheet (example_world_legacy_known\<lparr>calls := calls example_world_legacy_known
         @ [Sheets OpenByKey, Sheets (RowValues 1)]\<rparr>)) 7)"
    using example_known_column by simp
  from process_video_legacy_duplicate(1) [OF st d]
  have l: "fst (process_video_legacy example_env example_world_legacy_known
      (pstr ''dQw4w9WgXcQ'')) = Inr False"
    "filter is_upload (calls (snd (process_video_legacy example_env example_world_legacy_known
      (pstr ''dQw4w9WgXcQ'')))) = [DriveUpload example_final_legacy]"
    by (simp_all add: cleanup_legacy_frame add_call_def example_world_legacy_known_def)
  note e1 = example_env_app [OF example_cfg(1,2), unfolded example_cfg(5)]
  have m1: "media_upload example_env = UploadResponds (Some (pstr ''abc123''))"
    by (simp add: example_env_def)
  note r = example_run_uploaded [OF e1 example_cfg(4) example_find(2) m1 refl]
  from r example_cfg(3) have a:
    "fst (process_video example_env example_world_known (pstr ''dQw4w9WgXcQ'')) = Inr ()"
    "filter is_upload (calls (snd (process_video example_env example_world_known
      (pstr ''dQw4w9WgXcQ'')))) = [DriveUpload example_final]"
    "sheet (snd (process_video example_env example_world_known (pstr ''dQw4w9WgXcQ'')))
       = set_cell (set_cell [HEADERS, example_old_row, example_row] 2 9 (pstr ''Completed''))
           2 5 (pstr ''abc123'')"
    by (simp_all add: example_world_known_def)
  have "set_cell (set_cell [HEADERS, example_old_row, example_row] 2 9 (pstr ''Completed''))
      2 5 (pstr ''abc123'')
      = [HEADERS, example_old_row[8 := pstr ''Completed'', 4 := pstr ''abc123''], example_row]"
    by (simp add: set_cell_def Let_def example_old_row_def)
  with a l show ?thesis by simp
qed

text \<open>
  Claim C2 as stated fails. In the pipeline of src/youtube_manager.py nothing is appended
  before the download: when the download fails on the network, the run fails, no
  \<^verbatim>\<open>append_row\<close> has been called and the worksheet holds its header row only. When the run
  succeeds, the one row it appends already says \<^verbatim>\<open>Completed\<close>.
\<close>

theorem legacy_appends_nothing_before_download:
  "fst (process_video_legacy
     (example_env\<lparr>extract_info_download := (\<lambda>u. Inl (URLError (pstr ''timed out'')))\<rparr>)
     example_world_legacy (pstr ''dQw4w9WgXcQ''))
   = Inl (YouTubeDataError (pstr ''Video download failed: timed out'')) \<and>
   sheet (snd (process_video_legacy
     (example_env\<lparr>extract_info_download := (\<lambda>u. Inl (URLError (pstr ''timed out'')))\<rparr>)
     example_world_legacy (pstr ''dQw4w9WgXcQ''))) = [HEADERS_legacy] \<and>
   filter is_append_row (calls (snd (process_video_legacy
     (example_env\<lparr>extract_info_download := (\<lambda>u. Inl (URLError (pstr ''timed out'')))\<rparr>)
     example_world_legacy (pstr ''dQw4w9WgXcQ'')))) = [] \<and>
   sheet (snd (process_video_legacy example_env example_world_legacy (pstr ''dQw4w9WgXcQ'')))
     = [HEADERS_legacy, (video_data_of example_info)[8 := pstr ''abc123'', 9 := pstr ''Completed'']]"
proof -
  let ?env = "example_env\<lparr>extract_info_download := (\<lambda>u. Inl (URLError (pstr ''timed out'')))\<rparr>"
  let ?w1 = "example_world_legacy\<lparr>calls := calls example_world_legacy
      @ [Sheets OpenByKey, Sheets (RowValues 1)]\<rparr>"
  have e: "sheets_error ?env = (\<lambda>op. None)" by (simp add: example_env_def)
  have h: "hd (sheet example_world_legacy) = HEADERS_legacy" "sheet example_world_legacy \<noteq> []"
    by (simp_all add: example_world_legacy_def)
  note s = example_sheet_legacy [OF e h]
  have x: "extract_info ?env example_url = Inr (Some example_info)" by (simp add: example_env_def)
  note g = get_video_data_ok [OF x, of ?w1]
  have d: "download_video_legacy ?env (add_call (ExtractInfo example_url False) ?w1) example_url
      = (Inl (YouTubeDataError (pstr ''Video download failed: '' @ pstr ''timed out'')),
         (add_call (ExtractInfo example_url False) ?w1)
           \<lparr>calls := calls (add_call (ExtractInfo example_url False) ?w1)
              @ [Fs (Mkdir (VIDEOS_DIR (conf ?env))), ExtractInfo example_url True]\<rparr>)"
    by (simp add: download_video_legacy_def download_video_legacy_try_def ensure_video_dir_def
        Let_def add_call_def example_env_def)
  have "video_data_of example_info \<noteq> []" by (simp add: example_video_data)
  with s g d have "process_video_legacy ?env example_world_legacy (pstr ''dQw4w9WgXcQ'')
      = (Inl (YouTubeDataError (pstr ''Video download failed: '' @ pstr ''timed out'')),
         (add_call (ExtractInfo example_url False) ?w1)
           \<lparr>calls := calls (add_call (ExtractInfo example_url False) ?w1)
              @ [Fs (Mkdir (VIDEOS_DIR (conf ?env))), ExtractInfo example_url True]\<rparr>)"
    by (simp add: process_video_legacy_def process_video_legacy_try_def Let_def
        validate_legacy_example cleanup_legacy_def example_url_def)
  with example_legacy_success(4) show ?thesis
    by (simp add: add_call_def example_world_legacy_def) (simp add: pstr_def)
qed

text \<open>
  Claim C6 as stated fails. In the pipeline of app/ a download that leaves no file makes
  \<open>download_video\<close> raise a \<open>DownloadError\<close>, but what \<open>process_video\<close> raises is a
  \<open>ProcessingError\<close>. In the pipeline of src/youtube_manager.py the size of the file is
  never tested: a download of zero bytes is renamed to its final name and returned.
\<close>

theorem empty_download_wrapped_by_app_and_promoted_by_legacy:
  "fst (process_video (example_env\<lparr>ydl_download := (\<lambda>u. Inr None)\<rparr>)
     example_world (pstr ''dQw4w9WgXcQ''))
   = Inl (ProcessingError
       (pstr ''Processing error: Failed to download video: Download completed but file not found'')) \<and>
   fst (download_video_legacy
     (example_env\<lparr>extract_info_download := (\<lambda>u. Inr (Some example_info, Some 0))\<rparr>)
     example_world_legacy example_url) = Inr example_final_legacy \<and>
   files (snd (download_video_legacy
     (example_env\<lparr>extract_info_download := (\<lambda>u. Inr (Some example_info, Some 0))\<rparr>)
     example_world_legacy example_url)) example_final_legacy = Some 0 \<and>
   filter is_rename (calls (snd (download_video_legacy
     (example_env\<lparr>extract_info_download := (\<lambda>u. Inr (Some example_info, Some 0))\<rparr>)
     example_world_legacy example_url)))
     = [Fs (Rename example_temp_legacy example_final_legacy)]"
proof -
  let ?env = "example_env\<lparr>ydl_download := (\<lambda>u. Inr None)\<rparr>"
  let ?u = "pstr ''dQw4w9WgXcQ''"
  let ?w2 = "(add_call (Sheets (AppendRow (row_data ?env example_video_info None)))
                (add_call (ExtractInfo ?u False) example_world))
              \<lparr>sheet := sheet example_world @ [row_data ?env example_video_info None]\<rparr>"
  have 1: "validate_youtube_url (url_lib ?env) ?u = Inr ?u" by (rule validate_example)
  have 2: "fst (get_video_info ?env example_world ?u) = Inr example_video_info"
    by (simp add: example_get_video_info example_env_def)
  have 3: "sheets_error ?env (AppendRow (row_data ?env example_video_info None)) = None"
    by (simp add: example_env_def)
  have d: "download_video ?env ?w2 ?u example_video_info
      = (Inl (DownloadError (pstr ''Failed to download video: ''
            @ pstr ''Download completed but file not found'')),
         snd (download_video ?env ?w2 ?u example_video_info))"
    by (simp add: download_video_def download_video_try_def mkdir_def Let_def add_call_def
        example_env_def example_world_def)
  from process_video_download_fails [OF 1 2 3 refl d]
  have a: "fst (process_video ?env example_world ?u)
      = Inl (ProcessingError (pstr ''Processing error: Failed to download video: Download completed but file not found''))"
    by (simp add: pstr_def)
  let ?lenv = "example_env\<lparr>extract_info_download := (\<lambda>u. Inr (Some example_info, Some 0))\<rparr>"
  have l: "extract_info_download ?lenv example_url = Inr (Some example_info, Some 0)"
    "fs_error ?lenv = (\<lambda>op. None)" "conf ?lenv = \<lparr>ROOT_DIR = [pstr ''app''], KEEP_FILE = True\<rparr>"
    by (simp_all add: example_env_def)
  note b = example_download_legacy [OF l, of example_world_legacy]
  from a b show ?thesis
    by (simp add: example_files_legacy example_world_legacy_def)
qed

subsection \<open>Without upload\<close>

lemma find_cell_new_row:
  assumes "\<forall>row \<in> set rows. q \<notin> set row" and "q \<in> set row"
  shows "find_cell (rows @ [row]) q
           = Some (Suc (length rows), Suc (length (takeWhile (\<lambda>v. v \<noteq> q) row)))"
proof -
  define xs where "xs = [1..<Suc (length rows)]"
  have len: "length xs = length rows" by (simp add: xs_def del: upt_Suc)
  have u: "[1..<Suc (length (rows @ [row]))] = xs @ [Suc (length rows)]"
    by (simp add: xs_def del: upt_Suc) (simp add: upt_Suc_append)
  from len have z: "zip (xs @ [Suc (length rows)]) (rows @ [row])
      = zip xs rows @ [(Suc (length rows), row)]"
    by simp
  from assms(1) have "filter (\<lambda>(r, row). q \<in> set row) (zip xs rows) = []"
    by (auto simp: filter_empty_conv dest: set_zip_rightD)
  with assms(2) show ?thesis unfolding find_cell_def u z by simp
qed

lemma set_cell_new_row:
  "c \<le> length row \<Longrightarrow> set_cell (rows @ [row]) (Suc (length rows)) c v = rows @ [row[c - 1 := v]]"
  by (simp add: set_cell_def Let_def)

text \<open>
  Claim C10, as amended. With \<open>UPLOAD_TO_DRIVE\<close> false, a valid input, the metadata fetched,
  the row appended, the download done and no error from \<^verbatim>\<open>find\<close> or \<^verbatim>\<open>update_cell\<close>, and when
  no row that the worksheet had before the run holds the title in one of its cells: the
  run succeeds without an upload call, and the worksheet ends as it was with one more row,
  the row of this run, whose Drive File ID cell holds the local path and whose Download
  Status cell still says \<^verbatim>\<open>Pending\<close>, since \<^verbatim>\<open>Completed Locally\<close> is not \<^verbatim>\<open>Completed\<close>.
\<close>

theorem completed_locally_writes_path_and_leaves_pending:
  assumes "\<not> UPLOAD_TO_DRIVE (cfg env)"
    and "validate_youtube_url (url_lib env) url = Inr vid"
    and "fst (get_video_info env w url) = Inr info"
    and "sheets_error env (AppendRow (row_data env info None)) = None"
    and "w2 = (add_call (Sheets (AppendRow (row_data env info None)))
                (add_call (ExtractInfo url False) w))
              \<lparr>sheet := sheet w @ [row_data env info None]\<rparr>"
    and "download_video env w2 url info = (Inr video_path, w3)"
    and "vi_title info \<noteq> []"
    and "sheets_error env (Find (vi_title info)) = None"
    and "\<forall>row \<in> set (sheet w). vi_title info \<notin> set row"
    and "sheets_error env (UpdateCell (Suc (length (sheet w)))
           (column_of HEADERS (pstr ''Drive File ID'')) (path_str video_path)) = None"
    and "row = (row_data env info None)
           [column_of HEADERS (pstr ''Drive File ID'') - 1 := path_str video_path]"
  shows "fst (process_video env w url) = Inr () \<and>
         filter is_upload (calls (snd (process_video env w url))) = filter is_upload (calls w) \<and>
         calls (snd (process_video env w url))
           = calls w3 @ [Sheets (Find (vi_title info)),
               Sheets (UpdateCell (Suc (length (sheet w)))
                 (column_of HEADERS (pstr ''Drive File ID'')) (path_str video_path))] \<and>
         sheet (snd (process_video env w url)) = sheet w @ [row] \<and>
         row ! (column_of HEADERS (pstr ''Title'') - 1) = vi_title info \<and>
         row ! (column_of HEADERS (pstr ''Drive File ID'') - 1) = path_str video_path \<and>
         row ! (column_of HEADERS (pstr ''Download Status'') - 1) = pstr ''Pending''"
proof -
  from download_video_sheetD [OF assms(6)] assms(5)
  have sh: "sheet w3 = sheet w @ [row_data env info None]" by simp
  have "vi_title info \<in> set (row_data env info None)" by (simp add: row_data_def)
  from find_cell_new_row [OF assms(9) this]
  have f: "find_cell (sheet w3) (vi_title info) = Some (Suc (length (sheet w)),
      Suc (length (takeWhile (\<lambda>v. v \<noteq> vi_title info) (row_data env info None))))"
    unfolding sh .
  note p = process_video_without_upload [OF assms(1-6) assms(7,8) f assms(10)]
  from download_video_no_unlink(2) [where env=env and w=w2 and url=url and m=info] assms(6)
  have "filter is_upload (calls w3) = filter is_upload (calls w2)" by simp
  with assms(5) have up: "filter is_upload (calls w3) = filter is_upload (calls w)"
    by (simp add: add_call_def)
  have t: "column_of HEADERS (pstr ''Title'') = 1"
    by (simp add: column_of_def HEADERS_def)
  have s: "set_cell (sheet w3) (Suc (length (sheet w))) 5 (path_str video_path) = sheet w @ [row]"
    unfolding sh assms(11) column_of_HEADERS
    by (simp add: set_cell_new_row row_data_status)
  from p up s show ?thesis
    by (simp add: column_of_HEADERS t) (simp add: assms(11) column_of_HEADERS row_data_status)
qed

text \<open>Claim C10, as amended, at the example run with \<open>UPLOAD_TO_DRIVE\<close> false.\<close>

theorem completed_locally_writes_path_and_leaves_pending_witness:
  "fst (process_video (example_env\<lparr>cfg := (cfg example_env)\<lparr>UPLOAD_TO_DRIVE := False\<rparr>\<rparr>)
     example_world (pstr ''dQw4w9WgXcQ'')) = Inr () \<and>
   filter is_upload (calls (snd (process_video
     (example_env\<lparr>cfg := (cfg example_env)\<lparr>UPLOAD_TO_DRIVE := False\<rparr>\<rparr>)
     example_world (pstr ''dQw4w9WgXcQ'')))) = [] \<and>
   sheet (snd (process_video
     (example_env\<lparr>cfg := (cfg example_env)\<lparr>UPLOAD_TO_DRIVE := False\<rparr>\<rparr>)
     example_world (pstr ''dQw4w9WgXcQ'')))
     = [HEADERS, example_row[4 := pstr ''app/storage/videos/processed/Song_dQw4w9WgXcQ.mp4'']] \<and>
   example_row[4 := pstr ''app/storage/videos/processed/Song_dQw4w9WgXcQ.mp4''] ! 8
     = pstr ''Pending''"
proof -
  let ?c = "(cfg example_env)\<lparr>UPLOAD_TO_DRIVE := False\<rparr>"
  let ?env = "example_env\<lparr>cfg := ?c\<rparr>"
  let ?u = "pstr ''dQw4w9WgXcQ''"
  let ?w2 = "(add_call (Sheets (AppendRow (row_data ?env example_video_info None)))
                (add_call (ExtractInfo ?u False) example_world))
              \<lparr>sheet := sheet example_world @ [row_data ?env example_video_info None]\<rparr>"
  have c: "BASE_DIR ?c = [pstr ''app'']" "PLAYLIST_ID ?c = None"
    by (simp_all add: example_cfg)
  note e = example_env_app [OF c]
  have 1: "\<not> UPLOAD_TO_DRIVE (cfg ?env)" by simp
  have 2: "validate_youtube_url (url_lib ?env) ?u = Inr ?u" by (rule validate_example)
  have 3: "fst (get_video_info ?env example_world ?u) = Inr example_video_info"
    unfolding example_get_video_info [OF e(1)] by simp
  have 4: "sheets_error ?env (AppendRow (row_data ?env example_video_info None)) = None"
    unfolding e(2) by simp
  have 6: "download_video ?env ?w2 ?u example_video_info
      = (Inr example_final, snd (download_video ?env ?w2 ?u example_video_info))"
    unfolding example_download [OF e(4) e(3)] example_paths(2) [OF e(5)] by simp
  have 7: "vi_title example_video_info \<noteq> []" by (simp add: example_video_info_def pstr_def)
  have 8: "sheets_error ?env (Find (vi_title example_video_info)) = None"
    unfolding e(2) by simp
  have 9: "\<forall>row \<in> set (sheet example_world). vi_title example_video_info \<notin> set row"
    by (simp add: example_world_def example_video_info_def HEADERS_def pstr_def)
  have 10: "sheets_error ?env (UpdateCell (Suc (length (sheet example_world)))
      (column_of HEADERS (pstr ''Drive File ID'')) (path_str example_final)) = None"
    unfolding e(2) by simp
  note th = completed_locally_writes_path_and_leaves_pending [OF 1 2 3 4 refl 6 7 8 9 10 refl]
  note a = th [THEN conjunct1]
    and b = th [THEN conjunct2, THEN conjunct1]
    and s = th [THEN conjunct2, THEN conjunct2, THEN conjunct2, THEN conjunct1]
    and d = th [THEN conjunct2, THEN conjunct2, THEN conjunct2, THEN conjunct2, THEN conjunct2,
      THEN conjunct2]
  from a b s d show ?thesis
    unfolding e(6) example_paths(3) [OF c(1)] column_of_HEADERS
    by (simp add: example_world_def)
qed

text \<open>
  Claim C10 as stated fails when an earlier row holds the title. \<^verbatim>\<open>find\<close> gives the first
  cell with the title, so the local path is written into the earlier row (row 2, whose
  Download Status is \<^verbatim>\<open>Completed\<close>), and the row of this run (row 3) keeps an empty Drive
  File ID cell.
\<close>

theorem local_path_written_into_earlier_row:
  "fst (process_video (example_env\<lparr>cfg := (cfg example_env)\<lparr>UPLOAD_TO_DRIVE := False\<rparr>\<rparr>)
     example_world_known (pstr ''dQw4w9WgXcQ'')) = Inr () \<and>
   sheet (snd (process_video
     (example_env\<lparr>cfg := (cfg example_env)\<lparr>UPLOAD_TO_DRIVE := False\<rparr>\<rparr>)
     example_world_known (pstr ''dQw4w9WgXcQ'')))
     = [HEADERS,
        example_old_row[4 := pstr ''app/storage/videos/processed/Song_dQw4w9WgXcQ.mp4''],
        example_row] \<and>
   example_old_row ! 8 = pstr ''Completed'' \<and>
   example_row ! 4 = []"
proof -
  let ?c = "(cfg example_env)\<lparr>UPLOAD_TO_DRIVE := False\<rparr>"
  have c: "BASE_DIR ?c = [pstr ''app'']" "PLAYLIST_ID ?c = None"
    by (simp_all add: example_cfg)
  have u: "\<not> UPLOAD_TO_DRIVE (cfg (example_env\<lparr>cfg := ?c\<rparr>))" by simp
  note r = example_run_local [OF example_env_app [OF c] u example_find(2)]
  have "set_cell (sheet example_world_known @ [example_row]) 2 5
      (pstr ''app/storage/videos/processed/Song_dQw4w9WgXcQ.mp4'')
      = [HEADERS,
         example_old_row[4 := pstr ''app/storage/videos/processed/Song_dQw4w9WgXcQ.mp4''],
         example_row]"
    by (simp add: set_cell_def Let_def example_world_known_def example_old_row_def)
  with r show ?thesis by (simp add: example_old_row_def example_row_def)
qed

end
